theory Spec2Isabelle
  imports Main "HOL-Library.Word"
begin

section \<open>Machine words\<close>

text \<open>
  The kernel's \<^verbatim>\<open>mword\<close> is an unsigned 64-bit integer. Addresses, sizes and
  orders are modelled as \<^typ>\<open>nat\<close>; wherever the C++ arithmetic can wrap around, the
  truncation to 64 bits is written out with \<open>mword\<close>.
\<close>

definition mword :: "nat \<Rightarrow> nat" where
  "mword x = x mod 2 ^ 64"

text \<open>\<^verbatim>\<open>a - b\<close> on two machine words.\<close>

definition mword_sub :: "nat \<Rightarrow> nat \<Rightarrow> nat" where
  "mword_sub a b = (a + 2 ^ 64 - b mod 2 ^ 64) mod 2 ^ 64"

text \<open>\<^verbatim>\<open>PAGE_BITS\<close> of x86-64 (4 KiB pages); the constant is declared in a header.\<close>

definition PAGE_BITS :: nat where
  "PAGE_BITS = 12"

section \<open>Mapping database of a space (space.cpp)\<close>

text \<open>
  A node of the mapping database, with the fields that \<^verbatim>\<open>Space::addreg\<close>,
  \<^verbatim>\<open>Space::delreg\<close> and \<^verbatim>\<open>sys_pd_ctrl_lookup\<close> read and write.
\<close>

record mdb_node =
  node_phys :: nat
  node_base :: nat
  node_order :: nat
  node_attr :: nat
  node_type :: nat

text \<open>
  \<^verbatim>\<open>new Mdb (nullptr, phys, base, order, attr, type)\<close>: a node that belongs to no
  space yet.
\<close>

definition Mdb_new :: "nat \<Rightarrow> nat \<Rightarrow> nat \<Rightarrow> nat \<Rightarrow> nat \<Rightarrow> mdb_node" where
  "Mdb_new phys base ord attr ty =
     \<lparr>node_phys = phys, node_base = base, node_order = ord, node_attr = attr, node_type = ty\<rparr>"

text \<open>
  The tree of a space: its nodes in key order (the in-order traversal of the tree; how
  the tree is balanced is not something the operations below observe).
\<close>

type_synonym mdb_tree = "mdb_node list"

text \<open>The range \<open>[base, base + 2^order)\<close> of a node covers an index.\<close>

definition covers :: "mdb_node \<Rightarrow> nat \<Rightarrow> bool" where
  "covers n idx \<longleftrightarrow> node_base n \<le> idx \<and> idx < node_base n + 2 ^ node_order n"

definition overlap :: "mdb_node \<Rightarrow> mdb_node \<Rightarrow> bool" where
  "overlap m n \<longleftrightarrow>
     node_base m < node_base n + 2 ^ node_order n \<and>
     node_base n < node_base m + 2 ^ node_order m"

text \<open>
  Modelled from the spec: \<^verbatim>\<open>Mdb::lookup\<close> (mdb.cpp is not among the sources).
  "lookup(idx, next?) returns the node covering idx, or the next node \<ge> idx when next
  is set."
\<close>

definition Mdb_lookup :: "mdb_tree \<Rightarrow> nat \<Rightarrow> bool \<Rightarrow> mdb_node option" where
  "Mdb_lookup tree idx nxt =
     (case List.find (\<lambda>n. covers n idx) tree of
        Some n \<Rightarrow> Some n
      | None \<Rightarrow> if nxt then List.find (\<lambda>n. idx \<le> node_base n) tree else None)"

text \<open>
  Modelled from the spec: \<^verbatim>\<open>Mdb::insert\<close> on the tree of one space (mdb.cpp is not
  among the sources). "For a given space, any address is covered by at most one node";
  insert "fails if it would overlap" a node that is there. The result is the new tree
  and the success flag, which \<^verbatim>\<open>addreg\<close> ignores.
\<close>

definition Mdb_insert :: "mdb_tree \<Rightarrow> mdb_node \<Rightarrow> mdb_tree \<times> bool" where
  "Mdb_insert tree n =
     (if list_ex (\<lambda>m. overlap m n) tree then (tree, False)
      else (insort_key node_base n tree, True))"

text \<open>
  Modelled from the spec: \<^verbatim>\<open>Mdb::remove\<close> on the tree of one space detaches the
  node, and reports whether the node was there.
\<close>

definition Mdb_remove :: "mdb_tree \<Rightarrow> mdb_node \<Rightarrow> mdb_tree \<times> bool" where
  "Mdb_remove tree n = (remove1 n tree, List.member tree n)"

text \<open>
  Modelled from the spec: \<^verbatim>\<open>max_order\<close> (math.hpp is not among the sources), "the
  largest order that fits both alignment and remaining size": the lowest set bit of a
  non-zero base bounds the alignment, the highest set bit of the size bounds the size.
  Lemma \<open>max_order_max\<close> below shows that this is the largest such order.
\<close>

fun bit_scan_forward :: "nat \<Rightarrow> nat" where
  "bit_scan_forward v = (if v = 0 \<or> odd v then 0 else Suc (bit_scan_forward (v div 2)))"

fun bit_scan_reverse :: "nat \<Rightarrow> nat" where
  "bit_scan_reverse v = (if v < 2 then 0 else Suc (bit_scan_reverse (v div 2)))"

definition max_order :: "nat \<Rightarrow> nat \<Rightarrow> nat" where
  "max_order base sz =
     (if base \<noteq> 0 then min (bit_scan_forward base) (bit_scan_reverse sz)
      else bit_scan_reverse sz)"

text \<open>
  \<^verbatim>\<open>Space::addreg\<close>:
  \<^verbatim>\<open>for (mword o; size; size -= 1UL << o, addr += 1UL << o)
      Mdb::insert<Mdb> (&tree, new Mdb (nullptr, addr, addr, (o = max_order (addr, size)), attr, type));\<close>
\<close>

function addreg :: "nat \<Rightarrow> nat \<Rightarrow> nat \<Rightarrow> nat \<Rightarrow> mdb_tree \<Rightarrow> mdb_tree" where
  "addreg addr sz attr ty tree =
     (if sz = 0 then tree
      else
        let ord = max_order addr sz
        in addreg (mword (addr + 2 ^ ord)) (sz - 2 ^ ord) attr ty
             (fst (Mdb_insert tree (Mdb_new addr addr ord attr ty))))"
  by pat_completeness auto
termination
  by (relation "measure (\<lambda>(addr, sz, attr, ty, tree). sz)") auto

text \<open>
  \<^verbatim>\<open>Space::delreg\<close>: the address is shifted to a page index
  (\<^verbatim>\<open>addr >>= PAGE_BITS\<close>); when no node covers it the tree is left as it is;
  otherwise the node is removed and the two flanks of its range are added again:
  \<^verbatim>\<open>mword next = addr + 1, base = node->node_base, last = base + (1UL << node->node_order);
  addreg (base, addr - base, node->node_attr, node->node_type);
  addreg (next, last - next, node->node_attr, node->node_type);\<close>
\<close>

definition delreg :: "nat \<Rightarrow> mdb_tree \<Rightarrow> mdb_tree" where
  "delreg addr0 tree =
     (let addr = addr0 div 2 ^ PAGE_BITS in
      case Mdb_lookup tree addr False of
        None \<Rightarrow> tree
      | Some node \<Rightarrow>
          let tree1 = fst (Mdb_remove tree node);
              nxt = mword (addr + 1);
              base = node_base node;
              lst = mword (base + mword (2 ^ node_order node));
              tree2 = addreg base (mword_sub addr base) (node_attr node) (node_type node) tree1
          in addreg nxt (mword_sub lst nxt) (node_attr node) (node_type node) tree2)"

subsection \<open>What the claims about the mapping database speak of\<close>

text \<open>
  The nodes the loop of \<^verbatim>\<open>Space::addreg\<close> creates, in the order in which it passes
  them to \<^verbatim>\<open>Mdb::insert\<close> (lemma \<open>addreg_fold\<close> relates the two).
\<close>

function addreg_nodes :: "nat \<Rightarrow> nat \<Rightarrow> nat \<Rightarrow> nat \<Rightarrow> mdb_node list" where
  "addreg_nodes addr sz attr ty =
     (if sz = 0 then []
      else
        let ord = max_order addr sz
        in Mdb_new addr addr ord attr ty #
           addreg_nodes (mword (addr + 2 ^ ord)) (sz - 2 ^ ord) attr ty)"
  by pat_completeness auto
termination
  by (relation "measure (\<lambda>(addr, sz, attr, ty). sz)") auto

text \<open>No two nodes of a tree overlap (the invariant of a space's tree).\<close>

fun no_overlaps :: "mdb_node list \<Rightarrow> bool" where
  "no_overlaps [] = True"
| "no_overlaps (x # xs) = ((\<forall>y\<in>set xs. \<not> overlap x y) \<and> no_overlaps xs)"

text \<open>
  A list of nodes tiles \<open>[lo, hi)\<close> greedily: each node starts where the one before it
  ended, carries the given attributes and type, is naturally aligned, fits in what
  remains of the range, and no larger order is both aligned and fitting.
\<close>

fun greedy_tiling :: "nat \<Rightarrow> nat \<Rightarrow> nat \<Rightarrow> nat \<Rightarrow> mdb_node list \<Rightarrow> bool" where
  "greedy_tiling lo hi attr ty [] = (lo = hi)"
| "greedy_tiling lo hi attr ty (n # ns) =
     (node_base n = lo \<and> node_phys n = lo \<and> node_attr n = attr \<and> node_type n = ty \<and>
      2 ^ node_order n dvd lo \<and> lo + 2 ^ node_order n \<le> hi \<and>
      (\<forall>k. 2 ^ k dvd lo \<and> lo + 2 ^ k \<le> hi \<longrightarrow> k \<le> node_order n) \<and>
      greedy_tiling (lo + 2 ^ node_order n) hi attr ty ns)"

section \<open>Kernel objects and the kernel state\<close>

text \<open>
  \<^verbatim>\<open>Sys_regs::Status\<close>, the status a system call returns to user space.
\<close>

datatype status =
  SUCCESS | COM_TIM | COM_ABT | BAD_HYP | BAD_CAP | BAD_PAR | BAD_FTR | BAD_CPU | BAD_DEV | OOM

text \<open>
  The hazard bits the sources test. The numeric values of the \<^verbatim>\<open>HZD_*\<close> masks are
  declared in a header; each is one bit, so a hazard word is modelled as the set of the
  bits that are set: \<^verbatim>\<open>a | b\<close> is union, \<^verbatim>\<open>a & mask\<close> is intersection.
\<close>

datatype hazard = HZD_SCHED | HZD_RCU | HZD_RECALL | HZD_STEP | HZD_DS_ES | HZD_TR

text \<open>
  The continuation of an execution context: the function pointer \<^verbatim>\<open>Ec::cont\<close>.
  \<^verbatim>\<open>nullptr\<close> is \<open>None\<close>. \<open>Sys_finish st clr\<close> is the template instance
  \<^verbatim>\<open>sys_finish<st, clr>\<close>, \<open>Send_msg c\<close> is \<^verbatim>\<open>send_msg<c>\<close>.
\<close>

datatype cont =
  Ret_user_sysexit | Ret_user_iret | Ret_user_vmresume | Idle | Recv_kern | Recv_user
  | Dead | Sys_call | Sys_finish status bool | Send_msg cont

text \<open>Permission bits of capabilities, by name (one bit each).\<close>

datatype perm = PERM_OBJ_CREATION | PERM_EC_CTRL | PERM_CREATE_SC | PERM_CREATE_PT

text \<open>\<^verbatim>\<open>Ec::PERM_ALL\<close>, the permissions of the capability of a new EC.\<close>

definition Ec_PERM_ALL :: "perm set" where
  "Ec_PERM_ALL = {PERM_EC_CTRL, PERM_CREATE_SC, PERM_CREATE_PT}"

text \<open>Kernel objects are referred to by their addresses, here natural numbers.\<close>

datatype kobject = Obj_pd nat | Obj_ec nat | Obj_sc nat | Obj_pt nat | Obj_sm nat | Obj_kp nat

datatype capability = Null_cap | Cap kobject "perm set"

text \<open>
  Modelled from the spec: \<^verbatim>\<open>capability_cast<T>(cap, required_perms)\<close> (declared in a
  header) "yields a typed reference iff the tag matches T and the permission bits cover
  required_perms, else nothing".
\<close>

definition capability_cast_pd :: "capability \<Rightarrow> perm set \<Rightarrow> nat option" where
  "capability_cast_pd c req =
     (case c of Cap (Obj_pd p) prm \<Rightarrow> if req \<subseteq> prm then Some p else None | _ \<Rightarrow> None)"

definition capability_cast_ec :: "capability \<Rightarrow> perm set \<Rightarrow> nat option" where
  "capability_cast_ec c req =
     (case c of Cap (Obj_ec e) prm \<Rightarrow> if req \<subseteq> prm then Some e else None | _ \<Rightarrow> None)"

definition capability_cast_pt :: "capability \<Rightarrow> perm set \<Rightarrow> nat option" where
  "capability_cast_pt c req =
     (case c of Cap (Obj_pt p) prm \<Rightarrow> if req \<subseteq> prm then Some p else None | _ \<Rightarrow> None)"

text \<open>
  The register frame of an EC (\<^verbatim>\<open>Exc_regs\<close>, which extends \<^verbatim>\<open>Sys_regs\<close>; declared
  in a header). The fields are the ones the sources read and write: the exception frame
  (\<open>vec\<close>, \<open>err\<close>, \<open>cr2\<close>, \<open>cs\<close>, \<open>ss\<close>, \<open>rip\<close>, \<open>rsp\<close>, \<open>rfl\<close>), the destination
  portal, the message transfer descriptor, the hazards of the EC (\<^verbatim>\<open>regs.hazard()\<close>),
  and the registers written by \<^verbatim>\<open>set_status\<close>, \<^verbatim>\<open>set_pt\<close>, \<^verbatim>\<open>set_ip\<close>,
  \<^verbatim>\<open>set_sp\<close> and \<^verbatim>\<open>set_msr_value\<close>.
\<close>

record exc_regs =
  vec :: nat
  err :: nat
  cr2 :: nat
  cs :: nat
  ss :: nat
  rip :: nat
  rsp :: nat
  rfl :: nat
  dst_portal :: nat
  mtd :: nat
  hazard :: "hazard set"
  status :: status
  arg_pt :: nat
  arg_ip :: nat
  arg_sp :: nat
  arg_msr_value :: nat

text \<open>\<^verbatim>\<open>r->user()\<close>: the frame was pushed in user mode (the privilege level in the
  low two bits of the code segment selector is not 0).\<close>

definition user :: "exc_regs \<Rightarrow> bool" where
  "user r \<longleftrightarrow> cs r mod 4 \<noteq> 0"

text \<open>
  An execution context, with the fields of \<^verbatim>\<open>class Ec\<close> that the sources use.
  \<open>cpu\<close> is a \<^verbatim>\<open>uint16\<close>.
\<close>

record ec_obj =
  cont :: "cont option"
  regs :: exc_regs
  rcap :: "nat option"
  partner :: "nat option"
  pd :: nat
  pd_user_page :: nat
  cpu :: "16 word"
  glb :: bool
  evt :: nat
  user_utcb :: nat

text \<open>
  \<^verbatim>\<open>ec->xcpu\<close>. The constructors in ec.cpp initialise \<open>cpu\<close> and \<open>glb\<close> and never
  \<open>xcpu\<close>: in the class declaration the 32-bit \<open>xcpu\<close> shares its storage with the two
  16-bit fields \<open>cpu\<close> (low half) and \<open>glb\<close> (high half), so that one comparison
  with a CPU number tests for "local EC on that CPU".
\<close>

definition xcpu :: "ec_obj \<Rightarrow> nat" where
  "xcpu e = unat (cpu e) + 65536 * (if glb e then 1 else 0)"

text \<open>A portal: server EC, entry instruction pointer, message transfer descriptor, id.\<close>

record pt_obj =
  pt_ec :: nat
  pt_ip :: nat
  pt_mtd :: nat
  pt_id :: nat

text \<open>
  A protection domain: the passthrough flag, its object space (selector to capability)
  and the per-CPU bitmap of stale host TLBs of its memory space.
\<close>

record pd_obj =
  is_passthrough :: bool
  space_obj :: "nat \<Rightarrow> capability"
  stale_host_tlb :: "nat set"

text \<open>
  Calls into parts of the kernel and of the hardware that are not among the sources are
  recorded, in order, in a log.
\<close>

datatype vector = VEC_IPI_RKE

datatype effect =
  Rcu_quiet
  | Lapic_send_ipi nat vector
  | Clr_timeout nat
  | Sm_dn nat nat bool
  | Space_mem_init nat nat
  | Space_mem_insert nat nat
  | Pd_del_crd nat nat nat
  | Msr_user_write nat nat
  | Msr_user_read nat
  | Swapgs
  | Gdt_load
  | Vmcs_write_HOST_SEL_CS
  | Hpt_flush
  | Gdt_unbusy_tss
  | Tss_load
  | Mca_vector
  | Space_obj_page_fault nat nat
  | Dmar_new nat
  | Pci_claim_all
  | Pci_claim_dev nat
  | Ioapic_claim_dev nat nat
  | Hpet_claim_dev nat nat
  | Dpt_update nat
  | Dmar_assign nat
  | Dmar_enable nat

datatype feature = FEAT_VMX | FEAT_IOMMU

text \<open>
  Constants that headers define and the sources name. Their values are parameters of
  the model.
\<close>

record konst =
  EXC_RECALL :: nat
  EXC_STARTUP :: nat
  SEL_KERN_CODE :: nat
  SEL_USER_CODE :: nat
  SEL_USER_DATA :: nat
  USER_ADDR :: nat
  SPC_LOCAL_OBJ :: nat
  ADDR_iret_to_user :: nat
  remap_guaranteed_size :: nat
  MAX_HELP :: nat
  Ioapic_ID_MASK :: nat

text \<open>Exception vectors and flag bits that the x86 architecture fixes.\<close>

definition EXC_DB :: nat where "EXC_DB = 1"
definition EXC_GP :: nat where "EXC_GP = 13"
definition EXC_PF :: nat where "EXC_PF = 14"
definition EXC_MC :: nat where "EXC_MC = 18"
definition EFL_CF :: nat where "EFL_CF = 1"
definition EFL_IF :: nat where "EFL_IF = 512"
definition ERR_U :: nat where "ERR_U = 4"

text \<open>
  The state of the kernel as one CPU sees it: the objects, the current EC, the per-CPU
  data, what the hardware and the boot information report, and the log.
  \<open>n_ecs\<close> and \<open>n_pds\<close> are the addresses the allocator hands out next.
\<close>

record kstate =
  kc :: konst
  ecs :: "nat \<Rightarrow> ec_obj"
  n_ecs :: nat
  pts :: "nat \<Rightarrow> pt_obj"
  pds :: "nat \<Rightarrow> pd_obj"
  n_pds :: nat
  current :: nat
  Sc_current_ec :: nat
  Sc_last_ref :: bool
  ctr_link :: nat
  ctr_loop :: nat
  Cpu_id :: nat
  Cpu_hazard :: "hazard set"
  Ec_remote :: "nat \<Rightarrow> nat"
  Hip_cpu_online :: "nat \<Rightarrow> bool"
  Hip_feature :: "feature set"
  fixup_table :: "(nat \<times> nat) list"
  kern_frame :: exc_regs
  Msr_write_ok :: "nat \<Rightarrow> nat \<Rightarrow> bool"
  Msr_read_result :: "nat \<Rightarrow> bool \<times> nat"
  Pci_find_dmar :: "nat \<Rightarrow> bool"
  effects :: "effect list"

text \<open>
  How a path through the kernel ends. The handlers are "noreturn": a path ends by
  switching to an EC (\<^verbatim>\<open>ec->return_to_user()\<close>), by leaving the kernel
  (\<^verbatim>\<open>sysretq\<close>, \<^verbatim>\<open>iretq\<close>), in the scheduler, in \<^verbatim>\<open>activate\<close>, by returning
  to the low-level entry code that called it, or in a handler that is not modelled.
\<close>

datatype subhandler =
  Sys_machine_ctrl_suspend | Sys_machine_ctrl_update_microcode
  | Sys_irq_ctrl_configure_vector | Sys_irq_ctrl_assign_ioapic_pin
  | Sys_irq_ctrl_mask_ioapic_pin | Sys_irq_ctrl_assign_msi
  | Sys_irq_ctrl_assign_lvt | Sys_irq_ctrl_mask_lvt

datatype outcome =
  Return_to_user nat
  | Sysret
  | Iret
  | Schedule bool
  | Activate nat
  | Returned
  | Run cont
  | Run_nullptr
  | Tail_call subhandler

definition emit :: "effect \<Rightarrow> kstate \<Rightarrow> kstate" where
  "emit e s = s\<lparr>effects := effects s @ [e]\<rparr>"

definition upd_ec :: "nat \<Rightarrow> (ec_obj \<Rightarrow> ec_obj) \<Rightarrow> kstate \<Rightarrow> kstate" where
  "upd_ec e f s = s\<lparr>ecs := (ecs s)(e := f (ecs s e))\<rparr>"

definition upd_regs :: "nat \<Rightarrow> (exc_regs \<Rightarrow> exc_regs) \<Rightarrow> kstate \<Rightarrow> kstate" where
  "upd_regs e f s = upd_ec e (\<lambda>x. x\<lparr>regs := f (regs x)\<rparr>) s"

text \<open>\<^verbatim>\<open>Ec::current()\<close>, as an object.\<close>

definition cur :: "kstate \<Rightarrow> ec_obj" where
  "cur s = ecs s (current s)"

text \<open>
  \<^verbatim>\<open>Pd::current()\<close>: the protection domain of the current EC (it is switched
  together with the EC).
\<close>

definition Pd_current :: "kstate \<Rightarrow> nat" where
  "Pd_current s = pd (cur s)"

text \<open>\<^verbatim>\<open>Space_obj::lookup (sel)\<close>: the capability at a selector of the current
  protection domain's object space.\<close>

definition Space_obj_lookup :: "kstate \<Rightarrow> nat \<Rightarrow> capability" where
  "Space_obj_lookup s sel = space_obj (pds s (Pd_current s)) sel"

text \<open>
  Modelled from the spec: \<^verbatim>\<open>Ec::set_partner\<close> (declared in a header): "C.partner = S;
  S.rcap = C".
\<close>

definition set_partner :: "nat \<Rightarrow> nat \<Rightarrow> kstate \<Rightarrow> kstate" where
  "set_partner c p s =
     upd_ec p (\<lambda>x. x\<lparr>rcap := Some c\<rparr>) (upd_ec c (\<lambda>x. x\<lparr>partner := Some p\<rparr>) s)"

text \<open>
  Modelled from the spec: \<^verbatim>\<open>Ec::clr_partner\<close> (declared in a header), "clear partner
  linkage": the partner of the EC loses its \<open>rcap\<close>, the EC its partner. The flag it
  returns tells whether the scheduling context was linked; the link counter is a field
  of the state.
\<close>

definition clr_partner :: "nat \<Rightarrow> kstate \<Rightarrow> bool \<times> kstate" where
  "clr_partner e s =
     (let s1 = (case partner (ecs s e) of
                  None \<Rightarrow> s
                | Some p \<Rightarrow> upd_ec p (\<lambda>x. x\<lparr>rcap := None\<rparr>) s);
          s2 = upd_ec e (\<lambda>x. x\<lparr>partner := None\<rparr>) s1
      in (ctr_link s \<noteq> 0, s2\<lparr>ctr_link := ctr_link s - 1\<rparr>))"

text \<open>
  Modelled from the spec: \<^verbatim>\<open>Ec::help\<close> (declared in a header). "Help has a depth
  counter; if it reaches a deadlock watermark" help returns to its caller; otherwise the
  caller's continuation is set and the path goes on in \<^verbatim>\<open>activate\<close> of the busy EC.
  \<open>None\<close> stands for "help returned".
\<close>

definition ec_help :: "nat \<Rightarrow> cont \<Rightarrow> kstate \<Rightarrow> kstate \<times> outcome option" where
  "ec_help e c s =
     (if ctr_loop s + 1 < MAX_HELP (kc s)
      then (upd_ec (current s) (\<lambda>x. x\<lparr>cont := Some c\<rparr>) (s\<lparr>ctr_loop := ctr_loop s + 1\<rparr>),
            Some (Activate e))
      else (s, None))"

text \<open>
  Modelled from the spec: \<^verbatim>\<open>Ec::redirect_to_iret\<close> (declared in a header), "redirect
  to iret frame if returning via sysexit": the user stack pointer and instruction
  pointer of the system call frame become those of the iret frame.
\<close>

definition redirect_to_iret :: "exc_regs \<Rightarrow> exc_regs" where
  "redirect_to_iret r = r\<lparr>rsp := arg_sp r, rip := arg_ip r\<rparr>"

section \<open>The IPC paths (syscall.cpp, ec.cpp)\<close>

text \<open>
  \<^verbatim>\<open>Ec::reply (void (*c)(), Sm *sm)\<close>. \<^verbatim>\<open>Sm::dn\<close> is not among the sources: the
  call is recorded in the log, and the path goes on as the text of \<^verbatim>\<open>reply\<close> does
  once \<^verbatim>\<open>dn\<close> has returned.
\<close>

definition reply :: "cont option \<Rightarrow> nat option \<Rightarrow> kstate \<Rightarrow> kstate \<times> outcome" where
  "reply c sm s =
     (let s1 = upd_ec (current s) (\<lambda>x. x\<lparr>cont := c\<rparr>) s in
      if glb (cur s1) then (s1, Schedule True)
      else
        case rcap (cur s1) of
          None \<Rightarrow> (s1, Activate (Sc_current_ec s1))
        | Some ec \<Rightarrow>
            let (clr, s2) = clr_partner ec s1 in
            if Sc_current_ec s2 = ec \<and> Sc_last_ref s2 then (s2, Schedule True)
            else
              let s3 = (case sm of None \<Rightarrow> s2 | Some m \<Rightarrow> emit (Sm_dn m ec clr) s2) in
              if \<not> clr then (s3, Activate (Sc_current_ec s3))
              else (s3, Return_to_user ec))"

text \<open>
  \<^verbatim>\<open>Ec::die\<close>: the caller recorded in \<open>rcap\<close> gets the continuation
  \<^verbatim>\<open>sys_finish<COM_ABT>\<close> when it waits in \<^verbatim>\<open>ret_user_sysexit\<close>, and
  \<^verbatim>\<open>dead\<close> otherwise; then \<^verbatim>\<open>reply (dead)\<close>. The reason and the frame are only
  printed.
\<close>

definition die :: "kstate \<Rightarrow> kstate \<times> outcome" where
  "die s =
     (let s1 = (case rcap (cur s) of
                  None \<Rightarrow> s
                | Some ec \<Rightarrow>
                    upd_ec ec (\<lambda>x. x\<lparr>cont :=
                      Some (if cont (ecs s ec) = Some Ret_user_sysexit
                            then Sys_finish COM_ABT False else Dead)\<rparr>) s)
      in reply (Some Dead) None s1)"

text \<open>\<^verbatim>\<open>template <void (*C)()> void Ec::send_msg()\<close>.\<close>

definition send_msg :: "cont \<Rightarrow> kstate \<Rightarrow> kstate \<times> outcome" where
  "send_msg C s =
     (let r = regs (cur s) in
      case capability_cast_pt (Space_obj_lookup s (evt (cur s) + dst_portal r)) {} of
        None \<Rightarrow> die s
      | Some p \<Rightarrow>
          let ec = pt_ec (pts s p) in
          if unat (cpu (cur s)) \<noteq> xcpu (ecs s ec) then die s
          else if cont (ecs s ec) = None then
            let s1 = upd_ec (current s) (\<lambda>x. x\<lparr>cont := Some C\<rparr>) s;
                s2 = set_partner (current s) ec s1;
                s3 = upd_regs (current s) (\<lambda>x. x\<lparr>mtd := pt_mtd (pts s p)\<rparr>) s2;
                s4 = upd_ec ec (\<lambda>x. x\<lparr>cont := Some Recv_kern\<rparr>) s3;
                s5 = upd_regs ec (\<lambda>x. x\<lparr>arg_pt := pt_id (pts s p)\<rparr>) s4;
                s6 = upd_regs ec (\<lambda>x. x\<lparr>arg_ip := pt_ip (pts s p)\<rparr>) s5
            in (s6, Return_to_user ec)
          else
            case ec_help ec (Send_msg C) s of
              (s', Some out) \<Rightarrow> (s', out)
            | (s', None) \<Rightarrow> die s')"

section \<open>Hazards and the return to user mode (ec.cpp)\<close>

text \<open>
  \<^verbatim>\<open>Ec::handle_hazard (mword hzd, void (*func)())\<close>. \<open>None\<close> stands for "the
  function returned to the return path that called it". \<^verbatim>\<open>Rcu::quiet\<close> and
  \<^verbatim>\<open>Sc::schedule\<close> are not among the sources: the first is recorded in the log, the
  path ends in the second.
\<close>

definition handle_hazard :: "hazard set \<Rightarrow> cont \<Rightarrow> kstate \<Rightarrow> kstate \<times> outcome option" where
  "handle_hazard hzd func s =
     (let s1 = (if HZD_RCU \<in> hzd then emit Rcu_quiet s else s) in
      if HZD_SCHED \<in> hzd then
        (upd_ec (current s1) (\<lambda>x. x\<lparr>cont := Some func\<rparr>) s1, Some (Schedule False))
      else if HZD_RECALL \<in> hzd then
        let s2 = upd_regs (current s1) (\<lambda>r. r\<lparr>hazard := hazard r - {HZD_RECALL}\<rparr>) s1;
            s3 = (if func = Ret_user_sysexit then upd_regs (current s2) redirect_to_iret s2
                  else s2);
            s4 = upd_regs (current s3) (\<lambda>r. r\<lparr>dst_portal := EXC_RECALL (kc s3)\<rparr>) s3
        in (case send_msg Ret_user_iret s4 of (s5, out) \<Rightarrow> (s5, Some out))
      else if HZD_STEP \<in> hzd then
        let s2 = upd_regs (current s1) (\<lambda>r. r\<lparr>hazard := hazard r - {HZD_STEP}\<rparr>) s1;
            s3 = (if func = Ret_user_sysexit then upd_regs (current s2) redirect_to_iret s2
                  else s2);
            s4 = upd_regs (current s3) (\<lambda>r. r\<lparr>dst_portal := EXC_DB\<rparr>) s3
        in (case send_msg Ret_user_iret s4 of (s5, out) \<Rightarrow> (s5, Some out))
      else (s1, None))"

text \<open>
  The hazards a return path samples:
  \<^verbatim>\<open>(Cpu::hazard() | current()->regs.hazard()) & (HZD_RECALL | HZD_STEP | HZD_RCU | HZD_DS_ES | HZD_SCHED)\<close>
  in \<^verbatim>\<open>ret_user_sysexit\<close>, and the same without \<^verbatim>\<open>HZD_DS_ES\<close> in
  \<^verbatim>\<open>ret_user_iret\<close>.
\<close>

definition sysexit_hazards :: "kstate \<Rightarrow> hazard set" where
  "sysexit_hazards s =
     (Cpu_hazard s \<union> hazard (regs (cur s))) \<inter>
       {HZD_RECALL, HZD_STEP, HZD_RCU, HZD_DS_ES, HZD_SCHED}"

definition iret_hazards :: "kstate \<Rightarrow> hazard set" where
  "iret_hazards s =
     (Cpu_hazard s \<union> hazard (regs (cur s))) \<inter> {HZD_RECALL, HZD_STEP, HZD_RCU, HZD_SCHED}"

text \<open>\<^verbatim>\<open>Ec::ret_user_sysexit\<close>: hazards first, then \<^verbatim>\<open>sysretq\<close>.\<close>

definition ret_user_sysexit :: "kstate \<Rightarrow> kstate \<times> outcome" where
  "ret_user_sysexit s =
     (let hzd = sysexit_hazards s in
      if hzd \<noteq> {} then
        (case handle_hazard hzd Ret_user_sysexit s of
           (s', Some out) \<Rightarrow> (s', out)
         | (s', None) \<Rightarrow> (s', Sysret))
      else (s, Sysret))"

text \<open>\<^verbatim>\<open>Ec::ret_user_iret\<close>: hazards first, then \<^verbatim>\<open>iretq\<close>.\<close>

definition ret_user_iret :: "kstate \<Rightarrow> kstate \<times> outcome" where
  "ret_user_iret s =
     (let hzd = iret_hazards s in
      if hzd \<noteq> {} then
        (case handle_hazard hzd Ret_user_iret s of
           (s', Some out) \<Rightarrow> (s', out)
         | (s', None) \<Rightarrow> (s', Iret))
      else (s, Iret))"

section \<open>System calls (syscall.cpp)\<close>

text \<open>
  \<^verbatim>\<open>Ec::sys_finish (Sys_regs::Status status, bool clear_timeout)\<close>; the template
  \<^verbatim>\<open>sys_finish<S>()\<close> calls it with \<open>clear_timeout = false\<close>.
\<close>

definition sys_finish :: "status \<Rightarrow> bool \<Rightarrow> kstate \<Rightarrow> kstate \<times> outcome" where
  "sys_finish st clear_timeout s =
     (let s1 = (if clear_timeout then emit (Clr_timeout (current s)) s else s);
          s2 = upd_regs (current s1) (\<lambda>r. r\<lparr>status := st\<rparr>) s1
      in ret_user_sysexit s2)"

text \<open>The flags of \<^verbatim>\<open>Sys_call\<close> (one bit each).\<close>

datatype call_flag = DISABLE_BLOCKING | DISABLE_DONATION | DISABLE_REPLYCAP

text \<open>
  \<^verbatim>\<open>Ec::sys_call\<close>. The arguments are the decoded \<^verbatim>\<open>s->pt()\<close> and
  \<^verbatim>\<open>s->flags()\<close> of the caller's system call frame.
\<close>

definition sys_call :: "nat \<Rightarrow> call_flag set \<Rightarrow> kstate \<Rightarrow> kstate \<times> outcome" where
  "sys_call pt_sel flags s =
     (case capability_cast_pt (Space_obj_lookup s pt_sel) {} of
        None \<Rightarrow> sys_finish BAD_CAP False s
      | Some p \<Rightarrow>
          let ec = pt_ec (pts s p) in
          if unat (cpu (cur s)) \<noteq> xcpu (ecs s ec) then sys_finish BAD_CPU False s
          else if cont (ecs s ec) = None then
            let s1 = upd_ec (current s) (\<lambda>x. x\<lparr>cont := Some Ret_user_sysexit\<rparr>) s;
                s2 = set_partner (current s) ec s1;
                s3 = upd_ec ec (\<lambda>x. x\<lparr>cont := Some Recv_user\<rparr>) s2;
                s4 = upd_regs ec (\<lambda>x. x\<lparr>arg_pt := pt_id (pts s p)\<rparr>) s3;
                s5 = upd_regs ec (\<lambda>x. x\<lparr>arg_ip := pt_ip (pts s p)\<rparr>) s4
            in (s5, Return_to_user ec)
          else if DISABLE_BLOCKING \<notin> flags then
            (case ec_help ec Sys_call s of
               (s', Some out) \<Rightarrow> (s', out)
             | (s', None) \<Rightarrow> sys_finish COM_TIM False s')
          else sys_finish COM_TIM False s)"

text \<open>
  Modelled from the spec: \<^verbatim>\<open>Space_obj::insert_root\<close> (not among the sources)
  "installs a capability at a well-known selector for a new object", in the object
  space of the object's owner; it fails when the selector is taken (the callers then
  print "Non-NULL CAP").
\<close>

definition insert_root :: "nat \<Rightarrow> nat \<Rightarrow> capability \<Rightarrow> kstate \<Rightarrow> kstate option" where
  "insert_root own sel c s =
     (if space_obj (pds s own) sel \<noteq> Null_cap then None
      else Some (s\<lparr>pds := (pds s)(own :=
              (pds s own)\<lparr>space_obj := (space_obj (pds s own))(sel := c)\<rparr>)\<rparr>))"

text \<open>The arguments of \<^verbatim>\<open>sys_create_pd\<close>, decoded from the system call frame.\<close>

record create_pd_args =
  cp_sel :: nat
  cp_pd :: nat
  cp_is_passthrough :: bool
  cp_crd :: nat

text \<open>
  \<^verbatim>\<open>Ec::sys_create_pd\<close>. The new PD gets the next address; its passthrough flag is
  \<^verbatim>\<open>r->is_passthrough() and parent_pd->is_passthrough\<close>. The capability of the new
  PD carries the permissions of the parent's capability. The delegation
  \<^verbatim>\<open>pd->del_crd\<close> is not among the sources and is recorded in the log.
\<close>

definition cap_prm :: "capability \<Rightarrow> perm set" where
  "cap_prm c = (case c of Null_cap \<Rightarrow> {} | Cap obj prm \<Rightarrow> prm)"

definition sys_create_pd :: "create_pd_args \<Rightarrow> kstate \<Rightarrow> kstate \<times> outcome" where
  "sys_create_pd r s =
     (let parent_pd_cap = Space_obj_lookup s (cp_pd r) in
      case capability_cast_pd parent_pd_cap {PERM_OBJ_CREATION} of
        None \<Rightarrow> sys_finish BAD_CAP False s
      | Some parent_pd \<Rightarrow>
          let new = n_pds s;
              obj = \<lparr>is_passthrough = (cp_is_passthrough r \<and> is_passthrough (pds s parent_pd)),
                     space_obj = (\<lambda>sel. Null_cap), stale_host_tlb = {}\<rparr>;
              s1 = s\<lparr>pds := (pds s)(new := obj), n_pds := new + 1\<rparr>
          in case insert_root (Pd_current s) (cp_sel r)
                    (Cap (Obj_pd new) (cap_prm parent_pd_cap)) s1 of
               None \<Rightarrow> sys_finish BAD_CAP False s
             | Some s2 \<Rightarrow>
                 sys_finish SUCCESS False (emit (Pd_del_crd new (Pd_current s) (cp_crd r)) s2))"

text \<open>The arguments of \<^verbatim>\<open>sys_create_ec\<close>, decoded from the system call frame;
  \<open>ce_glb\<close> is \<^verbatim>\<open>r->flags() & 1\<close>.\<close>

record create_ec_args =
  ce_sel :: nat
  ce_pd :: nat
  ce_cpu :: nat
  ce_user_page :: nat
  ce_esp :: nat
  ce_evt :: nat
  ce_glb :: bool
  ce_is_vcpu :: bool
  ce_use_apic_access_page :: bool
  ce_map_user_page_in_owner :: bool

text \<open>A register frame with nothing in it yet.\<close>

definition regs_init :: exc_regs where
  "regs_init =
     \<lparr>vec = 0, err = 0, cr2 = 0, cs = 0, ss = 0, rip = 0, rsp = 0, rfl = 0,
      dst_portal = 0, mtd = 0, hazard = {}, status = SUCCESS, arg_pt = 0, arg_ip = 0,
      arg_sp = 0, arg_msr_value = 0\<rparr>"

text \<open>
  The constructor \<^verbatim>\<open>Ec::Ec (Pd *own, mword sel, Pd *p, void (*f)(), unsigned c, unsigned e, mword u, mword s, int creation_flags)\<close>
  of ec.cpp: the object it builds.
\<close>

definition Ec_new ::
  "konst \<Rightarrow> nat \<Rightarrow> nat \<Rightarrow> cont option \<Rightarrow> nat \<Rightarrow> nat \<Rightarrow> nat \<Rightarrow> nat \<Rightarrow> bool \<Rightarrow> ec_obj" where
  "Ec_new k own p f c e u sp map_in_owner =
     \<lparr>cont = f,
      regs = (if f \<noteq> None
              then regs_init\<lparr>cs := SEL_USER_CODE k, ss := SEL_USER_DATA k, rfl := EFL_IF,
                             rsp := sp\<rparr>
              else regs_init\<lparr>arg_sp := sp\<rparr>)\<lparr>dst_portal := EXC_STARTUP k\<rparr>,
      rcap = None, partner = None, pd = p,
      pd_user_page = (if map_in_owner then own else p),
      cpu = of_nat c, glb = (f \<noteq> None), evt = e, user_utcb = u\<rparr>"

text \<open>
  \<^verbatim>\<open>Ec::sys_create_ec\<close>. The checks come in the order of the source. The constructor
  also initialises the memory space of the PD for the CPU and maps the UTCB; both calls
  are recorded in the log. When \<^verbatim>\<open>insert_root\<close> fails the new object is deleted.
\<close>

definition sys_create_ec :: "create_ec_args \<Rightarrow> kstate \<Rightarrow> kstate \<times> outcome" where
  "sys_create_ec r s =
     (if \<not> Hip_cpu_online s (ce_cpu r) then sys_finish BAD_CPU False s
      else if ce_is_vcpu r \<and> FEAT_VMX \<notin> Hip_feature s then sys_finish BAD_FTR False s
      else
        case capability_cast_pd (Space_obj_lookup s (ce_pd r)) {PERM_OBJ_CREATION} of
          None \<Rightarrow> sys_finish BAD_CAP False s
        | Some p \<Rightarrow>
            if ce_user_page r \<ge> USER_ADDR (kc s) \<or> ce_user_page r mod 2 ^ PAGE_BITS \<noteq> 0
            then sys_finish BAD_PAR False s
            else
              let own = Pd_current s;
                  new = n_ecs s;
                  obj = Ec_new (kc s) own p
                          (if ce_glb r then Some (Send_msg Ret_user_iret) else None)
                          (ce_cpu r) (ce_evt r) (ce_user_page r) (ce_esp r)
                          (ce_map_user_page_in_owner r);
                  s1 = emit (Space_mem_init p (ce_cpu r)) s;
                  s2 = (if user_utcb obj \<noteq> 0
                        then emit (Space_mem_insert (pd_user_page obj) (ce_user_page r)) s1
                        else s1);
                  s3 = s2\<lparr>ecs := (ecs s2)(new := obj), n_ecs := new + 1\<rparr>
              in case insert_root own (ce_sel r) (Cap (Obj_ec new) Ec_PERM_ALL) s3 of
                   None \<Rightarrow> sys_finish BAD_CAP False s2
                 | Some s4 \<Rightarrow> sys_finish SUCCESS False s4)"

text \<open>The operations of \<^verbatim>\<open>sys_ec_ctrl\<close>: \<^verbatim>\<open>RECALL\<close>, and any other value.\<close>

datatype ec_ctrl_op = RECALL | Ec_ctrl_other

text \<open>\<^verbatim>\<open>Ec::sys_ec_ctrl\<close>, with the decoded \<^verbatim>\<open>r->op()\<close> and \<^verbatim>\<open>r->ec()\<close>.\<close>

definition sys_ec_ctrl :: "ec_ctrl_op \<Rightarrow> nat \<Rightarrow> kstate \<Rightarrow> kstate \<times> outcome" where
  "sys_ec_ctrl op ec_sel s =
     (case op of
        RECALL \<Rightarrow>
          (case capability_cast_ec (Space_obj_lookup s ec_sel) {PERM_EC_CTRL} of
             None \<Rightarrow> sys_finish BAD_CAP False s
           | Some ec \<Rightarrow>
               let s1 =
                 (if HZD_RECALL \<notin> hazard (regs (ecs s ec)) then
                    let s2 = upd_regs ec (\<lambda>r. r\<lparr>hazard := hazard r \<union> {HZD_RECALL}\<rparr>) s in
                    if Cpu_id s2 \<noteq> unat (cpu (ecs s2 ec)) \<and>
                       Ec_remote s2 (unat (cpu (ecs s2 ec))) = ec
                    then emit (Lapic_send_ipi (unat (cpu (ecs s2 ec))) VEC_IPI_RKE) s2
                    else s2
                  else s)
               in sys_finish SUCCESS False s1)
      | Ec_ctrl_other \<Rightarrow> sys_finish BAD_PAR False s)"

text \<open>
  \<^verbatim>\<open>Ec::sys_pd_ctrl_msr_access\<close>, with the decoded \<^verbatim>\<open>s->is_write()\<close>,
  \<^verbatim>\<open>s->msr_index()\<close> and \<^verbatim>\<open>s->msr_value()\<close>. What \<^verbatim>\<open>Msr::user_write\<close> and
  \<^verbatim>\<open>Msr::user_read\<close> answer is a parameter of the state.
\<close>

definition sys_pd_ctrl_msr_access :: "bool \<Rightarrow> nat \<Rightarrow> nat \<Rightarrow> kstate \<Rightarrow> kstate \<times> outcome" where
  "sys_pd_ctrl_msr_access is_write msr_index msr_value s =
     (if \<not> is_passthrough (pds s (Pd_current s)) then sys_finish BAD_CAP False s
      else
        let (success, s1) =
          (if is_write
           then (Msr_write_ok s msr_index msr_value,
                 emit (Msr_user_write msr_index msr_value) s)
           else (fst (Msr_read_result s msr_index),
                 upd_regs (current s)
                   (\<lambda>r. r\<lparr>arg_msr_value := snd (Msr_read_result s msr_index)\<rparr>)
                   (emit (Msr_user_read msr_index) s)))
        in if success then sys_finish SUCCESS False s1 else sys_finish BAD_PAR False s1)"

datatype machine_ctrl_op = SUSPEND | UPDATE_MICROCODE | Machine_ctrl_other

text \<open>
  \<^verbatim>\<open>Ec::sys_machine_ctrl\<close>: the passthrough gate and the dispatch. The model ends
  where the function hands over to the handler of the operation.
\<close>

definition sys_machine_ctrl :: "machine_ctrl_op \<Rightarrow> kstate \<Rightarrow> kstate \<times> outcome" where
  "sys_machine_ctrl op s =
     (if \<not> is_passthrough (pds s (Pd_current s)) then sys_finish BAD_CAP False s
      else
        case op of
          SUSPEND \<Rightarrow> (s, Tail_call Sys_machine_ctrl_suspend)
        | UPDATE_MICROCODE \<Rightarrow> (s, Tail_call Sys_machine_ctrl_update_microcode)
        | Machine_ctrl_other \<Rightarrow> sys_finish BAD_PAR False s)"

datatype irq_ctrl_op =
  CONFIGURE_VECTOR | ASSIGN_IOAPIC_PIN | MASK_IOAPIC_PIN | ASSIGN_MSI | ASSIGN_LVT | MASK_LVT
  | Irq_ctrl_other

text \<open>
  \<^verbatim>\<open>Ec::sys_irq_ctrl\<close>: the passthrough gate and the dispatch. The model ends where
  the function hands over to the handler of the operation.
\<close>

definition sys_irq_ctrl :: "irq_ctrl_op \<Rightarrow> kstate \<Rightarrow> kstate \<times> outcome" where
  "sys_irq_ctrl op s =
     (if \<not> is_passthrough (pds s (Pd_current s)) then sys_finish BAD_CAP False s
      else
        case op of
          CONFIGURE_VECTOR \<Rightarrow> (s, Tail_call Sys_irq_ctrl_configure_vector)
        | ASSIGN_IOAPIC_PIN \<Rightarrow> (s, Tail_call Sys_irq_ctrl_assign_ioapic_pin)
        | MASK_IOAPIC_PIN \<Rightarrow> (s, Tail_call Sys_irq_ctrl_mask_ioapic_pin)
        | ASSIGN_MSI \<Rightarrow> (s, Tail_call Sys_irq_ctrl_assign_msi)
        | ASSIGN_LVT \<Rightarrow> (s, Tail_call Sys_irq_ctrl_assign_lvt)
        | MASK_LVT \<Rightarrow> (s, Tail_call Sys_irq_ctrl_mask_lvt)
        | Irq_ctrl_other \<Rightarrow> sys_finish BAD_PAR False s)"

text \<open>
  \<^verbatim>\<open>Ec::syscall_handler\<close>, for the hypercalls whose handlers are modelled above, with
  their decoded arguments; \<open>HC_unknown\<close> is the default case of the switch.
\<close>

datatype hypercall =
  HC_CALL nat "call_flag set"
  | HC_CREATE_PD create_pd_args
  | HC_CREATE_EC create_ec_args
  | HC_EC_CTRL ec_ctrl_op nat
  | HC_PD_CTRL_MSR_ACCESS bool nat nat
  | HC_MACHINE_CTRL machine_ctrl_op
  | HC_IRQ_CTRL irq_ctrl_op
  | HC_unknown

fun syscall_handler :: "hypercall \<Rightarrow> kstate \<Rightarrow> kstate \<times> outcome" where
  "syscall_handler (HC_CALL pt_sel flags) s = sys_call pt_sel flags s"
| "syscall_handler (HC_CREATE_PD r) s = sys_create_pd r s"
| "syscall_handler (HC_CREATE_EC r) s = sys_create_ec r s"
| "syscall_handler (HC_EC_CTRL op sel) s = sys_ec_ctrl op sel s"
| "syscall_handler (HC_PD_CTRL_MSR_ACCESS w i v) s = sys_pd_ctrl_msr_access w i v s"
| "syscall_handler (HC_MACHINE_CTRL op) s = sys_machine_ctrl op s"
| "syscall_handler (HC_IRQ_CTRL op) s = sys_irq_ctrl op s"
| "syscall_handler HC_unknown s = sys_finish BAD_HYP False s"

text \<open>
  \<^verbatim>\<open>Ec::return_to_user\<close>: the EC becomes the current one and the path goes on in its
  continuation. The continuations modelled here are run; the path into any other one
  ends with \<open>Run\<close>.
\<close>

definition return_to_user :: "nat \<Rightarrow> kstate \<Rightarrow> kstate \<times> outcome" where
  "return_to_user e s =
     (let s1 = s\<lparr>current := e\<rparr> in
      case cont (ecs s1 e) of
        None \<Rightarrow> (s1, Run_nullptr)
      | Some Ret_user_sysexit \<Rightarrow> ret_user_sysexit s1
      | Some Ret_user_iret \<Rightarrow> ret_user_iret s1
      | Some (Sys_finish st clr) \<Rightarrow> sys_finish st clr s1
      | Some (Send_msg C) \<Rightarrow> send_msg C s1
      | Some c \<Rightarrow> (s1, Run c))"

section \<open>Exceptions (ec_exc.cpp, ec.cpp)\<close>

text \<open>
  The frame \<^verbatim>\<open>Exc_regs *r\<close> that the entry code passes to \<^verbatim>\<open>handle_exc\<close>. An
  exception taken in user mode is pushed into the register frame of the current EC
  (\<^verbatim>\<open>return_to_user\<close> points the TSS's \<^verbatim>\<open>sp0\<close> behind that frame); one taken in
  kernel mode is pushed on the kernel stack.
\<close>

datatype frame = Cur_frame | Kern_frame

definition get_frame :: "frame \<Rightarrow> kstate \<Rightarrow> exc_regs" where
  "get_frame fr s = (case fr of Cur_frame \<Rightarrow> regs (cur s) | Kern_frame \<Rightarrow> kern_frame s)"

definition set_frame :: "frame \<Rightarrow> exc_regs \<Rightarrow> kstate \<Rightarrow> kstate" where
  "set_frame fr r s =
     (case fr of
        Cur_frame \<Rightarrow> upd_regs (current s) (\<lambda>x. r) s
      | Kern_frame \<Rightarrow> s\<lparr>kern_frame := r\<rparr>)"

text \<open>
  \<^verbatim>\<open>Ec::fixup\<close>: the table between \<^verbatim>\<open>FIXUP_S\<close> and \<^verbatim>\<open>FIXUP_E\<close> holds pairs
  of addresses; the first pair whose first address is the faulting \<open>rip\<close> redirects the
  frame to the second address and sets the carry flag.
\<close>

fun fixup :: "(nat \<times> nat) list \<Rightarrow> exc_regs \<Rightarrow> exc_regs \<times> bool" where
  "fixup [] r = (r, False)"
| "fixup ((a, b) # tab) r =
     (if rip r \<noteq> a then fixup tab r
      else (r\<lparr>rfl := or (rfl r) EFL_CF, rip := b\<rparr>, True))"

text \<open>\<^verbatim>\<open>Ec::handle_exc_gp\<close>.\<close>

definition handle_exc_gp :: "frame \<Rightarrow> kstate \<Rightarrow> kstate \<times> bool" where
  "handle_exc_gp fr s =
     (case fixup (fixup_table s) (get_frame fr s) of
        (r', True) \<Rightarrow> (set_frame fr r' s, True)
      | (r', False) \<Rightarrow>
          if HZD_TR \<in> Cpu_hazard s
          then (emit Tss_load (emit Gdt_unbusy_tss (s\<lparr>Cpu_hazard := Cpu_hazard s - {HZD_TR}\<rparr>)),
                True)
          else (s, False))"

text \<open>
  \<^verbatim>\<open>Ec::handle_exc_pf\<close>: \<open>Inr b\<close> is the boolean it returns, \<open>Inl out\<close> the end of
  the path when it does not return (\<^verbatim>\<open>die ("#PF (kernel)", r)\<close>).
\<close>

definition handle_exc_pf :: "frame \<Rightarrow> kstate \<Rightarrow> kstate \<times> (outcome + bool)" where
  "handle_exc_pf fr s =
     (let r = get_frame fr s; addr = cr2 r in
      if odd (err r div ERR_U) then (s, Inr False)
      else if addr \<ge> SPC_LOCAL_OBJ (kc s)
      then (emit (Space_obj_page_fault addr (err r)) s, Inr True)
      else (case die s of (s', out) \<Rightarrow> (s', Inl out)))"

text \<open>\<^verbatim>\<open>Ec::fixup_nmi_user_trap\<close> and \<^verbatim>\<open>Ec::do_deferred_nmi_work\<close>.\<close>

definition fixup_nmi_user_trap :: "kstate \<Rightarrow> kstate" where
  "fixup_nmi_user_trap s = emit Vmcs_write_HOST_SEL_CS (emit Gdt_load s)"

definition do_deferred_nmi_work :: "kstate \<Rightarrow> kstate" where
  "do_deferred_nmi_work s =
     (let p = Pd_current s in
      if Cpu_id s \<in> stale_host_tlb (pds s p)
      then emit Hpt_flush
             (s\<lparr>pds := (pds s)(p :=
                  (pds s p)\<lparr>stale_host_tlb := stale_host_tlb (pds s p) - {Cpu_id s}\<rparr>)\<rparr>)
      else s)"

text \<open>
  \<^verbatim>\<open>Ec::maybe_handle_deferred_nmi_work\<close>: \<open>None\<close> when it returns, the end of the
  path when it goes on in \<^verbatim>\<open>ret_user_iret\<close>. \<^verbatim>\<open>static_cast<int64>(r->rip) < 0\<close>
  says that bit 63 of \<open>rip\<close> is set.
\<close>

definition exc_on_iret_to_user :: "exc_regs \<Rightarrow> kstate \<Rightarrow> bool" where
  "exc_on_iret_to_user r s \<longleftrightarrow>
     cs r = SEL_KERN_CODE (kc s) \<and> 2 ^ 63 \<le> rip r \<and> rip r = ADDR_iret_to_user (kc s)"

definition maybe_handle_deferred_nmi_work :: "frame \<Rightarrow> kstate \<Rightarrow> kstate \<times> outcome option" where
  "maybe_handle_deferred_nmi_work fr s =
     (let r = get_frame fr s in
      if vec r \<noteq> EXC_GP then (s, None)
      else
        let on_iret = exc_on_iret_to_user r s;
            s1 = (if on_iret then fixup_nmi_user_trap (emit Swapgs s) else s)
        in if \<not> on_iret then (s1, None)
           else (case ret_user_iret (do_deferred_nmi_work s1) of
                   (s2, out) \<Rightarrow> (s2, Some out)))"

text \<open>
  \<^verbatim>\<open>Ec::handle_exc\<close>. \<open>Returned\<close> is the return to the entry code after a handler
  in the kernel has resolved the exception.
\<close>

definition handle_exc :: "frame \<Rightarrow> kstate \<Rightarrow> kstate \<times> outcome" where
  "handle_exc fr s =
     (case maybe_handle_deferred_nmi_work fr s of
        (s1, Some out) \<Rightarrow> (s1, out)
      | (s1, None) \<Rightarrow>
          let v = vec (get_frame fr s1) in
          case (if v = EXC_GP then (case handle_exc_gp fr s1 of (s2, b) \<Rightarrow> (s2, Inr b))
                else if v = EXC_PF then handle_exc_pf fr s1
                else if v = EXC_MC then (emit Mca_vector s1, Inr False)
                else (s1, Inr False)) of
            (s2, Inl out) \<Rightarrow> (s2, out)
          | (s2, Inr True) \<Rightarrow> (s2, Returned)
          | (s2, Inr False) \<Rightarrow>
              if user (get_frame fr s2) then send_msg Ret_user_iret s2 else die s2)"

section \<open>The DMAR table (acpi_dmar.cpp)\<close>

text \<open>
  The remapping structures of the table. The C++ walks them in memory by their
  \<open>length\<close> fields; here a table is the list of its structures, and a structure holds
  the list of its device scopes.
\<close>

record acpi_scope =
  scope_type :: nat
  scope_rid :: nat
  scope_id :: nat

record acpi_dmar =
  dmar_phys :: nat
  dmar_flags :: nat
  dmar_scope :: "acpi_scope list"

record acpi_rmrr =
  rmrr_base :: nat
  rmrr_limit :: nat
  rmrr_scope :: "acpi_scope list"

datatype acpi_remap = DMAR acpi_dmar | RMRR acpi_rmrr | Remap_other

record acpi_table_dmar =
  table_flags :: nat
  table_remap :: "acpi_remap list"

unbundle bit_operations_syntax

text \<open>
  \<^verbatim>\<open>Acpi_dmar::parse\<close>: the calls it makes, in order. The IOAPIC id is masked
  with \<^verbatim>\<open>Ioapic::ID_MASK\<close> before it is passed on.
\<close>

definition Acpi_dmar_scope :: "kstate \<Rightarrow> acpi_scope \<Rightarrow> kstate" where
  "Acpi_dmar_scope s sc =
     (if scope_type sc = 1 \<or> scope_type sc = 2 then emit (Pci_claim_dev (scope_rid sc)) s
      else if scope_type sc = 3
        then emit (Ioapic_claim_dev (scope_rid sc) (scope_id sc AND Ioapic_ID_MASK (kc s))) s
      else if scope_type sc = 4 then emit (Hpet_claim_dev (scope_rid sc) (scope_id sc)) s
      else s)"

definition Acpi_dmar_parse :: "acpi_dmar \<Rightarrow> kstate \<Rightarrow> kstate" where
  "Acpi_dmar_parse d s =
     (let s1 = emit (Dmar_new (dmar_phys d)) s;
          s2 = (if odd (dmar_flags d) then emit Pci_claim_all s1 else s1)
      in foldl Acpi_dmar_scope s2 (dmar_scope d))"

text \<open>
  \<^verbatim>\<open>Acpi_rmrr::parse\<close>: the pages it maps one to one, then the devices. The first
  loop is
  \<^verbatim>\<open>for (uint64 hpa = base & ~PAGE_MASK; hpa < limit; hpa += PAGE_SIZE)\<close>:
  the addition wraps around at 64 bits, so for a limit above the last page boundary the
  loop does not end. \<open>None\<close> stands for "does not return".
\<close>

partial_function (option) rmrr_pages :: "nat \<Rightarrow> nat \<Rightarrow> kstate \<Rightarrow> kstate option" where
  "rmrr_pages hpa limit s =
     (if hpa < limit
      then rmrr_pages (mword (hpa + 2 ^ PAGE_BITS)) limit (emit (Dpt_update hpa) s)
      else Some s)"

definition Acpi_rmrr_scope :: "kstate \<Rightarrow> acpi_scope \<Rightarrow> kstate" where
  "Acpi_rmrr_scope s sc =
     (if scope_type sc = 1 \<and> Pci_find_dmar s (scope_rid sc)
      then emit (Dmar_assign (scope_rid sc)) s else s)"

definition Acpi_rmrr_parse :: "acpi_rmrr \<Rightarrow> kstate \<Rightarrow> kstate option" where
  "Acpi_rmrr_parse m s =
     (case rmrr_pages (rmrr_base m - rmrr_base m mod 2 ^ PAGE_BITS) (rmrr_limit m) s of
        None \<Rightarrow> None
      | Some s1 \<Rightarrow> Some (foldl Acpi_rmrr_scope s1 (rmrr_scope m)))"

text \<open>
  \<^verbatim>\<open>Acpi_table_dmar::parse\<close>:
  \<^verbatim>\<open>if (true) return;\<close> comes first; the loop over the remapping structures,
  \<^verbatim>\<open>Dmar::enable (flags)\<close> and \<^verbatim>\<open>Hip::set_feature (Hip::FEAT_IOMMU)\<close> follow it.
  The result is \<open>Some\<close> of the state in which the function returns.
\<close>

definition Acpi_remap_parse :: "acpi_remap \<Rightarrow> kstate \<Rightarrow> kstate option" where
  "Acpi_remap_parse r s =
     (case r of DMAR d \<Rightarrow> Some (Acpi_dmar_parse d s) | RMRR m \<Rightarrow> Acpi_rmrr_parse m s
      | Remap_other \<Rightarrow> Some s)"

fun Acpi_remap_loop :: "acpi_remap list \<Rightarrow> kstate \<Rightarrow> kstate option" where
  "Acpi_remap_loop [] s = Some s"
| "Acpi_remap_loop (r # rs) s =
     (case Acpi_remap_parse r s of None \<Rightarrow> None | Some s1 \<Rightarrow> Acpi_remap_loop rs s1)"

definition Acpi_table_dmar_parse :: "acpi_table_dmar \<Rightarrow> kstate \<Rightarrow> kstate option" where
  "Acpi_table_dmar_parse t s =
     (if True then Some s
      else
        case Acpi_remap_loop (table_remap t) s of
          None \<Rightarrow> None
        | Some s1 \<Rightarrow>
            let s2 = emit (Dmar_enable (table_flags t)) s1
            in Some (s2\<lparr>Hip_feature := Hip_feature s2 \<union> {FEAT_IOMMU}\<rparr>))"

section \<open>Runs of hypercalls\<close>

text \<open>
  The protection domain that a hypercall creates, with the one it names as parent:
  \<^verbatim>\<open>sys_create_pd\<close> with a parent capability that carries the right to create
  objects, when the call leaves a new PD behind (the allocator has advanced).
\<close>

definition created_pd :: "hypercall \<Rightarrow> kstate \<Rightarrow> (nat \<times> nat) option" where
  "created_pd h s =
     (case h of
        HC_CREATE_PD r \<Rightarrow>
          (case capability_cast_pd (Space_obj_lookup s (cp_pd r)) {PERM_OBJ_CREATION} of
             None \<Rightarrow> None
           | Some parent_pd \<Rightarrow>
               if n_pds (fst (sys_create_pd r s)) \<noteq> n_pds s
               then Some (n_pds s, parent_pd) else None)
      | _ \<Rightarrow> None)"

text \<open>
  A run: a list of hypercalls, each made by some EC. \<open>D\<close> collects the protection
  domains created, directly or through others, from the ones it starts with: a new PD
  joins \<open>D\<close> when the PD named as its parent is in \<open>D\<close>.
\<close>

fun run :: "nat set \<Rightarrow> kstate \<Rightarrow> (nat \<times> hypercall) list \<Rightarrow> nat set \<times> kstate" where
  "run D s [] = (D, s)"
| "run D s ((e, h) # rest) =
     (let s0 = s\<lparr>current := e\<rparr>;
          D1 = (case created_pd h s0 of
                  None \<Rightarrow> D
                | Some (new, parent) \<Rightarrow> if parent \<in> D then insert new D else D)
      in run D1 (fst (syscall_handler h s0)) rest)"

section \<open>A small system on which the model is run\<close>

text \<open>
  Values for the constants the headers define (parameters of the model; any values
  would do).
\<close>

definition demo_kc :: konst where
  "demo_kc =
     \<lparr>EXC_RECALL = 31, EXC_STARTUP = 30, SEL_KERN_CODE = 8, SEL_USER_CODE = 27,
      SEL_USER_DATA = 35, USER_ADDR = 2 ^ 47 - 2 ^ 12, SPC_LOCAL_OBJ = 2 ^ 63,
      ADDR_iret_to_user = 2 ^ 64 - 2 ^ 20, remap_guaranteed_size = 2 ^ 21,
      MAX_HELP = 100, Ioapic_ID_MASK = 15\<rparr>"

text \<open>A local EC of PD 0 on CPU 0 that waits for a call, with event base 64.\<close>

definition ec_local :: ec_obj where
  "ec_local =
     \<lparr>cont = None, regs = regs_init, rcap = None, partner = None, pd = 0,
      pd_user_page = 0, cpu = 0, glb = False, evt = 64, user_utcb = 0\<rparr>"

text \<open>
  The system: PD 0 is the root PD and has passthrough, PD 1 has not. EC 1 is a global
  EC of PD 0 on CPU 0 and is current; EC 2 is a local EC on the same CPU that waits for
  a call; EC 3 is a global EC on CPU 1 that is not running there; EC 4 is a local EC on
  CPU 0 that is busy; EC 5 is a global EC of PD 1. Portal 0 is bound to EC 2, portal 1
  to EC 4. The object space of PD 0 holds the portals at selectors 10 and 11, EC 3 at
  12, and the two PDs at 13 and 14.
\<close>

definition demo :: kstate where
  "demo =
     \<lparr>kc = demo_kc,
      ecs = (\<lambda>e. ec_local)
        (1 := ec_local\<lparr>cont := Some Ret_user_sysexit, glb := True, evt := 32,
                        regs := regs_init\<lparr>cs := 27\<rparr>\<rparr>,
         3 := ec_local\<lparr>cont := Some Ret_user_sysexit, glb := True, cpu := 1\<rparr>,
         4 := ec_local\<lparr>cont := Some Recv_user\<rparr>,
         5 := ec_local\<lparr>cont := Some Ret_user_sysexit, glb := True, pd := 1\<rparr>),
      n_ecs = 6,
      pts = (\<lambda>p. \<lparr>pt_ec = 2, pt_ip = 4194304, pt_mtd = 0, pt_id = 7\<rparr>)
        (1 := \<lparr>pt_ec = 4, pt_ip = 4198400, pt_mtd = 0, pt_id = 8\<rparr>),
      pds = (\<lambda>p. \<lparr>is_passthrough = False, space_obj = (\<lambda>sel. Null_cap), stale_host_tlb = {}\<rparr>)
        (0 := \<lparr>is_passthrough = True,
               space_obj = (\<lambda>sel. Null_cap)
                 (10 := Cap (Obj_pt 0) {}, 11 := Cap (Obj_pt 1) {},
                  12 := Cap (Obj_ec 3) {PERM_EC_CTRL},
                  13 := Cap (Obj_pd 0) {PERM_OBJ_CREATION},
                  14 := Cap (Obj_pd 1) {PERM_OBJ_CREATION}),
               stale_host_tlb = {}\<rparr>),
      n_pds = 2,
      current = 1, Sc_current_ec = 1, Sc_last_ref = False, ctr_link = 0, ctr_loop = 0,
      Cpu_id = 0, Cpu_hazard = {}, Ec_remote = (\<lambda>c. 0),
      Hip_cpu_online = (\<lambda>c. c < 2), Hip_feature = {},
      fixup_table = [], kern_frame = regs_init,
      Msr_write_ok = (\<lambda>i v. False), Msr_read_result = (\<lambda>i. (False, 0)),
      Pci_find_dmar = (\<lambda>rid. False),
      effects = []\<rparr>"

text \<open>
  The same system while EC 2 serves a call of EC 1 and takes a page fault in user
  mode: EC 2 is current, EC 1 is its caller and waits in \<^verbatim>\<open>ret_user_sysexit\<close>;
  the scheduling context of EC 1 is linked to EC 2. No portal is at selector
  \<open>64 + 14\<close>, the event base of EC 2 plus the vector.
\<close>

definition demo_fault :: kstate where
  "demo_fault =
     demo\<lparr>current := 2, ctr_link := 1,
          ecs := (ecs demo)
            (1 := (ecs demo 1)\<lparr>partner := Some 2\<rparr>,
             2 := ec_local\<lparr>cont := Some Recv_user, rcap := Some 1,
                            regs := regs_init\<lparr>cs := 27, vec := 14, dst_portal := 14,
                                              err := 4\<rparr>\<rparr>)\<rparr>"

text \<open>
  The same system with hazards pending, on the CPU (first argument) and on the current
  EC 1 (second argument), and with portal 0 also at the selectors \<open>32 + 31\<close> and
  \<open>32 + 1\<close>: the event base of EC 1 plus \<open>EXC_RECALL\<close> and plus \<open>EXC_DB\<close>.
\<close>

definition demo_hazard :: "hazard set \<Rightarrow> hazard set \<Rightarrow> kstate" where
  "demo_hazard ch eh =
     demo\<lparr>Cpu_hazard := ch,
          ecs := (ecs demo)(1 := (ecs demo 1)\<lparr>regs := (regs (ecs demo 1))\<lparr>hazard := eh\<rparr>\<rparr>),
          pds := (pds demo)
            (0 := (pds demo 0)\<lparr>space_obj := (space_obj (pds demo 0))
                     (63 := Cap (Obj_pt 0) {}, 33 := Cap (Obj_pt 0) {})\<rparr>)\<rparr>"

text \<open>
  Arguments of \<^verbatim>\<open>sys_create_ec\<close> that pass every check in the system above, and
  arguments of \<^verbatim>\<open>sys_create_pd\<close> that name PD 1 as the parent and ask for
  passthrough.
\<close>

definition demo_ec_args :: create_ec_args where
  "demo_ec_args =
     \<lparr>ce_sel = 20, ce_pd = 13, ce_cpu = 0, ce_user_page = 4096, ce_esp = 8192, ce_evt = 0,
      ce_glb = True, ce_is_vcpu = False, ce_use_apic_access_page = False,
      ce_map_user_page_in_owner = False\<rparr>"

definition demo_pd_args :: create_pd_args where
  "demo_pd_args = \<lparr>cp_sel = 20, cp_pd = 14, cp_is_passthrough = True, cp_crd = 0\<rparr>"

section \<open>The mapping database: addreg and delreg\<close>

declare addreg.simps [simp del] addreg_nodes.simps [simp del]
declare bit_scan_forward.simps [simp del] bit_scan_reverse.simps [simp del]

subsection \<open>The order chosen by \<open>max_order\<close>\<close>

lemma bsf_dvd: "2 ^ bit_scan_forward v dvd v"
proof (induction v rule: bit_scan_forward.induct)
  case (1 v)
  show ?case
  proof (cases "v = 0 \<or> odd v")
    case True
    then show ?thesis by (subst bit_scan_forward.simps) simp
  next
    case False
    then have "2 ^ bit_scan_forward (v div 2) dvd v div 2" using 1 by simp
    then have "2 * 2 ^ bit_scan_forward (v div 2) dvd 2 * (v div 2)"
      by (rule mult_dvd_mono[OF dvd_refl])
    moreover have "2 * (v div 2) = v" using False by simp
    ultimately show ?thesis using False by (subst bit_scan_forward.simps) simp
  qed
qed

lemma bsf_max: "v \<noteq> 0 \<Longrightarrow> 2 ^ k dvd v \<Longrightarrow> k \<le> bit_scan_forward v"
proof (induction v arbitrary: k rule: bit_scan_forward.induct)
  case (1 v)
  show ?case
  proof (cases "odd v")
    case True
    with 1 have "k = 0" by (cases k) auto
    then show ?thesis by simp
  next
    case False
    show ?thesis
    proof (cases k)
      case 0
      then show ?thesis by simp
    next
      case (Suc j)
      from False 1(2) have nz: "v div 2 \<noteq> 0" by auto
      from 1(3) Suc False have "2 ^ j dvd v div 2"
        by (metis dvd_mult_div_cancel power_Suc zero_neq_numeral dvd_times_left_cancel_iff)
      with 1(1)[of j] False 1(2) nz have "j \<le> bit_scan_forward (v div 2)" by simp
      then show ?thesis using False 1(2) Suc by (subst bit_scan_forward.simps) simp
    qed
  qed
qed

lemma bsr_le: "v \<noteq> 0 \<Longrightarrow> 2 ^ bit_scan_reverse v \<le> v"
proof (induction v rule: bit_scan_reverse.induct)
  case (1 v)
  show ?case
  proof (cases "v < 2")
    case True
    with 1 show ?thesis by (subst bit_scan_reverse.simps) simp
  next
    case False
    then have "2 ^ bit_scan_reverse (v div 2) \<le> v div 2" using 1 by simp
    then have "2 * 2 ^ bit_scan_reverse (v div 2) \<le> v" by linarith
    then show ?thesis using False by (subst bit_scan_reverse.simps) simp
  qed
qed

lemma bsr_max: "2 ^ k \<le> v \<Longrightarrow> k \<le> bit_scan_reverse v"
proof (induction v arbitrary: k rule: bit_scan_reverse.induct)
  case (1 v)
  show ?case
  proof (cases k)
    case 0
    then show ?thesis by simp
  next
    case (Suc j)
    have one: "(1::nat) \<le> 2 ^ j" by simp
    from 1(2) Suc have two: "2 * 2 ^ j \<le> v" by simp
    from one two have ge: "\<not> v < 2" by linarith
    from two have "2 ^ j \<le> v div 2" by linarith
    with 1(1)[of j] ge have "j \<le> bit_scan_reverse (v div 2)" by simp
    then show ?thesis using ge Suc by (subst bit_scan_reverse.simps) simp
  qed
qed

lemma max_order_dvd: "2 ^ max_order a s dvd a"
proof (cases "a = 0")
  case True
  then show ?thesis by simp
next
  case False
  have "(2::nat) ^ min (bit_scan_forward a) (bit_scan_reverse s) dvd 2 ^ bit_scan_forward a"
    by (rule le_imp_power_dvd) simp
  then show ?thesis using False bsf_dvd[of a] by (auto simp: max_order_def intro: dvd_trans)
qed

lemma max_order_le: "s \<noteq> 0 \<Longrightarrow> 2 ^ max_order a s \<le> s"
proof -
  assume s: "s \<noteq> 0"
  have "(2::nat) ^ max_order a s \<le> 2 ^ bit_scan_reverse s"
    by (rule power_increasing) (auto simp: max_order_def)
  with bsr_le[OF s] show ?thesis by linarith
qed

lemma max_order_max: "2 ^ k dvd a \<Longrightarrow> 2 ^ k \<le> s \<Longrightarrow> k \<le> max_order a s"
  by (auto simp: max_order_def bsf_max bsr_max)

subsection \<open>Machine arithmetic that does not wrap\<close>

lemma mword_id: "x < 2 ^ 64 \<Longrightarrow> mword x = x"
  by (simp add: mword_def)

lemma sub_mod_general:
  fixes a b w :: nat
  assumes "b \<le> a" "a < w"
  shows "(a + w - b mod w) mod w = a - b"
proof -
  from assms have b: "b mod w = b" by simp
  from assms have "a + w - b = (a - b) + w" by simp
  then have "(a + w - b) mod w = ((a - b) + w) mod w" by (rule arg_cong)
  also have "\<dots> = (a - b) mod w" by (rule mod_add_self2)
  also have "\<dots> = a - b" using assms by simp
  finally show ?thesis by (simp only: b)
qed

lemma mword_sub_id: "b \<le> a \<Longrightarrow> a < 2 ^ 64 \<Longrightarrow> mword_sub a b = a - b"
  unfolding mword_sub_def by (rule sub_mod_general)

subsection \<open>The loop of addreg\<close>

lemma addreg_zero: "addreg a 0 attr ty tree = tree"
  by (simp add: addreg.simps)

lemma addreg_fold:
  "addreg addr sz attr ty tree =
     foldl (\<lambda>t n. fst (Mdb_insert t n)) tree (addreg_nodes addr sz attr ty)"
proof (induction addr sz attr ty tree rule: addreg.induct)
  case (1 addr sz attr ty tree)
  show ?case
  proof (cases "sz = 0")
    case True
    then show ?thesis by (simp add: addreg.simps addreg_nodes.simps)
  next
    case False
    then show ?thesis
      using 1 by (subst addreg.simps, subst addreg_nodes.simps) (simp add: Let_def)
  qed
qed

lemma addreg_nodes_tiling:
  "addr + sz \<le> 2 ^ 64 \<Longrightarrow>
     greedy_tiling addr (addr + sz) attr ty (addreg_nodes addr sz attr ty)"
proof (induction addr sz attr ty rule: addreg_nodes.induct)
  case (1 addr sz attr ty)
  show ?case
  proof (cases "sz = 0")
    case True
    then show ?thesis by (simp add: addreg_nodes.simps)
  next
    case False
    define ord where "ord = max_order addr sz"
    have le: "2 ^ ord \<le> sz" unfolding ord_def using False by (rule max_order_le)
    have dv: "2 ^ ord dvd addr" unfolding ord_def by (rule max_order_dvd)
    have mx: "\<And>k. 2 ^ k dvd addr \<Longrightarrow> addr + 2 ^ k \<le> addr + sz \<Longrightarrow> k \<le> ord"
      unfolding ord_def by (rule max_order_max) auto
    have rest: "greedy_tiling (addr + 2 ^ ord) (addr + sz) attr ty
                  (addreg_nodes (mword (addr + 2 ^ ord)) (sz - 2 ^ ord) attr ty)"
    proof (cases "sz - 2 ^ ord = 0")
      case True
      with le have "sz = 2 ^ ord" by simp
      then show ?thesis using True by (simp add: addreg_nodes.simps)
    next
      case nz: False
      with le 1(2) have "addr + 2 ^ ord < 2 ^ 64" by simp
      then have m: "mword (addr + 2 ^ ord) = addr + 2 ^ ord" by (rule mword_id)
      have "greedy_tiling (mword (addr + 2 ^ ord)) (mword (addr + 2 ^ ord) + (sz - 2 ^ ord))
              attr ty (addreg_nodes (mword (addr + 2 ^ ord)) (sz - 2 ^ ord) attr ty)"
        using 1(1)[OF False ord_def] 1(2) le m by simp
      then show ?thesis using m le by simp
    qed
    show ?thesis
      using False le dv mx rest
      by (subst addreg_nodes.simps) (simp add: Let_def Mdb_new_def ord_def[symmetric])
  qed
qed

subsection \<open>Tilings and trees without overlaps\<close>

lemma tiling_within:
  "greedy_tiling lo hi attr ty ns \<Longrightarrow> x \<in> set ns \<Longrightarrow>
     lo \<le> node_base x \<and> node_base x + 2 ^ node_order x \<le> hi"
proof (induction ns arbitrary: lo)
  case Nil
  then show ?case by simp
next
  case (Cons n ns)
  show ?case
  proof (cases "x = n")
    case True
    with Cons.prems show ?thesis by simp
  next
    case False
    with Cons.prems have "x \<in> set ns"
      and "greedy_tiling (lo + 2 ^ node_order n) hi attr ty ns" by auto
    from Cons.IH[OF this(2) this(1)] show ?thesis by simp
  qed
qed

lemma tiling_no_overlaps: "greedy_tiling lo hi attr ty ns \<Longrightarrow> no_overlaps ns"
proof (induction ns arbitrary: lo)
  case Nil
  then show ?case by simp
next
  case (Cons n ns)
  then have rest: "greedy_tiling (lo + 2 ^ node_order n) hi attr ty ns"
    and b: "node_base n = lo" by auto
  have "\<forall>y\<in>set ns. \<not> overlap n y"
  proof
    fix y assume "y \<in> set ns"
    from tiling_within[OF rest this] b show "\<not> overlap n y" by (simp add: overlap_def)
  qed
  with Cons.IH[OF rest] show ?case by simp
qed

lemma overlap_sym: "overlap a b = overlap b a"
  by (auto simp: overlap_def)

lemma overlap_refl: "overlap a a"
  by (simp add: overlap_def)

lemma overlap_within:
  "overlap m x \<Longrightarrow> node_base n \<le> node_base x \<Longrightarrow>
   node_base x + 2 ^ node_order x \<le> node_base n + 2 ^ node_order n \<Longrightarrow> overlap m n"
  by (auto simp: overlap_def)

lemma overlap_page: "overlap m (Mdb_new q p 0 a t) = covers m p"
  by (auto simp: overlap_def covers_def Mdb_new_def)

lemma no_overlaps_distinct: "no_overlaps xs \<Longrightarrow> distinct xs"
  by (induction xs) (auto simp: overlap_refl)

lemma no_overlaps_append:
  "no_overlaps (xs @ ys) =
     (no_overlaps xs \<and> no_overlaps ys \<and> (\<forall>x\<in>set xs. \<forall>y\<in>set ys. \<not> overlap x y))"
  by (induction xs) auto

lemma no_overlaps_pair:
  "no_overlaps xs \<Longrightarrow> x \<in> set xs \<Longrightarrow> y \<in> set xs \<Longrightarrow> x \<noteq> y \<Longrightarrow> \<not> overlap x y"
  by (induction xs) (auto simp: overlap_sym)

lemma Mdb_insert_fresh:
  "\<forall>m\<in>set t. \<not> overlap m x \<Longrightarrow> fst (Mdb_insert t x) = insort_key node_base x t"
  by (simp add: Mdb_insert_def list_ex_iff)

lemma foldl_insert_set:
  "no_overlaps ns \<Longrightarrow> \<forall>x\<in>set ns. \<forall>m\<in>set t. \<not> overlap m x \<Longrightarrow>
     set (foldl (\<lambda>t n. fst (Mdb_insert t n)) t ns) = set t \<union> set ns"
proof (induction ns arbitrary: t)
  case Nil
  then show ?case by simp
next
  case (Cons n ns)
  have ins: "fst (Mdb_insert t n) = insort_key node_base n t"
    using Cons.prems(2) by (simp add: Mdb_insert_fresh)
  have "\<forall>x\<in>set ns. \<forall>m\<in>set (insort_key node_base n t). \<not> overlap m x"
    using Cons.prems by (auto simp: set_insort_key)
  with Cons.IH[of "insort_key node_base n t"] Cons.prems(1) ins show ?case
    by (simp add: set_insort_key)
qed

subsection \<open>Lookup\<close>

lemma find_insort_key:
  "P x \<Longrightarrow> \<forall>y\<in>set xs. \<not> P y \<Longrightarrow> List.find P (insort_key f x xs) = Some x"
  by (induction xs) auto

lemma lookup_None_no_cover:
  "Mdb_lookup tree p False = None \<Longrightarrow> m \<in> set tree \<Longrightarrow> \<not> covers m p"
  by (auto simp: Mdb_lookup_def find_None_iff split: option.splits)

lemma lookup_Some:
  "Mdb_lookup tree p False = Some n \<Longrightarrow> n \<in> set tree \<and> covers n p"
  by (auto simp: Mdb_lookup_def find_Some_iff split: option.splits)

lemma max_order_one: "max_order p (Suc 0) = 0"
  by (simp add: max_order_def bit_scan_reverse.simps)

lemma addreg_one:
  "Mdb_lookup tree p False = None \<Longrightarrow>
   addreg p 1 attr ty tree = insort_key node_base (Mdb_new p p 0 attr ty) tree"
  using lookup_None_no_cover[of tree p]
  by (subst addreg.simps)
     (simp add: max_order_one addreg_zero Mdb_insert_def list_ex_iff overlap_page)

subsection \<open>Deleting the pages of a range one by one\<close>













text \<open>The equations that evaluate the operations on concrete trees.\<close>

lemmas mdb_eval =
  delreg_def addreg.simps addreg_nodes.simps Mdb_lookup_def Mdb_insert_def Mdb_remove_def
  Mdb_new_def max_order_def bit_scan_forward.simps bit_scan_reverse.simps mword_def
  mword_sub_def PAGE_BITS_def covers_def overlap_def Let_def

subsection \<open>Claim C3\<close>




subsection \<open>Claim C4\<close>

text \<open>
  C4: when the tree (in which no two nodes overlap) has a node \<open>n\<close> with range
  \<open>[base, base + 2^order)\<close> that covers the page \<open>p\<close> of the address, delreg removes
  exactly that node and inserts the nodes of the two flanks \<open>[base, p)\<close> and
  \<open>[p + 1, base + 2^order)\<close>: the tree afterwards holds the other nodes and the nodes
  that addreg creates for the flanks. These carry the attributes and type of \<open>n\<close> and
  tile each flank greedily: every node is naturally aligned, fits in what remains, and
  has the largest order that is both aligned and fitting.
\<close>

theorem delreg_readds_flanks:
  assumes inv: "no_overlaps tree"
    and look: "Mdb_lookup tree (addr div 2 ^ PAGE_BITS) False = Some n"
    and rep: "node_base n + 2 ^ node_order n < 2 ^ 64"
  shows "(let p = addr div 2 ^ PAGE_BITS;
              base = node_base n;
              lst = node_base n + 2 ^ node_order n;
              left = addreg_nodes base (p - base) (node_attr n) (node_type n);
              right = addreg_nodes (p + 1) (lst - (p + 1)) (node_attr n) (node_type n)
          in set (delreg addr tree) = (set tree - {n}) \<union> set left \<union> set right \<and>
             greedy_tiling base p (node_attr n) (node_type n) left \<and>
             greedy_tiling (p + 1) lst (node_attr n) (node_type n) right)"
proof -
  define p where "p = addr div 2 ^ PAGE_BITS"
  define base where "base = node_base n"
  define lst where "lst = node_base n + 2 ^ node_order n"
  define left where "left = addreg_nodes base (p - base) (node_attr n) (node_type n)"
  define right where "right = addreg_nodes (p + 1) (lst - (p + 1)) (node_attr n) (node_type n)"
  define ins where "ins = (\<lambda>t x. fst (Mdb_insert t x))"
  from lookup_Some[OF look] have mem: "n \<in> set tree" and cov: "covers n p"
    by (simp_all add: p_def)
  from cov have bp: "base \<le> p" and pl: "p < lst"
    by (simp_all add: covers_def base_def lst_def)
  from rep have l64: "lst < 2 ^ 64" by (simp add: lst_def)
  have tl: "greedy_tiling base p (node_attr n) (node_type n) left"
    using addreg_nodes_tiling[of base "p - base"] bp pl l64 by (simp add: left_def)
  have tr: "greedy_tiling (p + 1) lst (node_attr n) (node_type n) right"
    using addreg_nodes_tiling[of "p + 1" "lst - (p + 1)"] pl l64 by (simp add: right_def)
  have wl: "\<And>x. x \<in> set left \<Longrightarrow> base \<le> node_base x \<and> node_base x + 2 ^ node_order x \<le> p"
    using tiling_within[OF tl] by simp
  have wr: "\<And>x. x \<in> set right \<Longrightarrow>
              p + 1 \<le> node_base x \<and> node_base x + 2 ^ node_order x \<le> lst"
    using tiling_within[OF tr] by simp
  have lr: "\<forall>x\<in>set left. \<forall>y\<in>set right. \<not> overlap x y"
  proof (intro ballI)
    fix x y assume "x \<in> set left" "y \<in> set right"
    from wl[OF this(1)] wr[OF this(2)] show "\<not> overlap x y" by (simp add: overlap_def)
  qed
  have no: "no_overlaps (left @ right)"
    using tiling_no_overlaps[OF tl] tiling_no_overlaps[OF tr] lr
    by (simp add: no_overlaps_append)
  have dist: "distinct tree" using inv by (rule no_overlaps_distinct)
  have rem: "set (remove1 n tree) = set tree - {n}" using dist by simp
  have fresh: "\<forall>x\<in>set (left @ right). \<forall>m\<in>set (remove1 n tree). \<not> overlap m x"
  proof (intro ballI)
    fix x m assume x: "x \<in> set (left @ right)" and m: "m \<in> set (remove1 n tree)"
    from m rem have mt: "m \<in> set tree" and mn: "m \<noteq> n" by auto
    from no_overlaps_pair[OF inv mt mem mn] have nmn: "\<not> overlap m n" .
    from x wl wr bp pl have "node_base n \<le> node_base x \<and>
        node_base x + 2 ^ node_order x \<le> node_base n + 2 ^ node_order n"
      by (fastforce simp: base_def lst_def)
    with nmn overlap_within[of m x n] show "\<not> overlap m x" by blast
  qed
  have m1: "mword (p + 1) = p + 1" using pl l64 by (simp add: mword_id)
  have m2: "mword (2 ^ node_order n) = 2 ^ node_order n" using rep by (simp add: mword_id)
  have m3: "mword (base + 2 ^ node_order n) = lst"
    using rep by (simp add: mword_id base_def lst_def)
  have m4: "mword_sub p base = p - base" using bp pl l64 by (simp add: mword_sub_id)
  have m5: "mword_sub lst (p + 1) = lst - (p + 1)" using pl l64 by (simp add: mword_sub_id)
  have "delreg addr tree = foldl ins (foldl ins (remove1 n tree) left) right"
    unfolding delreg_def p_def[symmetric]
    using look[folded p_def] m1 m2 m3 m4 m5
    by (simp add: Let_def Mdb_remove_def addreg_fold base_def[symmetric] left_def right_def
          ins_def)
  also have "\<dots> = foldl ins (remove1 n tree) (left @ right)" by simp
  finally have "set (delreg addr tree) = set (remove1 n tree) \<union> set (left @ right)"
    using foldl_insert_set[OF no fresh] by (simp add: ins_def)
  with rem have "set (delreg addr tree) = (set tree - {n}) \<union> set left \<union> set right"
    by auto
  with tl tr show ?thesis
    by (simp add: Let_def p_def base_def lst_def left_def right_def)
qed

theorem delreg_readds_flanks_witness:
  "no_overlaps [Mdb_new 0 0 3 7 0, Mdb_new 8 8 0 1 0] \<and>
   Mdb_lookup [Mdb_new 0 0 3 7 0, Mdb_new 8 8 0 1 0] (12288 div 2 ^ PAGE_BITS) False
     = Some (Mdb_new 0 0 3 7 0) \<and>
   delreg 12288 [Mdb_new 0 0 3 7 0, Mdb_new 8 8 0 1 0]
     = [Mdb_new 0 0 1 7 0, Mdb_new 2 2 0 7 0, Mdb_new 4 4 2 7 0, Mdb_new 8 8 0 1 0] \<and>
   set (delreg 12288 [Mdb_new 0 0 3 7 0, Mdb_new 8 8 0 1 0])
     = {Mdb_new 8 8 0 1 0} \<union> {Mdb_new 0 0 1 7 0, Mdb_new 2 2 0 7 0} \<union> {Mdb_new 4 4 2 7 0} \<and>
   greedy_tiling 0 3 7 0 [Mdb_new 0 0 1 7 0, Mdb_new 2 2 0 7 0] \<and>
   greedy_tiling 4 8 7 0 [Mdb_new 4 4 2 7 0]"
proof -
  let ?t = "[Mdb_new 0 0 3 7 0, Mdb_new 8 8 0 1 0]"
  have h1: "no_overlaps ?t" by (simp add: mdb_eval)
  have h2: "Mdb_lookup ?t (12288 div 2 ^ PAGE_BITS) False = Some (Mdb_new 0 0 3 7 0)"
    by (simp add: mdb_eval)
  have h3: "node_base (Mdb_new 0 0 3 7 0) + 2 ^ node_order (Mdb_new 0 0 3 7 0) < 2 ^ 64"
    by (simp add: Mdb_new_def)
  have l: "addreg_nodes 0 3 7 0 = [Mdb_new 0 0 1 7 0, Mdb_new 2 2 0 7 0]"
    by (simp add: mdb_eval)
  have r: "addreg_nodes 4 4 7 0 = [Mdb_new 4 4 2 7 0]"
    by (simp add: mdb_eval)
  have d: "delreg 12288 ?t
     = [Mdb_new 0 0 1 7 0, Mdb_new 2 2 0 7 0, Mdb_new 4 4 2 7 0, Mdb_new 8 8 0 1 0]"
    by (simp add: mdb_eval)
  have p: "(12288::nat) div 2 ^ PAGE_BITS = 3" by (simp add: PAGE_BITS_def)
  have f: "node_base (Mdb_new 0 0 3 7 0) = 0" "node_order (Mdb_new 0 0 3 7 0) = 3"
    "node_attr (Mdb_new 0 0 3 7 0) = 7" "node_type (Mdb_new 0 0 3 7 0) = 0"
    by (simp_all add: Mdb_new_def)
  from delreg_readds_flanks[OF h1 h2 h3]
  have "set (delreg 12288 ?t)
          = (set ?t - {Mdb_new 0 0 3 7 0}) \<union> set (addreg_nodes 0 3 7 0) \<union> set (addreg_nodes 4 4 7 0) \<and>
        greedy_tiling 0 3 7 0 (addreg_nodes 0 3 7 0) \<and>
        greedy_tiling 4 8 7 0 (addreg_nodes 4 4 7 0)"
    unfolding p f Let_def by simp
  moreover have "set ?t - {Mdb_new 0 0 3 7 0} = {Mdb_new 8 8 0 1 0}"
    by (auto simp: Mdb_new_def)
  ultimately show ?thesis using h1 h2 d unfolding l r by simp
qed

section \<open>Lemmas about the kernel paths\<close>

lemma xcpu_eq: "unat (cpu c) = xcpu e \<longleftrightarrow> cpu c = cpu e \<and> \<not> glb e"
proof -
  have "unat (cpu c) < 65536" using unsigned_less[of "cpu c", where ?'a = nat] by simp
  moreover have "unat (cpu e) < 65536" using unsigned_less[of "cpu e", where ?'a = nat] by simp
  ultimately show ?thesis by (auto simp: xcpu_def word_unat_eq_iff)
qed

lemma ecs_upd_ec [simp]: "ecs (upd_ec e f s) = (ecs s)(e := f (ecs s e))"
  by (simp add: upd_ec_def)

lemma ecs_upd_regs [simp]:
  "ecs (upd_regs e f s) = (ecs s)(e := (ecs s e)\<lparr>regs := f (regs (ecs s e))\<rparr>)"
  by (simp add: upd_regs_def)

lemma upd_ec_fields [simp]:
  "pds (upd_ec e f s) = pds s" "n_pds (upd_ec e f s) = n_pds s" "n_ecs (upd_ec e f s) = n_ecs s"
  "pts (upd_ec e f s) = pts s" "kc (upd_ec e f s) = kc s" "current (upd_ec e f s) = current s"
  "effects (upd_ec e f s) = effects s" "Cpu_hazard (upd_ec e f s) = Cpu_hazard s"
  "Cpu_id (upd_ec e f s) = Cpu_id s" "Ec_remote (upd_ec e f s) = Ec_remote s"
  "ctr_loop (upd_ec e f s) = ctr_loop s" "ctr_link (upd_ec e f s) = ctr_link s"
  "Sc_current_ec (upd_ec e f s) = Sc_current_ec s" "Sc_last_ref (upd_ec e f s) = Sc_last_ref s"
  by (simp_all add: upd_ec_def)

lemma upd_regs_fields [simp]:
  "pds (upd_regs e f s) = pds s" "n_pds (upd_regs e f s) = n_pds s" "n_ecs (upd_regs e f s) = n_ecs s"
  "pts (upd_regs e f s) = pts s" "kc (upd_regs e f s) = kc s" "current (upd_regs e f s) = current s"
  "effects (upd_regs e f s) = effects s" "Cpu_hazard (upd_regs e f s) = Cpu_hazard s"
  "Cpu_id (upd_regs e f s) = Cpu_id s" "Ec_remote (upd_regs e f s) = Ec_remote s"
  "ctr_loop (upd_regs e f s) = ctr_loop s" "ctr_link (upd_regs e f s) = ctr_link s"
  "Sc_current_ec (upd_regs e f s) = Sc_current_ec s" "Sc_last_ref (upd_regs e f s) = Sc_last_ref s"
  by (simp_all add: upd_regs_def)

lemma emit_fields [simp]:
  "pds (emit x s) = pds s" "n_pds (emit x s) = n_pds s" "n_ecs (emit x s) = n_ecs s"
  "pts (emit x s) = pts s" "kc (emit x s) = kc s" "current (emit x s) = current s"
  "effects (emit x s) = effects s @ [x]" "Cpu_hazard (emit x s) = Cpu_hazard s"
  "Cpu_id (emit x s) = Cpu_id s" "Ec_remote (emit x s) = Ec_remote s" "ecs (emit x s) = ecs s"
  "ctr_loop (emit x s) = ctr_loop s" "ctr_link (emit x s) = ctr_link s"
  "Sc_current_ec (emit x s) = Sc_current_ec s" "Sc_last_ref (emit x s) = Sc_last_ref s"
  by (simp_all add: emit_def)

lemma set_partner_fields [simp]:
  "pds (set_partner c p s) = pds s" "n_pds (set_partner c p s) = n_pds s"
  "n_ecs (set_partner c p s) = n_ecs s" "effects (set_partner c p s) = effects s"
  "current (set_partner c p s) = current s" "kc (set_partner c p s) = kc s"
  by (simp_all add: set_partner_def)

lemma clr_partner_fields [simp]:
  "pds (snd (clr_partner e s)) = pds s" "n_pds (snd (clr_partner e s)) = n_pds s"
  "n_ecs (snd (clr_partner e s)) = n_ecs s" "effects (snd (clr_partner e s)) = effects s"
  "current (snd (clr_partner e s)) = current s" "kc (snd (clr_partner e s)) = kc s"
  "Sc_current_ec (snd (clr_partner e s)) = Sc_current_ec s"
  "Sc_last_ref (snd (clr_partner e s)) = Sc_last_ref s"
  by (simp_all add: clr_partner_def Let_def split: option.splits)

lemma ec_help_fields [simp]:
  "pds (fst (ec_help e c s)) = pds s" "n_pds (fst (ec_help e c s)) = n_pds s"
  "n_ecs (fst (ec_help e c s)) = n_ecs s" "effects (fst (ec_help e c s)) = effects s"
  "current (fst (ec_help e c s)) = current s" "kc (fst (ec_help e c s)) = kc s"
  by (simp_all add: ec_help_def)

lemma reply_None_fields [simp]:
  "pds (fst (reply c None s)) = pds s" "n_pds (fst (reply c None s)) = n_pds s"
  "n_ecs (fst (reply c None s)) = n_ecs s" "effects (fst (reply c None s)) = effects s"
  "current (fst (reply c None s)) = current s" "kc (fst (reply c None s)) = kc s"
  by (simp_all add: reply_def Let_def case_prod_beta split: option.splits)

lemma die_fields [simp]:
  "pds (fst (die s)) = pds s" "n_pds (fst (die s)) = n_pds s"
  "n_ecs (fst (die s)) = n_ecs s" "effects (fst (die s)) = effects s"
  "current (fst (die s)) = current s" "kc (fst (die s)) = kc s"
  by (simp_all add: die_def Let_def split: option.splits)

lemma send_msg_fields [simp]:
  "pds (fst (send_msg C s)) = pds s" "n_pds (fst (send_msg C s)) = n_pds s"
  "n_ecs (fst (send_msg C s)) = n_ecs s" "effects (fst (send_msg C s)) = effects s"
  "current (fst (send_msg C s)) = current s" "kc (fst (send_msg C s)) = kc s"
  by (simp_all add: send_msg_def Let_def case_prod_beta split: option.splits)

lemma handle_hazard_fields [simp]:
  "pds (fst (handle_hazard h f s)) = pds s" "n_pds (fst (handle_hazard h f s)) = n_pds s"
  "n_ecs (fst (handle_hazard h f s)) = n_ecs s"
  "current (fst (handle_hazard h f s)) = current s" "kc (fst (handle_hazard h f s)) = kc s"
  "effects (fst (handle_hazard h f s)) = effects s @ (if HZD_RCU \<in> h then [Rcu_quiet] else [])"
  by (simp_all add: handle_hazard_def Let_def case_prod_beta)

lemma ret_user_sysexit_fields [simp]:
  "pds (fst (ret_user_sysexit s)) = pds s" "n_pds (fst (ret_user_sysexit s)) = n_pds s"
  "n_ecs (fst (ret_user_sysexit s)) = n_ecs s"
  "current (fst (ret_user_sysexit s)) = current s" "kc (fst (ret_user_sysexit s)) = kc s"
  "effects (fst (ret_user_sysexit s))
     = effects s @ (if HZD_RCU \<in> sysexit_hazards s then [Rcu_quiet] else [])"
  by (simp_all add: ret_user_sysexit_def Let_def case_prod_beta split: option.splits)

lemma ret_user_iret_fields [simp]:
  "pds (fst (ret_user_iret s)) = pds s" "n_pds (fst (ret_user_iret s)) = n_pds s"
  "n_ecs (fst (ret_user_iret s)) = n_ecs s"
  "current (fst (ret_user_iret s)) = current s" "kc (fst (ret_user_iret s)) = kc s"
  "effects (fst (ret_user_iret s))
     = effects s @ (if HZD_RCU \<in> iret_hazards s then [Rcu_quiet] else [])"
  by (simp_all add: ret_user_iret_def Let_def case_prod_beta split: option.splits)

lemma sys_finish_fields [simp]:
  "pds (fst (sys_finish st clr s)) = pds s" "n_pds (fst (sys_finish st clr s)) = n_pds s"
  "n_ecs (fst (sys_finish st clr s)) = n_ecs s"
  "current (fst (sys_finish st clr s)) = current s" "kc (fst (sys_finish st clr s)) = kc s"
  by (simp_all add: sys_finish_def Let_def)

lemma emit_derived [simp]:
  "cur (emit x s) = cur s" "Space_obj_lookup (emit x s) sel = Space_obj_lookup s sel"
  "Pd_current (emit x s) = Pd_current s"
  by (simp_all add: cur_def Space_obj_lookup_def Pd_current_def)

lemma die_conts:
  "cont (ecs (fst (die s)) (current s)) = Some Dead"
  "rcap (cur s) = Some c \<Longrightarrow> c \<noteq> current s \<Longrightarrow> cont (ecs s c) = Some Ret_user_sysexit \<Longrightarrow>
     cont (ecs (fst (die s)) c) = Some (Sys_finish COM_ABT False)"
  by (simp_all add: die_def reply_def clr_partner_def Let_def case_prod_beta cur_def
        split: option.splits)

lemma handle_exc_unresolved:
  assumes usr: "user (regs (cur s))"
    and gp: "vec (regs (cur s)) = EXC_GP \<longrightarrow>
               \<not> exc_on_iret_to_user (regs (cur s)) s \<and>
               \<not> snd (fixup (fixup_table s) (regs (cur s))) \<and> HZD_TR \<notin> Cpu_hazard s"
    and pf: "vec (regs (cur s)) = EXC_PF \<longrightarrow> odd (err (regs (cur s)) div ERR_U)"
  shows "handle_exc Cur_frame s =
           send_msg Ret_user_iret (if vec (regs (cur s)) = EXC_MC then emit Mca_vector s else s)"
proof -
  have nmi: "maybe_handle_deferred_nmi_work Cur_frame s = (s, None)"
    using gp by (simp add: maybe_handle_deferred_nmi_work_def get_frame_def Let_def)
  consider (gp) "vec (regs (cur s)) = EXC_GP" | (pf) "vec (regs (cur s)) = EXC_PF"
    | (mc) "vec (regs (cur s)) = EXC_MC" | (other) "vec (regs (cur s)) \<noteq> EXC_GP"
      "vec (regs (cur s)) \<noteq> EXC_PF" "vec (regs (cur s)) \<noteq> EXC_MC"
    by blast
  then show ?thesis
  proof cases
    case gp
    with assms(2) have "handle_exc_gp Cur_frame s = (s, False)"
      by (auto simp: handle_exc_gp_def get_frame_def split: prod.splits bool.splits)
    with gp usr nmi show ?thesis
      by (simp add: handle_exc_def get_frame_def EXC_GP_def EXC_MC_def)
  next
    case pf
    with assms(3) have "handle_exc_pf Cur_frame s = (s, Inr False)"
      by (simp add: handle_exc_pf_def get_frame_def Let_def)
    with pf usr nmi show ?thesis
      by (simp add: handle_exc_def get_frame_def EXC_GP_def EXC_PF_def EXC_MC_def)
  next
    case mc
    with usr nmi show ?thesis
      by (simp add: handle_exc_def get_frame_def EXC_GP_def EXC_PF_def EXC_MC_def)
  next
    case other
    with usr nmi show ?thesis
      by (simp add: handle_exc_def get_frame_def)
  qed
qed

lemma send_msg_dies:
  assumes "capability_cast_pt (Space_obj_lookup s (evt (cur s) + dst_portal (regs (cur s)))) {} = None \<or>
           (\<exists>p. capability_cast_pt (Space_obj_lookup s (evt (cur s) + dst_portal (regs (cur s)))) {} = Some p \<and>
                cpu (ecs s (pt_ec (pts s p))) \<noteq> cpu (cur s))"
  shows "send_msg C s = die s"
  using assms by (auto simp: send_msg_def Let_def xcpu_eq)

lemma send_msg_delivers:
  assumes cap: "capability_cast_pt (Space_obj_lookup s (evt (cur s) + dst_portal (regs (cur s)))) {} = Some p"
    and loc: "\<not> glb (ecs s (pt_ec (pts s p)))"
    and same: "cpu (ecs s (pt_ec (pts s p))) = cpu (cur s)"
    and free: "cont (ecs s (pt_ec (pts s p))) = None"
    and other: "pt_ec (pts s p) \<noteq> current s"
  shows "(case send_msg C s of (s', out) \<Rightarrow>
           out = Return_to_user (pt_ec (pts s p)) \<and>
           cont (ecs s' (current s)) = Some C \<and>
           partner (ecs s' (current s)) = Some (pt_ec (pts s p)) \<and>
           mtd (regs (ecs s' (current s))) = pt_mtd (pts s p) \<and>
           cont (ecs s' (pt_ec (pts s p))) = Some Recv_kern \<and>
           rcap (ecs s' (pt_ec (pts s p))) = Some (current s) \<and>
           arg_pt (regs (ecs s' (pt_ec (pts s p)))) = pt_id (pts s p) \<and>
           arg_ip (regs (ecs s' (pt_ec (pts s p)))) = pt_ip (pts s p))"
proof -
  have x: "unat (cpu (cur s)) = xcpu (ecs s (pt_ec (pts s p)))"
    using loc same by (simp add: xcpu_eq)
  show ?thesis
    using cap free other x
    by (simp add: send_msg_def Let_def set_partner_def)
qed

lemma return_to_user_sys_finish:
  "cont (ecs t c) = Some (Sys_finish st clr) \<Longrightarrow>
   return_to_user c t = sys_finish st clr (t\<lparr>current := c\<rparr>)"
  by (simp add: return_to_user_def Let_def)

lemma cur_upd_regs [simp]:
  "cur (upd_regs (current s) f s) = (cur s)\<lparr>regs := f (regs (cur s))\<rparr>"
  by (simp add: cur_def)

lemma cur_upd_ec [simp]: "cur (upd_ec (current s) f s) = f (cur s)"
  by (simp add: cur_def)

lemma handle_hazard_sched:
  "HZD_SCHED \<in> hzd \<Longrightarrow>
   handle_hazard hzd func s =
     (upd_ec (current s) (\<lambda>x. x\<lparr>cont := Some func\<rparr>)
        (if HZD_RCU \<in> hzd then emit Rcu_quiet s else s), Some (Schedule False))"
  by (simp add: handle_hazard_def Let_def)

lemma handle_hazard_none:
  "HZD_SCHED \<notin> hzd \<Longrightarrow> HZD_RECALL \<notin> hzd \<Longrightarrow> HZD_STEP \<notin> hzd \<Longrightarrow>
   handle_hazard hzd func s = (if HZD_RCU \<in> hzd then emit Rcu_quiet s else s, None)"
  by (simp add: handle_hazard_def Let_def)

lemma handle_hazard_recall:
  assumes "HZD_SCHED \<notin> hzd" "HZD_RECALL \<in> hzd"
  shows "\<exists>t. handle_hazard hzd func s
                = (case send_msg Ret_user_iret t of (s', out) \<Rightarrow> (s', Some out)) \<and>
             current t = current s \<and>
             dst_portal (regs (cur t)) = EXC_RECALL (kc s) \<and>
             hazard (regs (cur t)) = hazard (regs (cur s)) - {HZD_RECALL} \<and>
             effects t = effects s @ (if HZD_RCU \<in> hzd then [Rcu_quiet] else [])"
proof -
  define rq where "rq = (if HZD_RCU \<in> hzd then emit Rcu_quiet s else s)"
  have rq: "current rq = current s" "cur rq = cur s" "kc rq = kc s" "ecs rq = ecs s"
    "effects rq = effects s @ (if HZD_RCU \<in> hzd then [Rcu_quiet] else [])"
    by (simp_all add: rq_def)
  define t where "t = upd_regs (current s) (\<lambda>r. r\<lparr>dst_portal := EXC_RECALL (kc s)\<rparr>)
     ((if func = Ret_user_sysexit then upd_regs (current s) redirect_to_iret else (\<lambda>x. x))
        (upd_regs (current s) (\<lambda>r. r\<lparr>hazard := hazard r - {HZD_RECALL}\<rparr>) rq))"
  have "handle_hazard hzd func s
          = (case send_msg Ret_user_iret t of (s', out) \<Rightarrow> (s', Some out))"
    using assms by (simp add: handle_hazard_def Let_def rq_def[symmetric] rq t_def)
  moreover have "current t = current s" "dst_portal (regs (cur t)) = EXC_RECALL (kc s)"
    "hazard (regs (cur t)) = hazard (regs (cur s)) - {HZD_RECALL}"
    "effects t = effects s @ (if HZD_RCU \<in> hzd then [Rcu_quiet] else [])"
    by (simp_all add: t_def cur_def rq redirect_to_iret_def)
  ultimately show ?thesis by blast
qed

lemma handle_hazard_step:
  assumes "HZD_SCHED \<notin> hzd" "HZD_RECALL \<notin> hzd" "HZD_STEP \<in> hzd"
  shows "\<exists>t. handle_hazard hzd func s
                = (case send_msg Ret_user_iret t of (s', out) \<Rightarrow> (s', Some out)) \<and>
             current t = current s \<and>
             dst_portal (regs (cur t)) = EXC_DB \<and>
             hazard (regs (cur t)) = hazard (regs (cur s)) - {HZD_STEP} \<and>
             effects t = effects s @ (if HZD_RCU \<in> hzd then [Rcu_quiet] else [])"
proof -
  define rq where "rq = (if HZD_RCU \<in> hzd then emit Rcu_quiet s else s)"
  have rq: "current rq = current s" "cur rq = cur s" "kc rq = kc s" "ecs rq = ecs s"
    "effects rq = effects s @ (if HZD_RCU \<in> hzd then [Rcu_quiet] else [])"
    by (simp_all add: rq_def)
  define t where "t = upd_regs (current s) (\<lambda>r. r\<lparr>dst_portal := EXC_DB\<rparr>)
     ((if func = Ret_user_sysexit then upd_regs (current s) redirect_to_iret else (\<lambda>x. x))
        (upd_regs (current s) (\<lambda>r. r\<lparr>hazard := hazard r - {HZD_STEP}\<rparr>) rq))"
  have "handle_hazard hzd func s
          = (case send_msg Ret_user_iret t of (s', out) \<Rightarrow> (s', Some out))"
    using assms by (simp add: handle_hazard_def Let_def rq_def[symmetric] rq t_def)
  moreover have "current t = current s" "dst_portal (regs (cur t)) = EXC_DB"
    "hazard (regs (cur t)) = hazard (regs (cur s)) - {HZD_STEP}"
    "effects t = effects s @ (if HZD_RCU \<in> hzd then [Rcu_quiet] else [])"
    by (simp_all add: t_def cur_def rq redirect_to_iret_def)
  ultimately show ?thesis by blast
qed

lemma ret_user_sysexit_recall:
  assumes "HZD_RECALL \<in> hazard (regs (cur t))"
    and "HZD_SCHED \<notin> Cpu_hazard t \<union> hazard (regs (cur t))"
  shows "\<exists>t'. ret_user_sysexit t = send_msg Ret_user_iret t' \<and> current t' = current t \<and>
              dst_portal (regs (cur t')) = EXC_RECALL (kc t) \<and>
              HZD_RECALL \<notin> hazard (regs (cur t'))"
proof -
  have h: "HZD_RECALL \<in> sysexit_hazards t" "HZD_SCHED \<notin> sysexit_hazards t"
    using assms by (simp_all add: sysexit_hazards_def)
  from handle_hazard_recall[OF h(2) h(1), of Ret_user_sysexit t]
  obtain t' where t': "handle_hazard (sysexit_hazards t) Ret_user_sysexit t
        = (case send_msg Ret_user_iret t' of (s', out) \<Rightarrow> (s', Some out))"
      "current t' = current t" "dst_portal (regs (cur t')) = EXC_RECALL (kc t)"
      "hazard (regs (cur t')) = hazard (regs (cur t)) - {HZD_RECALL}"
    by blast
  have "ret_user_sysexit t = send_msg Ret_user_iret t'"
    using h(1) by (auto simp: ret_user_sysexit_def Let_def t'(1) case_prod_beta)
  with t' show ?thesis by auto
qed

lemma ret_user_iret_recall:
  assumes "HZD_RECALL \<in> hazard (regs (cur t))"
    and "HZD_SCHED \<notin> Cpu_hazard t \<union> hazard (regs (cur t))"
  shows "\<exists>t'. ret_user_iret t = send_msg Ret_user_iret t' \<and> current t' = current t \<and>
              dst_portal (regs (cur t')) = EXC_RECALL (kc t) \<and>
              HZD_RECALL \<notin> hazard (regs (cur t'))"
proof -
  have h: "HZD_RECALL \<in> iret_hazards t" "HZD_SCHED \<notin> iret_hazards t"
    using assms by (simp_all add: iret_hazards_def)
  from handle_hazard_recall[OF h(2) h(1), of Ret_user_iret t]
  obtain t' where t': "handle_hazard (iret_hazards t) Ret_user_iret t
        = (case send_msg Ret_user_iret t' of (s', out) \<Rightarrow> (s', Some out))"
      "current t' = current t" "dst_portal (regs (cur t')) = EXC_RECALL (kc t)"
      "hazard (regs (cur t')) = hazard (regs (cur t)) - {HZD_RECALL}"
    by blast
  have "ret_user_iret t = send_msg Ret_user_iret t'"
    using h(1) by (auto simp: ret_user_iret_def Let_def t'(1) case_prod_beta)
  with t' show ?thesis by auto
qed

lemma ret_user_sched:
  assumes "HZD_SCHED \<in> Cpu_hazard t \<union> hazard (regs (cur t))"
  shows "snd (ret_user_sysexit t) = Schedule False \<and>
         cont (cur (fst (ret_user_sysexit t))) = Some Ret_user_sysexit \<and>
         hazard (regs (cur (fst (ret_user_sysexit t)))) = hazard (regs (cur t)) \<and>
         snd (ret_user_iret t) = Schedule False \<and>
         cont (cur (fst (ret_user_iret t))) = Some Ret_user_iret \<and>
         hazard (regs (cur (fst (ret_user_iret t)))) = hazard (regs (cur t))"
proof -
  have h: "HZD_SCHED \<in> sysexit_hazards t" "HZD_SCHED \<in> iret_hazards t"
    using assms by (simp_all add: sysexit_hazards_def iret_hazards_def)
  then have ne: "sysexit_hazards t \<noteq> {}" "iret_hazards t \<noteq> {}" by auto
  show ?thesis
    using ne by (simp add: ret_user_sysexit_def ret_user_iret_def Let_def
                  handle_hazard_sched[OF h(1)] handle_hazard_sched[OF h(2)] cur_def)
qed

lemma insert_root_fields:
  "insert_root own sel c s = Some s' \<Longrightarrow>
     n_pds s' = n_pds s \<and> n_ecs s' = n_ecs s \<and>
     (\<forall>p. is_passthrough (pds s' p) = is_passthrough (pds s p))"
  by (auto simp: insert_root_def split: if_splits)

lemma sys_call_fields [simp]:
  "pds (fst (sys_call sel fl s)) = pds s" "n_pds (fst (sys_call sel fl s)) = n_pds s"
  by (simp_all add: sys_call_def Let_def case_prod_beta split: option.splits)

lemma sys_ec_ctrl_fields [simp]:
  "pds (fst (sys_ec_ctrl op sel s)) = pds s" "n_pds (fst (sys_ec_ctrl op sel s)) = n_pds s"
  by (simp_all add: sys_ec_ctrl_def Let_def split: option.splits ec_ctrl_op.splits)

lemma sys_pd_ctrl_msr_access_fields [simp]:
  "pds (fst (sys_pd_ctrl_msr_access w i v s)) = pds s"
  "n_pds (fst (sys_pd_ctrl_msr_access w i v s)) = n_pds s"
  by (simp_all add: sys_pd_ctrl_msr_access_def Let_def case_prod_beta)

lemma sys_machine_ctrl_fields [simp]:
  "pds (fst (sys_machine_ctrl op s)) = pds s" "n_pds (fst (sys_machine_ctrl op s)) = n_pds s"
  by (simp_all add: sys_machine_ctrl_def split: machine_ctrl_op.splits)

lemma sys_irq_ctrl_fields [simp]:
  "pds (fst (sys_irq_ctrl op s)) = pds s" "n_pds (fst (sys_irq_ctrl op s)) = n_pds s"
  by (simp_all add: sys_irq_ctrl_def split: irq_ctrl_op.splits)

lemma sys_create_ec_fields:
  "n_pds (fst (sys_create_ec r s)) = n_pds s"
  "is_passthrough (pds (fst (sys_create_ec r s)) p) = is_passthrough (pds s p)"
  by (simp_all add: sys_create_ec_def Let_def insert_root_def split: option.splits)

lemma sys_create_pd_other:
  "p \<noteq> n_pds s \<Longrightarrow>
   is_passthrough (pds (fst (sys_create_pd r s)) p) = is_passthrough (pds s p)"
  by (simp add: sys_create_pd_def Let_def insert_root_def split: option.splits)

lemma sys_create_pd_new:
  assumes "n_pds (fst (sys_create_pd r s)) \<noteq> n_pds s"
  shows "\<exists>parent. capability_cast_pd (Space_obj_lookup s (cp_pd r)) {PERM_OBJ_CREATION} = Some parent \<and>
           n_pds (fst (sys_create_pd r s)) = n_pds s + 1 \<and>
           is_passthrough (pds (fst (sys_create_pd r s)) (n_pds s))
             = (cp_is_passthrough r \<and> is_passthrough (pds s parent))"
  using assms
  by (simp add: sys_create_pd_def Let_def insert_root_def split: option.splits if_splits)

lemma created_pd_Some:
  "created_pd h s = Some (new, parent) \<Longrightarrow>
     \<exists>r. h = HC_CREATE_PD r \<and> new = n_pds s \<and>
         capability_cast_pd (Space_obj_lookup s (cp_pd r)) {PERM_OBJ_CREATION} = Some parent \<and>
         n_pds (fst (sys_create_pd r s)) \<noteq> n_pds s"
  by (auto simp: created_pd_def split: hypercall.splits option.splits if_splits)

lemma created_pd_flag:
  assumes "created_pd (HC_CREATE_PD r) s = Some (new, parent)"
  shows "is_passthrough (pds (fst (sys_create_pd r s)) new)
           = (cp_is_passthrough r \<and> is_passthrough (pds s parent))"
    and "n_pds (fst (sys_create_pd r s)) = n_pds s + 1" and "new = n_pds s"
proof -
  from created_pd_Some[OF assms]
  have c: "capability_cast_pd (Space_obj_lookup s (cp_pd r)) {PERM_OBJ_CREATION} = Some parent"
    and n: "n_pds (fst (sys_create_pd r s)) \<noteq> n_pds s" and e: "new = n_pds s" by auto
  from sys_create_pd_new[OF n] c e
  show "is_passthrough (pds (fst (sys_create_pd r s)) new)
           = (cp_is_passthrough r \<and> is_passthrough (pds s parent))"
    and "n_pds (fst (sys_create_pd r s)) = n_pds s + 1" and "new = n_pds s" by auto
qed

lemma syscall_handler_step:
  "n_pds s \<le> n_pds (fst (syscall_handler h s)) \<and>
   (\<forall>p. p \<noteq> n_pds s \<longrightarrow>
      is_passthrough (pds (fst (syscall_handler h s)) p) = is_passthrough (pds s p))"
proof (cases h)
  case (HC_CREATE_PD r)
  have "n_pds s \<le> n_pds (fst (sys_create_pd r s))"
    using sys_create_pd_new[of r s] by (cases "n_pds (fst (sys_create_pd r s)) = n_pds s") auto
  then show ?thesis using HC_CREATE_PD by (simp add: sys_create_pd_other)
next
  case (HC_CREATE_EC r)
  then show ?thesis by (simp add: sys_create_ec_fields)
qed simp_all

lemma syscall_handler_no_new:
  "created_pd h s = None \<Longrightarrow> n_pds (fst (syscall_handler h s)) = n_pds s"
proof (cases h)
  case (HC_CREATE_PD r)
  assume n: "created_pd h s = None"
  show ?thesis
  proof (rule ccontr)
    assume "n_pds (fst (syscall_handler h s)) \<noteq> n_pds s"
    then have ne: "n_pds (fst (sys_create_pd r s)) \<noteq> n_pds s" using HC_CREATE_PD by simp
    from sys_create_pd_new[OF ne] ne n HC_CREATE_PD show False
      by (auto simp: created_pd_def)
  qed
next
  case (HC_CREATE_EC r)
  then show ?thesis by (simp add: sys_create_ec_fields)
qed simp_all

lemma run_invariant:
  "\<forall>p\<in>D. p < n_pds s \<and> \<not> is_passthrough (pds s p) \<Longrightarrow>
   D \<subseteq> fst (run D s calls) \<and>
   (\<forall>p\<in>fst (run D s calls).
      p < n_pds (snd (run D s calls)) \<and> \<not> is_passthrough (pds (snd (run D s calls)) p))"
proof (induction calls arbitrary: D s)
  case Nil
  then show ?case by simp
next
  case (Cons c calls)
  obtain e h where c: "c = (e, h)" by (cases c)
  define s0 where "s0 = s\<lparr>current := e\<rparr>"
  define s1 where "s1 = fst (syscall_handler h s0)"
  define D1 where "D1 = (case created_pd h s0 of None \<Rightarrow> D
      | Some (new, parent) \<Rightarrow> if parent \<in> D then insert new D else D)"
  have s0: "n_pds s0 = n_pds s" "pds s0 = pds s" by (simp_all add: s0_def)
  have r: "run D s (c # calls) = run D1 s1 calls"
    by (simp add: c Let_def s0_def s1_def D1_def)
  from syscall_handler_step[of s0 h]
  have mono: "n_pds s \<le> n_pds s1"
    and keep: "\<And>p. p \<noteq> n_pds s \<Longrightarrow> is_passthrough (pds s1 p) = is_passthrough (pds s p)"
    by (simp_all add: s1_def s0)
  have old: "p < n_pds s1 \<and> \<not> is_passthrough (pds s1 p)" if "p \<in> D" for p
    using Cons.prems that mono keep[of p] by auto
  have sub: "D \<subseteq> D1" by (auto simp: D1_def split: option.splits)
  have inv1: "\<forall>p\<in>D1. p < n_pds s1 \<and> \<not> is_passthrough (pds s1 p)"
  proof
    fix p assume p: "p \<in> D1"
    show "p < n_pds s1 \<and> \<not> is_passthrough (pds s1 p)"
    proof (cases "p \<in> D")
      case True
      then show ?thesis by (rule old)
    next
      case False
      with p obtain parent where cr: "created_pd h s0 = Some (p, parent)" and par: "parent \<in> D"
        by (auto simp: D1_def split: option.splits if_splits)
      from created_pd_Some[OF cr] obtain r where h: "h = HC_CREATE_PD r" by auto
      from created_pd_flag[OF cr[unfolded h]] h
      have "is_passthrough (pds s1 p) = (cp_is_passthrough r \<and> is_passthrough (pds s0 parent))"
        and "n_pds s1 = n_pds s0 + 1" and "p = n_pds s0"
        by (simp_all add: s1_def)
      with par Cons.prems s0 show ?thesis by auto
    qed
  qed
  from Cons.IH[OF inv1] sub show ?case unfolding r by auto
qed

lemmas demo_eval =
  demo_def demo_fault_def demo_kc_def ec_local_def regs_init_def
  cur_def Pd_current_def Space_obj_lookup_def
  capability_cast_pt_def capability_cast_pd_def capability_cast_ec_def

lemma sys_finish_demo:
  "sys_finish st False demo = (upd_regs 1 (\<lambda>r. r\<lparr>status := st\<rparr>) demo, Sysret)"
  by (simp add: sys_finish_def ret_user_sysexit_def sysexit_hazards_def demo_eval upd_regs_def
        upd_ec_def)

lemmas path_eval =
  handle_exc_def maybe_handle_deferred_nmi_work_def handle_exc_pf_def handle_exc_gp_def
  get_frame_def send_msg_def die_def reply_def clr_partner_def set_partner_def
  return_to_user_def sys_finish_def ret_user_sysexit_def ret_user_iret_def handle_hazard_def
  sysexit_hazards_def iret_hazards_def upd_regs_def upd_ec_def emit_def user_def xcpu_def
  EXC_GP_def EXC_PF_def EXC_MC_def EXC_DB_def ERR_U_def Let_def

lemma sys_create_pd_demo:
  "n_pds (fst (sys_create_pd demo_pd_args demo)) = 3"
  "pd (ecs (fst (sys_create_pd demo_pd_args demo)) 5) = 1"
  "is_passthrough (pds (fst (sys_create_pd (demo_pd_args\<lparr>cp_pd := 13\<rparr>) demo)) 2)"
  "created_pd (HC_CREATE_PD (demo_pd_args\<lparr>cp_pd := 13\<rparr>)) demo = Some (2, 0)"
  "created_pd (HC_CREATE_PD demo_pd_args) demo = Some (2, 1)"
  by (simp_all add: created_pd_def sys_create_pd_def insert_root_def cap_prm_def demo_pd_args_def
        path_eval demo_eval)

subsection \<open>The return paths with hazards pending\<close>

lemma sampled_sched:
  "HZD_SCHED \<in> sysexit_hazards s \<longleftrightarrow> HZD_SCHED \<in> Cpu_hazard s \<union> hazard (regs (cur s))"
  "HZD_SCHED \<in> iret_hazards s \<longleftrightarrow> HZD_SCHED \<in> Cpu_hazard s \<union> hazard (regs (cur s))"
  "HZD_RECALL \<in> sysexit_hazards s \<longleftrightarrow> HZD_RECALL \<in> Cpu_hazard s \<union> hazard (regs (cur s))"
  "HZD_RECALL \<in> iret_hazards s \<longleftrightarrow> HZD_RECALL \<in> Cpu_hazard s \<union> hazard (regs (cur s))"
  "HZD_STEP \<in> sysexit_hazards s \<longleftrightarrow> HZD_STEP \<in> Cpu_hazard s \<union> hazard (regs (cur s))"
  "HZD_STEP \<in> iret_hazards s \<longleftrightarrow> HZD_STEP \<in> Cpu_hazard s \<union> hazard (regs (cur s))"
  "HZD_RCU \<in> sysexit_hazards s \<longleftrightarrow> HZD_RCU \<in> Cpu_hazard s \<union> hazard (regs (cur s))"
  "HZD_RCU \<in> iret_hazards s \<longleftrightarrow> HZD_RCU \<in> Cpu_hazard s \<union> hazard (regs (cur s))"
  by (simp_all add: sysexit_hazards_def iret_hazards_def)

lemma ret_user_sched_eq:
  assumes "HZD_SCHED \<in> Cpu_hazard s \<union> hazard (regs (cur s))"
  shows "ret_user_sysexit s =
           (upd_ec (current s) (\<lambda>x. x\<lparr>cont := Some Ret_user_sysexit\<rparr>)
              (if HZD_RCU \<in> Cpu_hazard s \<union> hazard (regs (cur s)) then emit Rcu_quiet s else s),
            Schedule False)"
    and "ret_user_iret s =
           (upd_ec (current s) (\<lambda>x. x\<lparr>cont := Some Ret_user_iret\<rparr>)
              (if HZD_RCU \<in> Cpu_hazard s \<union> hazard (regs (cur s)) then emit Rcu_quiet s else s),
            Schedule False)"
proof -
  have h: "HZD_SCHED \<in> sysexit_hazards s" "HZD_SCHED \<in> iret_hazards s"
    using assms by (simp_all only: sampled_sched)
  then have ne: "sysexit_hazards s \<noteq> {}" "iret_hazards s \<noteq> {}" by auto
  show "ret_user_sysexit s =
           (upd_ec (current s) (\<lambda>x. x\<lparr>cont := Some Ret_user_sysexit\<rparr>)
              (if HZD_RCU \<in> Cpu_hazard s \<union> hazard (regs (cur s)) then emit Rcu_quiet s else s),
            Schedule False)"
    using ne(1) by (simp add: ret_user_sysexit_def Let_def handle_hazard_sched[OF h(1)] sampled_sched)
  show "ret_user_iret s =
           (upd_ec (current s) (\<lambda>x. x\<lparr>cont := Some Ret_user_iret\<rparr>)
              (if HZD_RCU \<in> Cpu_hazard s \<union> hazard (regs (cur s)) then emit Rcu_quiet s else s),
            Schedule False)"
    using ne(2) by (simp add: ret_user_iret_def Let_def handle_hazard_sched[OF h(2)] sampled_sched)
qed

lemma ret_user_none_eq:
  assumes "HZD_SCHED \<notin> Cpu_hazard s \<union> hazard (regs (cur s))"
    "HZD_RECALL \<notin> Cpu_hazard s \<union> hazard (regs (cur s))"
    "HZD_STEP \<notin> Cpu_hazard s \<union> hazard (regs (cur s))"
  shows "ret_user_sysexit s =
           (if HZD_RCU \<in> Cpu_hazard s \<union> hazard (regs (cur s)) then emit Rcu_quiet s else s,
            Sysret)"
    and "ret_user_iret s =
           (if HZD_RCU \<in> Cpu_hazard s \<union> hazard (regs (cur s)) then emit Rcu_quiet s else s,
            Iret)"
proof -
  have h: "HZD_SCHED \<notin> sysexit_hazards s" "HZD_RECALL \<notin> sysexit_hazards s"
    "HZD_STEP \<notin> sysexit_hazards s"
    using assms by (simp_all only: sampled_sched not_False_eq_True)
  have i: "HZD_SCHED \<notin> iret_hazards s" "HZD_RECALL \<notin> iret_hazards s"
    "HZD_STEP \<notin> iret_hazards s"
    using assms by (simp_all only: sampled_sched not_False_eq_True)
  have e: "iret_hazards s = {} \<Longrightarrow> HZD_RCU \<notin> Cpu_hazard s \<union> hazard (regs (cur s))"
    "sysexit_hazards s = {} \<Longrightarrow> HZD_RCU \<notin> Cpu_hazard s \<union> hazard (regs (cur s))"
    using sampled_sched(7,8)[of s] by auto
  show "ret_user_sysexit s =
           (if HZD_RCU \<in> Cpu_hazard s \<union> hazard (regs (cur s)) then emit Rcu_quiet s else s,
            Sysret)"
    using e(2) by (simp add: ret_user_sysexit_def Let_def handle_hazard_none[OF h] sampled_sched)
  show "ret_user_iret s =
           (if HZD_RCU \<in> Cpu_hazard s \<union> hazard (regs (cur s)) then emit Rcu_quiet s else s,
            Iret)"
    using e(1) by (simp add: ret_user_iret_def Let_def handle_hazard_none[OF i] sampled_sched)
qed

lemma ret_user_recall_eq:
  assumes "HZD_SCHED \<notin> Cpu_hazard s \<union> hazard (regs (cur s))"
    "HZD_RECALL \<in> Cpu_hazard s \<union> hazard (regs (cur s))"
  shows "ret_user_sysexit s =
           send_msg Ret_user_iret
             (upd_regs (current s) (\<lambda>r. r\<lparr>dst_portal := EXC_RECALL (kc s)\<rparr>)
               (upd_regs (current s) redirect_to_iret
                 (upd_regs (current s) (\<lambda>r. r\<lparr>hazard := hazard r - {HZD_RECALL}\<rparr>)
                   (if HZD_RCU \<in> Cpu_hazard s \<union> hazard (regs (cur s))
                    then emit Rcu_quiet s else s))))"
    and "ret_user_iret s =
           send_msg Ret_user_iret
             (upd_regs (current s) (\<lambda>r. r\<lparr>dst_portal := EXC_RECALL (kc s)\<rparr>)
               (upd_regs (current s) (\<lambda>r. r\<lparr>hazard := hazard r - {HZD_RECALL}\<rparr>)
                 (if HZD_RCU \<in> Cpu_hazard s \<union> hazard (regs (cur s))
                  then emit Rcu_quiet s else s)))"
proof -
  have h: "HZD_SCHED \<notin> sysexit_hazards s" "HZD_RECALL \<in> sysexit_hazards s"
    "HZD_SCHED \<notin> iret_hazards s" "HZD_RECALL \<in> iret_hazards s"
    using assms by (simp_all only: sampled_sched not_False_eq_True)
  then have ne: "sysexit_hazards s \<noteq> {}" "iret_hazards s \<noteq> {}" by auto
  show "ret_user_sysexit s =
           send_msg Ret_user_iret
             (upd_regs (current s) (\<lambda>r. r\<lparr>dst_portal := EXC_RECALL (kc s)\<rparr>)
               (upd_regs (current s) redirect_to_iret
                 (upd_regs (current s) (\<lambda>r. r\<lparr>hazard := hazard r - {HZD_RECALL}\<rparr>)
                   (if HZD_RCU \<in> Cpu_hazard s \<union> hazard (regs (cur s))
                    then emit Rcu_quiet s else s))))"
    using ne(1) h(1,2)
    by (simp add: ret_user_sysexit_def handle_hazard_def Let_def case_prod_beta sampled_sched)
  show "ret_user_iret s =
           send_msg Ret_user_iret
             (upd_regs (current s) (\<lambda>r. r\<lparr>dst_portal := EXC_RECALL (kc s)\<rparr>)
               (upd_regs (current s) (\<lambda>r. r\<lparr>hazard := hazard r - {HZD_RECALL}\<rparr>)
                 (if HZD_RCU \<in> Cpu_hazard s \<union> hazard (regs (cur s))
                  then emit Rcu_quiet s else s)))"
    using ne(2) h(3,4)
    by (simp add: ret_user_iret_def handle_hazard_def Let_def case_prod_beta sampled_sched)
qed

lemma ret_user_step_eq:
  assumes "HZD_SCHED \<notin> Cpu_hazard s \<union> hazard (regs (cur s))"
    "HZD_RECALL \<notin> Cpu_hazard s \<union> hazard (regs (cur s))"
    "HZD_STEP \<in> Cpu_hazard s \<union> hazard (regs (cur s))"
  shows "ret_user_sysexit s =
           send_msg Ret_user_iret
             (upd_regs (current s) (\<lambda>r. r\<lparr>dst_portal := EXC_DB\<rparr>)
               (upd_regs (current s) redirect_to_iret
                 (upd_regs (current s) (\<lambda>r. r\<lparr>hazard := hazard r - {HZD_STEP}\<rparr>)
                   (if HZD_RCU \<in> Cpu_hazard s \<union> hazard (regs (cur s))
                    then emit Rcu_quiet s else s))))"
    and "ret_user_iret s =
           send_msg Ret_user_iret
             (upd_regs (current s) (\<lambda>r. r\<lparr>dst_portal := EXC_DB\<rparr>)
               (upd_regs (current s) (\<lambda>r. r\<lparr>hazard := hazard r - {HZD_STEP}\<rparr>)
                 (if HZD_RCU \<in> Cpu_hazard s \<union> hazard (regs (cur s))
                  then emit Rcu_quiet s else s)))"
proof -
  have h: "HZD_SCHED \<notin> sysexit_hazards s" "HZD_RECALL \<notin> sysexit_hazards s"
    "HZD_STEP \<in> sysexit_hazards s"
    "HZD_SCHED \<notin> iret_hazards s" "HZD_RECALL \<notin> iret_hazards s" "HZD_STEP \<in> iret_hazards s"
    using assms by (simp_all only: sampled_sched not_False_eq_True)
  then have ne: "sysexit_hazards s \<noteq> {}" "iret_hazards s \<noteq> {}" by auto
  show "ret_user_sysexit s =
           send_msg Ret_user_iret
             (upd_regs (current s) (\<lambda>r. r\<lparr>dst_portal := EXC_DB\<rparr>)
               (upd_regs (current s) redirect_to_iret
                 (upd_regs (current s) (\<lambda>r. r\<lparr>hazard := hazard r - {HZD_STEP}\<rparr>)
                   (if HZD_RCU \<in> Cpu_hazard s \<union> hazard (regs (cur s))
                    then emit Rcu_quiet s else s))))"
    using ne(1) h(1,2,3)
    by (simp add: ret_user_sysexit_def handle_hazard_def Let_def case_prod_beta sampled_sched)
  show "ret_user_iret s =
           send_msg Ret_user_iret
             (upd_regs (current s) (\<lambda>r. r\<lparr>dst_portal := EXC_DB\<rparr>)
               (upd_regs (current s) (\<lambda>r. r\<lparr>hazard := hazard r - {HZD_STEP}\<rparr>)
                 (if HZD_RCU \<in> Cpu_hazard s \<union> hazard (regs (cur s))
                  then emit Rcu_quiet s else s)))"
    using ne(2) h(4,5,6)
    by (simp add: ret_user_iret_def handle_hazard_def Let_def case_prod_beta sampled_sched)
qed

text \<open>What the delivery of an exception message does to a frame prepared by the hazard path.\<close>

lemma send_msg_delivers_frame:
  assumes t: "current t = current s" "pds t = pds s" "pts t = pts s"
      "\<And>e. e \<noteq> current s \<Longrightarrow> ecs t e = ecs s e"
      "cur t = (cur s)\<lparr>regs := r'\<rparr>" "dst_portal r' = v"
    and cap: "capability_cast_pt (Space_obj_lookup s (evt (cur s) + v)) {} = Some p"
    and loc: "\<not> glb (ecs s (pt_ec (pts s p)))"
    and same: "cpu (ecs s (pt_ec (pts s p))) = cpu (cur s)"
    and free: "cont (ecs s (pt_ec (pts s p))) = None"
    and other: "pt_ec (pts s p) \<noteq> current s"
  shows "snd (send_msg C t) = Return_to_user (pt_ec (pts s p)) \<and>
         cont (ecs (fst (send_msg C t)) (current s)) = Some C \<and>
         hazard (regs (ecs (fst (send_msg C t)) (current s))) = hazard r' \<and>
         dst_portal (regs (ecs (fst (send_msg C t)) (current s))) = v \<and>
         cont (ecs (fst (send_msg C t)) (pt_ec (pts s p))) = Some Recv_kern \<and>
         rcap (ecs (fst (send_msg C t)) (pt_ec (pts s p))) = Some (current s) \<and>
         arg_pt (regs (ecs (fst (send_msg C t)) (pt_ec (pts s p)))) = pt_id (pts s p) \<and>
         arg_ip (regs (ecs (fst (send_msg C t)) (pt_ec (pts s p)))) = pt_ip (pts s p)"
proof -
  have l: "Space_obj_lookup t (evt (cur t) + dst_portal (regs (cur t)))
             = Space_obj_lookup s (evt (cur s) + v)"
    using t by (simp add: Space_obj_lookup_def Pd_current_def)
  have srv: "ecs t (pt_ec (pts s p)) = ecs s (pt_ec (pts s p))" using t(4)[OF other] .
  have x: "unat (cpu (cur t)) = xcpu (ecs t (pt_ec (pts s p)))"
    using loc same t(5) by (simp add: xcpu_eq srv)
  have c: "ecs t (current s) = (cur s)\<lparr>regs := r'\<rparr>" using t(1,5) by (simp add: cur_def)
  show ?thesis
    using cap free other x t(1,3,6) l srv c
    by (simp add: send_msg_def Let_def set_partner_def)
qed

lemma hazard_frame_facts:
  "current (upd_regs (current s) f (upd_regs (current s) g (upd_regs (current s) h rq))) = current rq"
  "pds (upd_regs (current s) f (upd_regs (current s) g (upd_regs (current s) h rq))) = pds rq"
  "pts (upd_regs (current s) f (upd_regs (current s) g (upd_regs (current s) h rq))) = pts rq"
  "e \<noteq> current s \<Longrightarrow>
     ecs (upd_regs (current s) f (upd_regs (current s) g (upd_regs (current s) h rq))) e = ecs rq e"
  "current rq = current s \<Longrightarrow>
     cur (upd_regs (current s) f (upd_regs (current s) g (upd_regs (current s) h rq)))
       = (cur rq)\<lparr>regs := f (g (h (regs (cur rq))))\<rparr>"
  by (simp_all add: cur_def)

lemma hazard_delivers:
  assumes e1: "ret_user_sysexit s =
           send_msg Ret_user_iret
             (upd_regs (current s) (\<lambda>r. r\<lparr>dst_portal := v\<rparr>)
               (upd_regs (current s) redirect_to_iret
                 (upd_regs (current s) (\<lambda>r. r\<lparr>hazard := hazard r - {hz}\<rparr>)
                   (if q then emit Rcu_quiet s else s))))"
    and e2: "ret_user_iret s =
           send_msg Ret_user_iret
             (upd_regs (current s) (\<lambda>r. r\<lparr>dst_portal := v\<rparr>)
               (upd_regs (current s) (\<lambda>r. r\<lparr>hazard := hazard r - {hz}\<rparr>)
                 (if q then emit Rcu_quiet s else s)))"
    and cap: "capability_cast_pt (Space_obj_lookup s (evt (cur s) + v)) {} = Some p"
    and loc: "\<not> glb (ecs s (pt_ec (pts s p)))"
    and same: "cpu (ecs s (pt_ec (pts s p))) = cpu (cur s)"
    and free: "cont (ecs s (pt_ec (pts s p))) = None"
    and other: "pt_ec (pts s p) \<noteq> current s"
  shows "\<forall>res\<in>{ret_user_sysexit s, ret_user_iret s}.
           snd res = Return_to_user (pt_ec (pts s p)) \<and>
           cont (ecs (fst res) (current s)) = Some Ret_user_iret \<and>
           hazard (regs (ecs (fst res) (current s))) = hazard (regs (cur s)) - {hz} \<and>
           dst_portal (regs (ecs (fst res) (current s))) = v \<and>
           cont (ecs (fst res) (pt_ec (pts s p))) = Some Recv_kern \<and>
           rcap (ecs (fst res) (pt_ec (pts s p))) = Some (current s) \<and>
           arg_pt (regs (ecs (fst res) (pt_ec (pts s p)))) = pt_id (pts s p) \<and>
           arg_ip (regs (ecs (fst res) (pt_ec (pts s p)))) = pt_ip (pts s p)"
proof -
  define rq where "rq = (if q then emit Rcu_quiet s else s)"
  have rq: "current rq = current s" "pds rq = pds s" "pts rq = pts s" "ecs rq = ecs s"
    "cur rq = cur s"
    by (simp_all add: rq_def)
  define t1 where "t1 = upd_regs (current s) (\<lambda>r. r\<lparr>dst_portal := v\<rparr>)
               (upd_regs (current s) redirect_to_iret
                 (upd_regs (current s) (\<lambda>r. r\<lparr>hazard := hazard r - {hz}\<rparr>) rq))"
  define t2 where "t2 = upd_regs (current s) (\<lambda>r. r\<lparr>dst_portal := v\<rparr>)
               (upd_regs (current s) (\<lambda>r. r)
                 (upd_regs (current s) (\<lambda>r. r\<lparr>hazard := hazard r - {hz}\<rparr>) rq))"
  have id: "upd_regs (current s) (\<lambda>r. r) = (\<lambda>x. x)"
    by (rule ext) (simp add: upd_regs_def upd_ec_def)
  have e1': "ret_user_sysexit s = send_msg Ret_user_iret t1"
    unfolding t1_def rq_def by (rule e1)
  have e2': "ret_user_iret s = send_msg Ret_user_iret t2"
    unfolding t2_def rq_def id by (rule e2)
  note d1 = send_msg_delivers_frame[of t1 s _ v p Ret_user_iret,
      OF _ _ _ _ _ _ cap loc same free other]
  note d2 = send_msg_delivers_frame[of t2 s _ v p Ret_user_iret,
      OF _ _ _ _ _ _ cap loc same free other]
  have r1: "snd (send_msg Ret_user_iret t1) = Return_to_user (pt_ec (pts s p)) \<and>
         cont (ecs (fst (send_msg Ret_user_iret t1)) (current s)) = Some Ret_user_iret \<and>
         hazard (regs (ecs (fst (send_msg Ret_user_iret t1)) (current s)))
           = hazard (regs (cur s)) - {hz} \<and>
         dst_portal (regs (ecs (fst (send_msg Ret_user_iret t1)) (current s))) = v \<and>
         cont (ecs (fst (send_msg Ret_user_iret t1)) (pt_ec (pts s p))) = Some Recv_kern \<and>
         rcap (ecs (fst (send_msg Ret_user_iret t1)) (pt_ec (pts s p))) = Some (current s) \<and>
         arg_pt (regs (ecs (fst (send_msg Ret_user_iret t1)) (pt_ec (pts s p)))) = pt_id (pts s p) \<and>
         arg_ip (regs (ecs (fst (send_msg Ret_user_iret t1)) (pt_ec (pts s p)))) = pt_ip (pts s p)"
    using d1[of "(regs (cur s))\<lparr>hazard := hazard (regs (cur s)) - {hz},
                    rsp := arg_sp (regs (cur s)), rip := arg_ip (regs (cur s)),
                    dst_portal := v\<rparr>"]
    by (simp add: t1_def hazard_frame_facts rq redirect_to_iret_def)
  have r2: "snd (send_msg Ret_user_iret t2) = Return_to_user (pt_ec (pts s p)) \<and>
         cont (ecs (fst (send_msg Ret_user_iret t2)) (current s)) = Some Ret_user_iret \<and>
         hazard (regs (ecs (fst (send_msg Ret_user_iret t2)) (current s)))
           = hazard (regs (cur s)) - {hz} \<and>
         dst_portal (regs (ecs (fst (send_msg Ret_user_iret t2)) (current s))) = v \<and>
         cont (ecs (fst (send_msg Ret_user_iret t2)) (pt_ec (pts s p))) = Some Recv_kern \<and>
         rcap (ecs (fst (send_msg Ret_user_iret t2)) (pt_ec (pts s p))) = Some (current s) \<and>
         arg_pt (regs (ecs (fst (send_msg Ret_user_iret t2)) (pt_ec (pts s p)))) = pt_id (pts s p) \<and>
         arg_ip (regs (ecs (fst (send_msg Ret_user_iret t2)) (pt_ec (pts s p)))) = pt_ip (pts s p)"
    using d2[of "(regs (cur s))\<lparr>hazard := hazard (regs (cur s)) - {hz}, dst_portal := v\<rparr>"]
    by (simp add: t2_def hazard_frame_facts rq)
  show ?thesis unfolding e1' e2' using r1 r2 by blast
qed

lemma ret_user_sampling:
  "ret_user_sysexit s =
     (if sysexit_hazards s = {} then (s, Sysret)
      else case handle_hazard (sysexit_hazards s) Ret_user_sysexit s of
             (s', Some out) \<Rightarrow> (s', out) | (s', None) \<Rightarrow> (s', Sysret))"
  "ret_user_iret s =
     (if iret_hazards s = {} then (s, Iret)
      else case handle_hazard (iret_hazards s) Ret_user_iret s of
             (s', Some out) \<Rightarrow> (s', out) | (s', None) \<Rightarrow> (s', Iret))"
  by (simp_all add: ret_user_sysexit_def ret_user_iret_def Let_def)

lemma demo_hazard_eval:
  "current (demo_hazard ch eh) = 1" "kc (demo_hazard ch eh) = demo_kc"
  "Cpu_hazard (demo_hazard ch eh) = ch"
  "hazard (regs (cur (demo_hazard ch eh))) = eh"
  "effects (demo_hazard ch eh) = []"
  "evt (cur (demo_hazard ch eh)) = 32"
  "capability_cast_pt (Space_obj_lookup (demo_hazard ch eh) 63) {} = Some 0"
  "capability_cast_pt (Space_obj_lookup (demo_hazard ch eh) 33) {} = Some 0"
  "pt_ec (pts (demo_hazard ch eh) 0) = 2"
  "\<not> glb (ecs (demo_hazard ch eh) 2)"
  "cpu (ecs (demo_hazard ch eh) 2) = cpu (cur (demo_hazard ch eh))"
  "cont (ecs (demo_hazard ch eh) 2) = None"
  "pt_id (pts (demo_hazard ch eh) 0) = 7"
  by (simp_all add: demo_hazard_def demo_eval)

subsection \<open>The path of a killed EC\<close>

lemma status_upd_ec_cont:
  "status (regs (ecs (upd_ec e (\<lambda>x. x\<lparr>cont := c\<rparr>) s) e')) = status (regs (ecs s e'))"
  by (simp add: upd_ec_def)

lemma reply_status:
  "status (regs (ecs (fst (reply c sm s)) e)) = status (regs (ecs s e))"
  by (simp add: reply_def clr_partner_def Let_def case_prod_beta upd_ec_def emit_def
        split: option.splits)

lemma die_status: "status (regs (ecs (fst (die s)) e)) = status (regs (ecs s e))"
  by (simp add: die_def Let_def reply_status status_upd_ec_cont split: option.splits)

lemma send_msg_status:
  "status (regs (ecs (fst (send_msg C s)) e)) = status (regs (ecs s e))"
  by (simp add: send_msg_def Let_def case_prod_beta set_partner_def ec_help_def upd_regs_def
        upd_ec_def die_status split: option.splits)

lemma handle_hazard_status:
  "status (regs (ecs (fst (handle_hazard h f s)) e)) = status (regs (ecs s e))"
  by (simp add: handle_hazard_def Let_def case_prod_beta redirect_to_iret_def upd_regs_def
        upd_ec_def emit_def send_msg_status)

lemma ret_user_sysexit_status:
  "status (regs (ecs (fst (ret_user_sysexit s)) e)) = status (regs (ecs s e))"
proof -
  have "status (regs (ecs (fst (ret_user_sysexit s)) e))
          = status (regs (ecs (fst (handle_hazard (sysexit_hazards s) Ret_user_sysexit s)) e))
        \<or> fst (ret_user_sysexit s) = s"
    by (simp add: ret_user_sysexit_def Let_def case_prod_beta split: option.splits)
  then show ?thesis by (auto simp: handle_hazard_status)
qed

text \<open>How the path of a killed EC ends: the whole of \<^verbatim>\<open>die\<close> and \<^verbatim>\<open>reply\<close>.\<close>

lemma die_outcome:
  "cont (ecs (fst (die s)) (current s)) = Some Dead"
  "glb (cur s) \<Longrightarrow> snd (die s) = Schedule True"
  "\<not> glb (cur s) \<Longrightarrow> rcap (cur s) = None \<Longrightarrow> snd (die s) = Activate (Sc_current_ec s)"
  "rcap (cur s) = Some c \<Longrightarrow> c \<noteq> current s \<Longrightarrow>
     cont (ecs (fst (die s)) c) =
       Some (if cont (ecs s c) = Some Ret_user_sysexit then Sys_finish COM_ABT False else Dead)"
  "rcap (cur s) = Some c \<Longrightarrow> c \<noteq> current s \<Longrightarrow> \<not> glb (cur s) \<Longrightarrow>
     partner (ecs (fst (die s)) c) = None \<and>
     (partner (ecs s c) = Some (current s) \<longrightarrow> rcap (ecs (fst (die s)) (current s)) = None) \<and>
     snd (die s) =
       (if Sc_current_ec s = c \<and> Sc_last_ref s then Schedule True
        else if ctr_link s = 0 then Activate (Sc_current_ec s)
        else Return_to_user c)"
  by (auto simp add: die_def reply_def clr_partner_def Let_def case_prod_beta cur_def upd_ec_def
        split: option.splits)

lemma woken_COM_ABT:
  assumes "cont (ecs t c) = Some (Sys_finish COM_ABT False)"
  shows "return_to_user c t =
           ret_user_sysexit (upd_regs c (\<lambda>r. r\<lparr>status := COM_ABT\<rparr>) (t\<lparr>current := c\<rparr>))"
    and "current (fst (return_to_user c t)) = c"
    and "status (regs (ecs (fst (return_to_user c t)) c)) = COM_ABT"
proof -
  show e: "return_to_user c t =
           ret_user_sysexit (upd_regs c (\<lambda>r. r\<lparr>status := COM_ABT\<rparr>) (t\<lparr>current := c\<rparr>))"
    using return_to_user_sys_finish[OF assms] by (simp add: sys_finish_def)
  show "current (fst (return_to_user c t)) = c" unfolding e by simp
  show "status (regs (ecs (fst (return_to_user c t)) c)) = COM_ABT"
    unfolding e by (simp add: ret_user_sysexit_status)
qed

section \<open>The claims about the kernel paths\<close>

subsection \<open>Claim C1\<close>

text \<open>
  C1: a \<^verbatim>\<open>sys_call\<close> through a selector that names a portal capability, whose server
  EC is a local EC (as every EC a portal is bound to) on the caller's CPU, has no
  continuation and is not the caller itself, sets the caller's continuation to
  \<^verbatim>\<open>ret_user_sysexit\<close> and its partner to the server, sets the server's continuation
  to \<^verbatim>\<open>recv_user\<close> and its \<open>rcap\<close> to the caller, loads the portal's id and ip into
  the server's register frame, and ends by switching to the server.
\<close>

theorem sys_call_switches_to_server:
  assumes cap: "capability_cast_pt (Space_obj_lookup s sel) {} = Some p"
    and loc: "\<not> glb (ecs s (pt_ec (pts s p)))"
    and same: "cpu (ecs s (pt_ec (pts s p))) = cpu (cur s)"
    and free: "cont (ecs s (pt_ec (pts s p))) = None"
    and other: "pt_ec (pts s p) \<noteq> current s"
  shows "(case sys_call sel flags s of (s', out) \<Rightarrow>
           out = Return_to_user (pt_ec (pts s p)) \<and>
           cont (ecs s' (current s)) = Some Ret_user_sysexit \<and>
           partner (ecs s' (current s)) = Some (pt_ec (pts s p)) \<and>
           cont (ecs s' (pt_ec (pts s p))) = Some Recv_user \<and>
           rcap (ecs s' (pt_ec (pts s p))) = Some (current s) \<and>
           arg_pt (regs (ecs s' (pt_ec (pts s p)))) = pt_id (pts s p) \<and>
           arg_ip (regs (ecs s' (pt_ec (pts s p)))) = pt_ip (pts s p))"
proof -
  have x: "unat (cpu (cur s)) = xcpu (ecs s (pt_ec (pts s p)))"
    using loc same by (simp add: xcpu_eq)
  show ?thesis
    using cap free other x
    by (simp add: sys_call_def Let_def set_partner_def)
qed

theorem sys_call_switches_to_server_witness:
  "capability_cast_pt (Space_obj_lookup demo 10) {} = Some 0 \<and>
   pt_ec (pts demo 0) = 2 \<and> current demo = 1 \<and>
   \<not> glb (ecs demo 2) \<and> cpu (ecs demo 2) = cpu (cur demo) \<and> cont (ecs demo 2) = None \<and>
   (case sys_call 10 {} demo of (s', out) \<Rightarrow>
      out = Return_to_user 2 \<and>
      cont (ecs s' 1) = Some Ret_user_sysexit \<and> partner (ecs s' 1) = Some 2 \<and>
      cont (ecs s' 2) = Some Recv_user \<and> rcap (ecs s' 2) = Some 1 \<and>
      arg_pt (regs (ecs s' 2)) = 7 \<and> arg_ip (regs (ecs s' 2)) = 4194304)"
proof -
  have cap: "capability_cast_pt (Space_obj_lookup demo 10) {} = Some 0"
    by (simp add: demo_eval)
  have srv: "pt_ec (pts demo 0) = 2" "pt_id (pts demo 0) = 7" "pt_ip (pts demo 0) = 4194304"
    "current demo = 1"
    by (simp_all add: demo_eval)
  have h: "\<not> glb (ecs demo (pt_ec (pts demo 0)))"
    "cpu (ecs demo (pt_ec (pts demo 0))) = cpu (cur demo)"
    "cont (ecs demo (pt_ec (pts demo 0))) = None"
    "pt_ec (pts demo 0) \<noteq> current demo"
    by (simp_all add: demo_eval)
  from sys_call_switches_to_server[OF cap h, of "{}"] cap h srv
  show ?thesis by simp
qed

subsection \<open>Claim C2\<close>

text \<open>
  C2, as the spec states it: when the portal of an unresolved user exception is absent
  (or its server EC is on another CPU), the faulting EC is killed and a caller recorded
  in its \<open>rcap\<close> that waits in \<^verbatim>\<open>ret_user_sysexit\<close> is woken with the status
  \<open>COM_ABT\<close>. \<^verbatim>\<open>Ec::reply\<close>, in which the kill ends, resumes the caller only on
  its last line. Counterexample: EC 2 serves a call of EC 1 and takes a page fault in
  user mode for which it has no portal, while the current scheduling context, the one
  of EC 1, is on its last reference: the path ends in \<^verbatim>\<open>Sc::schedule (true)\<close>, EC 1
  is not made current and the status in its frame is still \<open>SUCCESS\<close>.
\<close>

theorem handle_exc_kill_counterexample:
  "user (regs (cur (demo_fault\<lparr>Sc_last_ref := True\<rparr>))) \<and>
   vec (regs (cur (demo_fault\<lparr>Sc_last_ref := True\<rparr>))) = EXC_PF \<and>
   dst_portal (regs (cur (demo_fault\<lparr>Sc_last_ref := True\<rparr>))) = EXC_PF \<and>
   odd (err (regs (cur (demo_fault\<lparr>Sc_last_ref := True\<rparr>))) div ERR_U) \<and>
   capability_cast_pt (Space_obj_lookup (demo_fault\<lparr>Sc_last_ref := True\<rparr>)
      (evt (cur (demo_fault\<lparr>Sc_last_ref := True\<rparr>)) + EXC_PF)) {} = None \<and>
   rcap (cur (demo_fault\<lparr>Sc_last_ref := True\<rparr>)) = Some 1 \<and>
   cont (ecs (demo_fault\<lparr>Sc_last_ref := True\<rparr>) 1) = Some Ret_user_sysexit \<and>
   snd (handle_exc Cur_frame (demo_fault\<lparr>Sc_last_ref := True\<rparr>)) = Schedule True \<and>
   current (fst (handle_exc Cur_frame (demo_fault\<lparr>Sc_last_ref := True\<rparr>))) = 2 \<and>
   status (regs (ecs (fst (handle_exc Cur_frame (demo_fault\<lparr>Sc_last_ref := True\<rparr>))) 1))
     = SUCCESS \<and>
   status (regs (ecs (fst (handle_exc Cur_frame (demo_fault\<lparr>Sc_last_ref := True\<rparr>))) 1))
     \<noteq> COM_ABT"
  by (simp add: path_eval demo_eval exc_on_iret_to_user_def)

text \<open>
  C2, amended: a user exception of the current EC that no handler in the kernel
  resolves (for \<open>#GP\<close>: no deferred NMI work, no fixup entry, no TR hazard; for
  \<open>#PF\<close>: a fault with the user bit set) is delivered by
  \<^verbatim>\<open>send_msg<ret_user_iret>\<close> through the portal at the EC's event base plus the
  vector (the vector is the frame's destination portal, as \<^verbatim>\<open>handle_exc\<close> asserts).
  When the portal is there, with a free local server EC on the same CPU, the path
  switches to the server with the continuation \<^verbatim>\<open>recv_kern\<close>. When the portal
  capability is absent or its server EC is on another CPU, the faulting EC is killed:
  its continuation becomes \<^verbatim>\<open>dead\<close>, and a caller recorded in its \<open>rcap\<close> gets the
  continuation \<^verbatim>\<open>sys_finish<COM_ABT>\<close> when it waits in \<^verbatim>\<open>ret_user_sysexit\<close>
  (and \<^verbatim>\<open>dead\<close> otherwise). The path of a global EC ends in the scheduler, and that
  of an EC without caller in the activation of the current scheduling context's EC. For
  a local EC with a caller the partner link is cleared, and the path ends in the
  scheduler when the current scheduling context is the caller's and on its last
  reference, in the activation of the current scheduling context's EC when no
  scheduling context was linked, and otherwise in the caller: the caller is made
  current, the status \<open>COM_ABT\<close> is put in its register frame and the sysexit return
  path is entered.
\<close>

theorem handle_exc_delivers_or_kills:
  assumes usr: "user (regs (cur s))"
    and vp: "vec (regs (cur s)) = dst_portal (regs (cur s))"
    and gp: "vec (regs (cur s)) = EXC_GP \<longrightarrow>
               \<not> exc_on_iret_to_user (regs (cur s)) s \<and>
               \<not> snd (fixup (fixup_table s) (regs (cur s))) \<and> HZD_TR \<notin> Cpu_hazard s"
    and pf: "vec (regs (cur s)) = EXC_PF \<longrightarrow> odd (err (regs (cur s)) div ERR_U)"
  shows "(let s0 = (if vec (regs (cur s)) = EXC_MC then emit Mca_vector s else s);
              pt = capability_cast_pt
                     (Space_obj_lookup s (evt (cur s) + vec (regs (cur s)))) {};
              s' = fst (handle_exc Cur_frame s);
              out = snd (handle_exc Cur_frame s)
          in handle_exc Cur_frame s = send_msg Ret_user_iret s0 \<and>
             (\<forall>p. pt = Some p \<and> \<not> glb (ecs s (pt_ec (pts s p))) \<and>
                  cpu (ecs s (pt_ec (pts s p))) = cpu (cur s) \<and>
                  cont (ecs s (pt_ec (pts s p))) = None \<and> pt_ec (pts s p) \<noteq> current s \<longrightarrow>
                out = Return_to_user (pt_ec (pts s p)) \<and>
                cont (ecs s' (current s)) = Some Ret_user_iret \<and>
                partner (ecs s' (current s)) = Some (pt_ec (pts s p)) \<and>
                cont (ecs s' (pt_ec (pts s p))) = Some Recv_kern \<and>
                rcap (ecs s' (pt_ec (pts s p))) = Some (current s) \<and>
                arg_pt (regs (ecs s' (pt_ec (pts s p)))) = pt_id (pts s p) \<and>
                arg_ip (regs (ecs s' (pt_ec (pts s p)))) = pt_ip (pts s p)) \<and>
             (pt = None \<or>
              (\<exists>p. pt = Some p \<and> cpu (ecs s (pt_ec (pts s p))) \<noteq> cpu (cur s)) \<longrightarrow>
                cont (ecs s' (current s)) = Some Dead \<and>
                (glb (cur s) \<longrightarrow> out = Schedule True) \<and>
                (\<not> glb (cur s) \<and> rcap (cur s) = None \<longrightarrow> out = Activate (Sc_current_ec s)) \<and>
                (\<forall>c. rcap (cur s) = Some c \<and> c \<noteq> current s \<longrightarrow>
                   cont (ecs s' c) =
                     Some (if cont (ecs s c) = Some Ret_user_sysexit
                           then Sys_finish COM_ABT False else Dead) \<and>
                   (\<not> glb (cur s) \<longrightarrow>
                      partner (ecs s' c) = None \<and>
                      (partner (ecs s c) = Some (current s) \<longrightarrow>
                         rcap (ecs s' (current s)) = None) \<and>
                      out = (if Sc_current_ec s = c \<and> Sc_last_ref s then Schedule True
                             else if ctr_link s = 0 then Activate (Sc_current_ec s)
                             else Return_to_user c)) \<and>
                   (cont (ecs s c) = Some Ret_user_sysexit \<and> out = Return_to_user c \<longrightarrow>
                      return_to_user c s' =
                        ret_user_sysexit
                          (upd_regs c (\<lambda>r. r\<lparr>status := COM_ABT\<rparr>) (s'\<lparr>current := c\<rparr>)) \<and>
                      current (fst (return_to_user c s')) = c \<and>
                      status (regs (ecs (fst (return_to_user c s')) c)) = COM_ABT))))"
proof -
  define s0 where "s0 = (if vec (regs (cur s)) = EXC_MC then emit Mca_vector s else s)"
  define sel where "sel = evt (cur s) + vec (regs (cur s))"
  have eq: "handle_exc Cur_frame s = send_msg Ret_user_iret s0"
    unfolding s0_def using usr gp pf by (rule handle_exc_unresolved)
  have s0: "cur s0 = cur s" "ecs s0 = ecs s" "current s0 = current s" "pts s0 = pts s"
    "Sc_current_ec s0 = Sc_current_ec s" "Sc_last_ref s0 = Sc_last_ref s"
    "ctr_link s0 = ctr_link s"
    "\<And>x. Space_obj_lookup s0 x = Space_obj_lookup s x"
    by (simp_all add: s0_def emit_def cur_def Space_obj_lookup_def Pd_current_def)
  have sel0: "evt (cur s) + dst_portal (regs (cur s)) = sel"
    using vp by (simp add: sel_def)
  have deliver: "snd (handle_exc Cur_frame s) = Return_to_user (pt_ec (pts s p)) \<and>
        cont (ecs (fst (handle_exc Cur_frame s)) (current s)) = Some Ret_user_iret \<and>
        partner (ecs (fst (handle_exc Cur_frame s)) (current s)) = Some (pt_ec (pts s p)) \<and>
        cont (ecs (fst (handle_exc Cur_frame s)) (pt_ec (pts s p))) = Some Recv_kern \<and>
        rcap (ecs (fst (handle_exc Cur_frame s)) (pt_ec (pts s p))) = Some (current s) \<and>
        arg_pt (regs (ecs (fst (handle_exc Cur_frame s)) (pt_ec (pts s p)))) = pt_id (pts s p) \<and>
        arg_ip (regs (ecs (fst (handle_exc Cur_frame s)) (pt_ec (pts s p)))) = pt_ip (pts s p)"
    if "capability_cast_pt (Space_obj_lookup s sel) {} = Some p"
      "\<not> glb (ecs s (pt_ec (pts s p)))" "cpu (ecs s (pt_ec (pts s p))) = cpu (cur s)"
      "cont (ecs s (pt_ec (pts s p))) = None" "pt_ec (pts s p) \<noteq> current s" for p
  proof -
    have "(case send_msg Ret_user_iret s0 of (s', out) \<Rightarrow>
           out = Return_to_user (pt_ec (pts s0 p)) \<and>
           cont (ecs s' (current s0)) = Some Ret_user_iret \<and>
           partner (ecs s' (current s0)) = Some (pt_ec (pts s0 p)) \<and>
           mtd (regs (ecs s' (current s0))) = pt_mtd (pts s0 p) \<and>
           cont (ecs s' (pt_ec (pts s0 p))) = Some Recv_kern \<and>
           rcap (ecs s' (pt_ec (pts s0 p))) = Some (current s0) \<and>
           arg_pt (regs (ecs s' (pt_ec (pts s0 p)))) = pt_id (pts s0 p) \<and>
           arg_ip (regs (ecs s' (pt_ec (pts s0 p)))) = pt_ip (pts s0 p))"
      by (rule send_msg_delivers) (use that in \<open>simp_all add: sel0 s0\<close>)
    then show ?thesis unfolding eq by (simp add: s0 case_prod_beta)
  qed
  have dies: "handle_exc Cur_frame s = die s0"
    if "capability_cast_pt (Space_obj_lookup s sel) {} = None \<or>
        (\<exists>p. capability_cast_pt (Space_obj_lookup s sel) {} = Some p \<and>
             cpu (ecs s (pt_ec (pts s p))) \<noteq> cpu (cur s))"
    unfolding eq by (rule send_msg_dies) (use that in \<open>simp add: sel0 s0\<close>)
  note d = die_outcome[of s0, unfolded s0]
  have woken: "return_to_user c (fst (die s0)) =
        ret_user_sysexit
          (upd_regs c (\<lambda>r. r\<lparr>status := COM_ABT\<rparr>) ((fst (die s0))\<lparr>current := c\<rparr>)) \<and>
      current (fst (return_to_user c (fst (die s0)))) = c \<and>
      status (regs (ecs (fst (return_to_user c (fst (die s0)))) c)) = COM_ABT"
    if "rcap (cur s) = Some c" "c \<noteq> current s" "cont (ecs s c) = Some Ret_user_sysexit" for c
  proof -
    have "cont (ecs (fst (die s0)) c) = Some (Sys_finish COM_ABT False)"
      using d(4)[OF that(1,2)] that(3) by simp
    from woken_COM_ABT[OF this] show ?thesis by blast
  qed
  have kill: "cont (ecs (fst (die s0)) (current s)) = Some Dead \<and>
      (glb (cur s) \<longrightarrow> snd (die s0) = Schedule True) \<and>
      (\<not> glb (cur s) \<and> rcap (cur s) = None \<longrightarrow> snd (die s0) = Activate (Sc_current_ec s)) \<and>
      (\<forall>c. rcap (cur s) = Some c \<and> c \<noteq> current s \<longrightarrow>
         cont (ecs (fst (die s0)) c) =
           Some (if cont (ecs s c) = Some Ret_user_sysexit
                 then Sys_finish COM_ABT False else Dead) \<and>
         (\<not> glb (cur s) \<longrightarrow>
            partner (ecs (fst (die s0)) c) = None \<and>
            (partner (ecs s c) = Some (current s) \<longrightarrow>
               rcap (ecs (fst (die s0)) (current s)) = None) \<and>
            snd (die s0) = (if Sc_current_ec s = c \<and> Sc_last_ref s then Schedule True
                   else if ctr_link s = 0 then Activate (Sc_current_ec s)
                   else Return_to_user c)) \<and>
         (cont (ecs s c) = Some Ret_user_sysexit \<and> snd (die s0) = Return_to_user c \<longrightarrow>
            return_to_user c (fst (die s0)) =
              ret_user_sysexit
                (upd_regs c (\<lambda>r. r\<lparr>status := COM_ABT\<rparr>) ((fst (die s0))\<lparr>current := c\<rparr>)) \<and>
            current (fst (return_to_user c (fst (die s0)))) = c \<and>
            status (regs (ecs (fst (return_to_user c (fst (die s0)))) c)) = COM_ABT))"
    using d(1) d(2) d(3) d(4) d(5) woken by blast
  have B: "\<forall>p. capability_cast_pt (Space_obj_lookup s sel) {} = Some p \<and>
         \<not> glb (ecs s (pt_ec (pts s p))) \<and>
         cpu (ecs s (pt_ec (pts s p))) = cpu (cur s) \<and>
         cont (ecs s (pt_ec (pts s p))) = None \<and> pt_ec (pts s p) \<noteq> current s \<longrightarrow>
      snd (handle_exc Cur_frame s) = Return_to_user (pt_ec (pts s p)) \<and>
      cont (ecs (fst (handle_exc Cur_frame s)) (current s)) = Some Ret_user_iret \<and>
      partner (ecs (fst (handle_exc Cur_frame s)) (current s)) = Some (pt_ec (pts s p)) \<and>
      cont (ecs (fst (handle_exc Cur_frame s)) (pt_ec (pts s p))) = Some Recv_kern \<and>
      rcap (ecs (fst (handle_exc Cur_frame s)) (pt_ec (pts s p))) = Some (current s) \<and>
      arg_pt (regs (ecs (fst (handle_exc Cur_frame s)) (pt_ec (pts s p)))) = pt_id (pts s p) \<and>
      arg_ip (regs (ecs (fst (handle_exc Cur_frame s)) (pt_ec (pts s p)))) = pt_ip (pts s p)"
    using deliver by blast
  have C: "capability_cast_pt (Space_obj_lookup s sel) {} = None \<or>
        (\<exists>p. capability_cast_pt (Space_obj_lookup s sel) {} = Some p \<and>
             cpu (ecs s (pt_ec (pts s p))) \<noteq> cpu (cur s)) \<longrightarrow>
      cont (ecs (fst (handle_exc Cur_frame s)) (current s)) = Some Dead \<and>
      (glb (cur s) \<longrightarrow> snd (handle_exc Cur_frame s) = Schedule True) \<and>
      (\<not> glb (cur s) \<and> rcap (cur s) = None \<longrightarrow>
         snd (handle_exc Cur_frame s) = Activate (Sc_current_ec s)) \<and>
      (\<forall>c. rcap (cur s) = Some c \<and> c \<noteq> current s \<longrightarrow>
         cont (ecs (fst (handle_exc Cur_frame s)) c) =
           Some (if cont (ecs s c) = Some Ret_user_sysexit
                 then Sys_finish COM_ABT False else Dead) \<and>
         (\<not> glb (cur s) \<longrightarrow>
            partner (ecs (fst (handle_exc Cur_frame s)) c) = None \<and>
            (partner (ecs s c) = Some (current s) \<longrightarrow>
               rcap (ecs (fst (handle_exc Cur_frame s)) (current s)) = None) \<and>
            snd (handle_exc Cur_frame s) =
                  (if Sc_current_ec s = c \<and> Sc_last_ref s then Schedule True
                   else if ctr_link s = 0 then Activate (Sc_current_ec s)
                   else Return_to_user c)) \<and>
         (cont (ecs s c) = Some Ret_user_sysexit \<and>
          snd (handle_exc Cur_frame s) = Return_to_user c \<longrightarrow>
            return_to_user c (fst (handle_exc Cur_frame s)) =
              ret_user_sysexit
                (upd_regs c (\<lambda>r. r\<lparr>status := COM_ABT\<rparr>)
                   ((fst (handle_exc Cur_frame s))\<lparr>current := c\<rparr>)) \<and>
            current (fst (return_to_user c (fst (handle_exc Cur_frame s)))) = c \<and>
            status (regs (ecs (fst (return_to_user c (fst (handle_exc Cur_frame s)))) c))
              = COM_ABT))"
  proof
    assume k: "capability_cast_pt (Space_obj_lookup s sel) {} = None \<or>
        (\<exists>p. capability_cast_pt (Space_obj_lookup s sel) {} = Some p \<and>
             cpu (ecs s (pt_ec (pts s p))) \<noteq> cpu (cur s))"
    show "cont (ecs (fst (handle_exc Cur_frame s)) (current s)) = Some Dead \<and>
      (glb (cur s) \<longrightarrow> snd (handle_exc Cur_frame s) = Schedule True) \<and>
      (\<not> glb (cur s) \<and> rcap (cur s) = None \<longrightarrow>
         snd (handle_exc Cur_frame s) = Activate (Sc_current_ec s)) \<and>
      (\<forall>c. rcap (cur s) = Some c \<and> c \<noteq> current s \<longrightarrow>
         cont (ecs (fst (handle_exc Cur_frame s)) c) =
           Some (if cont (ecs s c) = Some Ret_user_sysexit
                 then Sys_finish COM_ABT False else Dead) \<and>
         (\<not> glb (cur s) \<longrightarrow>
            partner (ecs (fst (handle_exc Cur_frame s)) c) = None \<and>
            (partner (ecs s c) = Some (current s) \<longrightarrow>
               rcap (ecs (fst (handle_exc Cur_frame s)) (current s)) = None) \<and>
            snd (handle_exc Cur_frame s) =
                  (if Sc_current_ec s = c \<and> Sc_last_ref s then Schedule True
                   else if ctr_link s = 0 then Activate (Sc_current_ec s)
                   else Return_to_user c)) \<and>
         (cont (ecs s c) = Some Ret_user_sysexit \<and>
          snd (handle_exc Cur_frame s) = Return_to_user c \<longrightarrow>
            return_to_user c (fst (handle_exc Cur_frame s)) =
              ret_user_sysexit
                (upd_regs c (\<lambda>r. r\<lparr>status := COM_ABT\<rparr>)
                   ((fst (handle_exc Cur_frame s))\<lparr>current := c\<rparr>)) \<and>
            current (fst (return_to_user c (fst (handle_exc Cur_frame s)))) = c \<and>
            status (regs (ecs (fst (return_to_user c (fst (handle_exc Cur_frame s)))) c))
              = COM_ABT))"
      unfolding dies[OF k] by (rule kill)
  qed
  show ?thesis
    unfolding Let_def s0_def[symmetric] sel_def[symmetric]
    by (intro conjI) (rule eq, rule B, rule C)
qed

theorem handle_exc_delivers_or_kills_witness:
  "user (regs (cur demo_fault)) \<and>
   vec (regs (cur demo_fault)) = 14 \<and> dst_portal (regs (cur demo_fault)) = 14 \<and>
   odd (err (regs (cur demo_fault)) div ERR_U) \<and>
   capability_cast_pt (Space_obj_lookup demo_fault (evt (cur demo_fault) + 14)) {} = None \<and>
   \<not> glb (cur demo_fault) \<and>
   rcap (cur demo_fault) = Some 1 \<and> cont (ecs demo_fault 1) = Some Ret_user_sysexit \<and>
   partner (ecs demo_fault 1) = Some 2 \<and>
   \<not> Sc_last_ref demo_fault \<and> ctr_link demo_fault = 1 \<and>
   handle_exc Cur_frame demo_fault = send_msg Ret_user_iret demo_fault \<and>
   cont (ecs (fst (handle_exc Cur_frame demo_fault)) 2) = Some Dead \<and>
   rcap (ecs (fst (handle_exc Cur_frame demo_fault)) 2) = None \<and>
   partner (ecs (fst (handle_exc Cur_frame demo_fault)) 1) = None \<and>
   cont (ecs (fst (handle_exc Cur_frame demo_fault)) 1) = Some (Sys_finish COM_ABT False) \<and>
   snd (handle_exc Cur_frame demo_fault) = Return_to_user 1 \<and>
   current (fst (return_to_user 1 (fst (handle_exc Cur_frame demo_fault)))) = 1 \<and>
   status (regs (ecs (fst (return_to_user 1 (fst (handle_exc Cur_frame demo_fault)))) 1))
     = COM_ABT \<and>
   snd (return_to_user 1 (fst (handle_exc Cur_frame demo_fault))) = Sysret"
proof -
  have h: "user (regs (cur demo_fault))"
    "vec (regs (cur demo_fault)) = dst_portal (regs (cur demo_fault))"
    "vec (regs (cur demo_fault)) = EXC_GP \<longrightarrow>
       \<not> exc_on_iret_to_user (regs (cur demo_fault)) demo_fault \<and>
       \<not> snd (fixup (fixup_table demo_fault) (regs (cur demo_fault))) \<and>
       HZD_TR \<notin> Cpu_hazard demo_fault"
    "vec (regs (cur demo_fault)) = EXC_PF \<longrightarrow> odd (err (regs (cur demo_fault)) div ERR_U)"
    by (simp_all add: demo_eval user_def EXC_GP_def EXC_PF_def ERR_U_def)
  have f: "vec (regs (cur demo_fault)) = 14" "dst_portal (regs (cur demo_fault)) = 14"
    "odd (err (regs (cur demo_fault)) div ERR_U)"
    "capability_cast_pt (Space_obj_lookup demo_fault (evt (cur demo_fault) + 14)) {} = None"
    "rcap (cur demo_fault) = Some 1" "cont (ecs demo_fault 1) = Some Ret_user_sysexit"
    "current demo_fault = 2" "vec (regs (cur demo_fault)) \<noteq> EXC_MC"
    "\<not> glb (cur demo_fault)" "partner (ecs demo_fault 1) = Some 2"
    "\<not> Sc_last_ref demo_fault" "ctr_link demo_fault = 1"
    by (simp_all add: demo_eval ERR_U_def EXC_MC_def)
  have g: "capability_cast_pt (Space_obj_lookup demo_fault
              (evt (cur demo_fault) + vec (regs (cur demo_fault)))) {} = None"
    "(1::nat) \<noteq> current demo_fault"
    "(if vec (regs (cur demo_fault)) = EXC_MC then emit Mca_vector demo_fault else demo_fault)
       = demo_fault"
    using f by simp_all
  note t = handle_exc_delivers_or_kills[OF h, unfolded Let_def g(3)]
  note a = t[THEN conjunct1]
  note k = t[THEN conjunct2, THEN conjunct2, THEN mp, OF disjI1, OF g(1)]
  have b: "cont (ecs (fst (handle_exc Cur_frame demo_fault)) 2) = Some Dead"
    using k[THEN conjunct1] f(7) by simp
  have fc: "rcap (cur demo_fault) = Some 1 \<and> 1 \<noteq> current demo_fault" using f(5) g(2) by simp
  note c = k[THEN conjunct2, THEN conjunct2, THEN conjunct2, THEN spec, of 1, THEN mp, OF fc]
  have c1: "cont (ecs (fst (handle_exc Cur_frame demo_fault)) 1) = Some (Sys_finish COM_ABT False)"
    using c[THEN conjunct1] f(6) by simp
  have c2: "partner (ecs (fst (handle_exc Cur_frame demo_fault)) 1) = None"
    "rcap (ecs (fst (handle_exc Cur_frame demo_fault)) 2) = None"
    "snd (handle_exc Cur_frame demo_fault) = Return_to_user 1"
    using c[THEN conjunct2, THEN conjunct1, THEN mp, OF f(9)] f(7,10,11,12) by simp_all
  have fw: "cont (ecs demo_fault 1) = Some Ret_user_sysexit \<and>
            snd (handle_exc Cur_frame demo_fault) = Return_to_user 1"
    using f(6) c2(3) by simp
  note w = c[THEN conjunct2, THEN conjunct2, THEN mp, OF fw]
  have ev: "snd (return_to_user 1 (fst (handle_exc Cur_frame demo_fault))) = Sysret"
    by (simp add: path_eval demo_eval exc_on_iret_to_user_def)
  show ?thesis
    using h(1) f a b c1 c2 w[THEN conjunct2] ev by simp
qed

subsection \<open>Claim C5\<close>

text \<open>
  C5: a \<^verbatim>\<open>sys_call\<close> with \<^verbatim>\<open>DISABLE_BLOCKING\<close> through a portal whose server EC
  is a local EC on the caller's CPU and is busy (its continuation is set) does nothing
  but put the status \<open>COM_TIM\<close> in the caller's register frame and enter the sysexit
  return path: no help is attempted. When no hazard is pending, the path ends there with
  \<^verbatim>\<open>sysretq\<close> and the state is otherwise unchanged.
\<close>

theorem sys_call_disable_blocking:
  assumes cap: "capability_cast_pt (Space_obj_lookup s sel) {} = Some p"
    and loc: "\<not> glb (ecs s (pt_ec (pts s p)))"
    and same: "cpu (ecs s (pt_ec (pts s p))) = cpu (cur s)"
    and busy: "cont (ecs s (pt_ec (pts s p))) \<noteq> None"
    and flag: "DISABLE_BLOCKING \<in> flags"
  shows "sys_call sel flags s =
           ret_user_sysexit (upd_regs (current s) (\<lambda>r. r\<lparr>status := COM_TIM\<rparr>) s) \<and>
         (sysexit_hazards s = {} \<longrightarrow>
           sys_call sel flags s =
             (upd_regs (current s) (\<lambda>r. r\<lparr>status := COM_TIM\<rparr>) s, Sysret))"
proof -
  have x: "unat (cpu (cur s)) = xcpu (ecs s (pt_ec (pts s p)))"
    using loc same by (simp add: xcpu_eq)
  have 1: "sys_call sel flags s =
           ret_user_sysexit (upd_regs (current s) (\<lambda>r. r\<lparr>status := COM_TIM\<rparr>) s)"
    using cap busy flag x by (auto simp add: sys_call_def Let_def sys_finish_def)
  have h: "sysexit_hazards (upd_regs (current s) (\<lambda>r. r\<lparr>status := COM_TIM\<rparr>) s) = sysexit_hazards s"
    by (simp add: sysexit_hazards_def cur_def upd_regs_def upd_ec_def)
  show ?thesis using 1 h by (simp add: ret_user_sysexit_def)
qed

theorem sys_call_disable_blocking_witness:
  "capability_cast_pt (Space_obj_lookup demo 11) {} = Some 1 \<and>
   pt_ec (pts demo 1) = 4 \<and>
   \<not> glb (ecs demo 4) \<and> cpu (ecs demo 4) = cpu (cur demo) \<and>
   cont (ecs demo 4) = Some Recv_user \<and> sysexit_hazards demo = {} \<and>
   sys_call 11 {DISABLE_BLOCKING} demo
     = (upd_regs 1 (\<lambda>r. r\<lparr>status := COM_TIM\<rparr>) demo, Sysret) \<and>
   status (regs (ecs (fst (sys_call 11 {DISABLE_BLOCKING} demo)) 1)) = COM_TIM"
proof -
  have cap: "capability_cast_pt (Space_obj_lookup demo 11) {} = Some 1"
    by (simp add: demo_eval)
  have srv: "pt_ec (pts demo 1) = 4" "current demo = 1" "sysexit_hazards demo = {}"
    by (simp_all add: demo_eval sysexit_hazards_def)
  have h: "\<not> glb (ecs demo (pt_ec (pts demo 1)))"
    "cpu (ecs demo (pt_ec (pts demo 1))) = cpu (cur demo)"
    "cont (ecs demo (pt_ec (pts demo 1))) \<noteq> None"
    "DISABLE_BLOCKING \<in> {DISABLE_BLOCKING}"
    by (simp_all add: demo_eval)
  have c: "cont (ecs demo 4) = Some Recv_user" by (simp add: demo_eval)
  have e: "sys_call 11 {DISABLE_BLOCKING} demo
             = (upd_regs (current demo) (\<lambda>r. r\<lparr>status := COM_TIM\<rparr>) demo, Sysret)"
    using sys_call_disable_blocking[OF cap h] srv(3) by blast
  show ?thesis using cap h srv c by (simp add: e)
qed

subsection \<open>Claim C6\<close>

text \<open>
  C6, as the spec states it: an offline CPU gives \<open>BAD_CPU\<close>, a bad user page address
  gives \<open>BAD_PAR\<close>, a selector that names no PD capability with the right to create
  objects gives \<open>BAD_CAP\<close>. The code checks in a fixed order, and checks one more thing
  in between. Counterexample: with the CPU online and the user page valid, a selector
  that names no PD, and a vCPU requested on a machine without VMX, the status is
  \<open>BAD_FTR\<close>, not \<open>BAD_CAP\<close>; and with the CPU offline and the user page unaligned
  the status is \<open>BAD_CPU\<close>, not \<open>BAD_PAR\<close>.
\<close>

theorem sys_create_ec_counterexample:
  "Hip_cpu_online demo (ce_cpu (demo_ec_args\<lparr>ce_pd := 99, ce_is_vcpu := True\<rparr>)) \<and>
   ce_user_page (demo_ec_args\<lparr>ce_pd := 99, ce_is_vcpu := True\<rparr>) < USER_ADDR (kc demo) \<and>
   ce_user_page (demo_ec_args\<lparr>ce_pd := 99, ce_is_vcpu := True\<rparr>) mod 2 ^ PAGE_BITS = 0 \<and>
   capability_cast_pd (Space_obj_lookup demo 99) {PERM_OBJ_CREATION} = None \<and>
   status (regs (ecs (fst (sys_create_ec (demo_ec_args\<lparr>ce_pd := 99, ce_is_vcpu := True\<rparr>) demo)) 1))
     = BAD_FTR \<and>
   status (regs (ecs (fst (sys_create_ec (demo_ec_args\<lparr>ce_pd := 99, ce_is_vcpu := True\<rparr>) demo)) 1))
     \<noteq> BAD_CAP \<and>
   \<not> Hip_cpu_online demo 7 \<and>
   ce_user_page (demo_ec_args\<lparr>ce_cpu := 7, ce_user_page := 1\<rparr>) mod 2 ^ PAGE_BITS \<noteq> 0 \<and>
   status (regs (ecs (fst (sys_create_ec (demo_ec_args\<lparr>ce_cpu := 7, ce_user_page := 1\<rparr>) demo)) 1))
     = BAD_CPU \<and>
   status (regs (ecs (fst (sys_create_ec (demo_ec_args\<lparr>ce_cpu := 7, ce_user_page := 1\<rparr>) demo)) 1))
     \<noteq> BAD_PAR"
  by (simp add: sys_create_ec_def sys_finish_demo demo_ec_args_def PAGE_BITS_def)
     (simp add: demo_eval)

text \<open>
  C6, amended: \<^verbatim>\<open>sys_create_ec\<close> makes its checks in this order, and the first that
  fails decides the status: the CPU is not online (\<open>BAD_CPU\<close>); a vCPU is requested
  and the machine has no VMX (\<open>BAD_FTR\<close>); the pd selector names no PD capability with
  the right to create objects (\<open>BAD_CAP\<close>); the user page address is not below
  \<^verbatim>\<open>USER_ADDR\<close> or not page aligned (\<open>BAD_PAR\<close>). In each of these cases the call
  is nothing but \<^verbatim>\<open>sys_finish\<close> with that status: the status is written into the
  caller's register frame and the sysexit return path is entered; no EC is allocated
  and no capability is installed.
\<close>

theorem sys_create_ec_checks:
  "(\<not> Hip_cpu_online s (ce_cpu r) \<longrightarrow> sys_create_ec r s = sys_finish BAD_CPU False s) \<and>
   (Hip_cpu_online s (ce_cpu r) \<and> ce_is_vcpu r \<and> FEAT_VMX \<notin> Hip_feature s \<longrightarrow>
      sys_create_ec r s = sys_finish BAD_FTR False s) \<and>
   (Hip_cpu_online s (ce_cpu r) \<and> \<not> (ce_is_vcpu r \<and> FEAT_VMX \<notin> Hip_feature s) \<and>
    capability_cast_pd (Space_obj_lookup s (ce_pd r)) {PERM_OBJ_CREATION} = None \<longrightarrow>
      sys_create_ec r s = sys_finish BAD_CAP False s) \<and>
   (Hip_cpu_online s (ce_cpu r) \<and> \<not> (ce_is_vcpu r \<and> FEAT_VMX \<notin> Hip_feature s) \<and>
    capability_cast_pd (Space_obj_lookup s (ce_pd r)) {PERM_OBJ_CREATION} \<noteq> None \<and>
    (USER_ADDR (kc s) \<le> ce_user_page r \<or> ce_user_page r mod 2 ^ PAGE_BITS \<noteq> 0) \<longrightarrow>
      sys_create_ec r s = sys_finish BAD_PAR False s) \<and>
   (\<forall>st. sys_finish st False s =
           ret_user_sysexit (upd_regs (current s) (\<lambda>x. x\<lparr>status := st\<rparr>) s) \<and>
         n_ecs (fst (sys_finish st False s)) = n_ecs s \<and>
         pds (fst (sys_finish st False s)) = pds s)"
  by (auto simp: sys_create_ec_def sys_finish_def)

theorem sys_create_ec_checks_witness:
  "\<not> Hip_cpu_online demo 7 \<and>
   sys_create_ec (demo_ec_args\<lparr>ce_cpu := 7\<rparr>) demo = sys_finish BAD_CPU False demo \<and>
   Hip_cpu_online demo 0 \<and> FEAT_VMX \<notin> Hip_feature demo \<and>
   sys_create_ec (demo_ec_args\<lparr>ce_is_vcpu := True\<rparr>) demo = sys_finish BAD_FTR False demo \<and>
   capability_cast_pd (Space_obj_lookup demo 99) {PERM_OBJ_CREATION} = None \<and>
   sys_create_ec (demo_ec_args\<lparr>ce_pd := 99\<rparr>) demo = sys_finish BAD_CAP False demo \<and>
   capability_cast_pd (Space_obj_lookup demo 13) {PERM_OBJ_CREATION} = Some 0 \<and>
   sys_create_ec (demo_ec_args\<lparr>ce_user_page := 4097\<rparr>) demo = sys_finish BAD_PAR False demo \<and>
   sys_create_ec (demo_ec_args\<lparr>ce_user_page := 2 ^ 47\<rparr>) demo = sys_finish BAD_PAR False demo \<and>
   sys_finish BAD_PAR False demo = (upd_regs 1 (\<lambda>r. r\<lparr>status := BAD_PAR\<rparr>) demo, Sysret) \<and>
   n_ecs (fst (sys_finish BAD_PAR False demo)) = 6"
proof -
  have on: "\<not> Hip_cpu_online demo 7" "Hip_cpu_online demo 0" "FEAT_VMX \<notin> Hip_feature demo"
    by (simp_all add: demo_eval)
  have caps: "capability_cast_pd (Space_obj_lookup demo 99) {PERM_OBJ_CREATION} = None"
    "capability_cast_pd (Space_obj_lookup demo 13) {PERM_OBJ_CREATION} = Some 0"
    by (simp_all add: demo_eval)
  have pg: "(4097::nat) mod 2 ^ PAGE_BITS \<noteq> 0" "USER_ADDR (kc demo) \<le> 2 ^ 47"
    by (simp_all add: PAGE_BITS_def demo_eval)
  have n: "n_ecs demo = 6" by (simp add: demo_eval)
  have a: "sys_create_ec (demo_ec_args\<lparr>ce_cpu := 7\<rparr>) demo = sys_finish BAD_CPU False demo"
    using sys_create_ec_checks[of demo "demo_ec_args\<lparr>ce_cpu := 7\<rparr>"] on
    by (simp add: demo_ec_args_def)
  have b: "sys_create_ec (demo_ec_args\<lparr>ce_is_vcpu := True\<rparr>) demo = sys_finish BAD_FTR False demo"
    using sys_create_ec_checks[of demo "demo_ec_args\<lparr>ce_is_vcpu := True\<rparr>"] on
    by (simp add: demo_ec_args_def)
  have c: "sys_create_ec (demo_ec_args\<lparr>ce_pd := 99\<rparr>) demo = sys_finish BAD_CAP False demo"
    using sys_create_ec_checks[of demo "demo_ec_args\<lparr>ce_pd := 99\<rparr>"] on caps
    by (simp add: demo_ec_args_def)
  have d: "sys_create_ec (demo_ec_args\<lparr>ce_user_page := 4097\<rparr>) demo = sys_finish BAD_PAR False demo"
    using sys_create_ec_checks[of demo "demo_ec_args\<lparr>ce_user_page := 4097\<rparr>"] on caps pg
    by (simp add: demo_ec_args_def)
  have e: "sys_create_ec (demo_ec_args\<lparr>ce_user_page := 2 ^ 47\<rparr>) demo = sys_finish BAD_PAR False demo"
    using sys_create_ec_checks[of demo "demo_ec_args\<lparr>ce_user_page := 2 ^ 47\<rparr>"] on caps pg
    by (simp add: demo_ec_args_def)
  have f: "n_ecs (fst (sys_finish BAD_PAR False demo)) = 6"
    using sys_create_ec_checks[of demo demo_ec_args] n by simp
  show ?thesis using on caps a b c d e f by (simp add: sys_finish_demo)
qed

subsection \<open>Claim C7\<close>

text \<open>
  C7: both return paths, \<^verbatim>\<open>ret_user_sysexit\<close> and \<^verbatim>\<open>ret_user_iret\<close>, service
  the hazards that are pending on the CPU or on the current EC in a fixed precedence. A
  pending RCU hazard is serviced first, whatever else is pending: the quiescent state is
  declared. With SCHED pending the continuation of the current EC is set to the return
  function and the path ends in the scheduler; neither recall nor single-step is
  delivered, and both stay pending. Without SCHED and with RECALL pending, the recall
  hazard is cleared and the exception \<open>EXC_RECALL\<close> is delivered by
  \<^verbatim>\<open>send_msg<ret_user_iret>\<close> (through the portal at the event base plus
  \<open>EXC_RECALL\<close>, to its server EC), and a pending STEP stays pending. With neither, a
  pending STEP is cleared and \<open>EXC_DB\<close> is delivered in the same way. With none of the
  three the return path goes on to \<^verbatim>\<open>sysretq\<close> or \<^verbatim>\<open>iretq\<close>. The set of
  hazards that \<^verbatim>\<open>ret_user_sysexit\<close> samples and hands to \<^verbatim>\<open>handle_hazard\<close>
  holds \<open>HZD_DS_ES\<close> whenever it is pending; the set that \<^verbatim>\<open>ret_user_iret\<close>
  samples never holds it. (\<^verbatim>\<open>handle_hazard\<close> has no branch for \<open>HZD_DS_ES\<close>, so
  the sampling shows in the sampled set only.)
\<close>

theorem ret_user_hazard_precedence:
  "(let H = Cpu_hazard s \<union> hazard (regs (cur s));
        rq = (if HZD_RCU \<in> H then emit Rcu_quiet s else s);
        e = current s;
        delivered = (\<lambda>hz v p. \<forall>res\<in>{ret_user_sysexit s, ret_user_iret s}.
           snd res = Return_to_user (pt_ec (pts s p)) \<and>
           cont (ecs (fst res) e) = Some Ret_user_iret \<and>
           hazard (regs (ecs (fst res) e)) = hazard (regs (cur s)) - {hz} \<and>
           dst_portal (regs (ecs (fst res) e)) = v \<and>
           cont (ecs (fst res) (pt_ec (pts s p))) = Some Recv_kern \<and>
           rcap (ecs (fst res) (pt_ec (pts s p))) = Some e \<and>
           arg_pt (regs (ecs (fst res) (pt_ec (pts s p)))) = pt_id (pts s p) \<and>
           arg_ip (regs (ecs (fst res) (pt_ec (pts s p)))) = pt_ip (pts s p));
        portal = (\<lambda>v p. capability_cast_pt (Space_obj_lookup s (evt (cur s) + v)) {} = Some p \<and>
           \<not> glb (ecs s (pt_ec (pts s p))) \<and> cpu (ecs s (pt_ec (pts s p))) = cpu (cur s) \<and>
           cont (ecs s (pt_ec (pts s p))) = None \<and> pt_ec (pts s p) \<noteq> e)
    in
      (HZD_SCHED \<in> H \<longrightarrow>
         ret_user_sysexit s =
           (upd_ec e (\<lambda>x. x\<lparr>cont := Some Ret_user_sysexit\<rparr>) rq, Schedule False) \<and>
         ret_user_iret s =
           (upd_ec e (\<lambda>x. x\<lparr>cont := Some Ret_user_iret\<rparr>) rq, Schedule False)) \<and>
      (HZD_SCHED \<notin> H \<and> HZD_RECALL \<in> H \<longrightarrow>
         ret_user_sysexit s =
           send_msg Ret_user_iret
             (upd_regs e (\<lambda>r. r\<lparr>dst_portal := EXC_RECALL (kc s)\<rparr>)
               (upd_regs e redirect_to_iret
                 (upd_regs e (\<lambda>r. r\<lparr>hazard := hazard r - {HZD_RECALL}\<rparr>) rq))) \<and>
         ret_user_iret s =
           send_msg Ret_user_iret
             (upd_regs e (\<lambda>r. r\<lparr>dst_portal := EXC_RECALL (kc s)\<rparr>)
               (upd_regs e (\<lambda>r. r\<lparr>hazard := hazard r - {HZD_RECALL}\<rparr>) rq)) \<and>
         (\<forall>p. portal (EXC_RECALL (kc s)) p \<longrightarrow> delivered HZD_RECALL (EXC_RECALL (kc s)) p)) \<and>
      (HZD_SCHED \<notin> H \<and> HZD_RECALL \<notin> H \<and> HZD_STEP \<in> H \<longrightarrow>
         ret_user_sysexit s =
           send_msg Ret_user_iret
             (upd_regs e (\<lambda>r. r\<lparr>dst_portal := EXC_DB\<rparr>)
               (upd_regs e redirect_to_iret
                 (upd_regs e (\<lambda>r. r\<lparr>hazard := hazard r - {HZD_STEP}\<rparr>) rq))) \<and>
         ret_user_iret s =
           send_msg Ret_user_iret
             (upd_regs e (\<lambda>r. r\<lparr>dst_portal := EXC_DB\<rparr>)
               (upd_regs e (\<lambda>r. r\<lparr>hazard := hazard r - {HZD_STEP}\<rparr>) rq)) \<and>
         (\<forall>p. portal EXC_DB p \<longrightarrow> delivered HZD_STEP EXC_DB p)) \<and>
      (HZD_SCHED \<notin> H \<and> HZD_RECALL \<notin> H \<and> HZD_STEP \<notin> H \<longrightarrow>
         ret_user_sysexit s = (rq, Sysret) \<and> ret_user_iret s = (rq, Iret)) \<and>
      ret_user_sysexit s =
        (if sysexit_hazards s = {} then (s, Sysret)
         else case handle_hazard (sysexit_hazards s) Ret_user_sysexit s of
                (s', Some out) \<Rightarrow> (s', out) | (s', None) \<Rightarrow> (s', Sysret)) \<and>
      ret_user_iret s =
        (if iret_hazards s = {} then (s, Iret)
         else case handle_hazard (iret_hazards s) Ret_user_iret s of
                (s', Some out) \<Rightarrow> (s', out) | (s', None) \<Rightarrow> (s', Iret)) \<and>
      sysexit_hazards s = H \<inter> {HZD_RECALL, HZD_STEP, HZD_RCU, HZD_DS_ES, HZD_SCHED} \<and>
      iret_hazards s = H \<inter> {HZD_RECALL, HZD_STEP, HZD_RCU, HZD_SCHED} \<and>
      (HZD_DS_ES \<in> sysexit_hazards s \<longleftrightarrow> HZD_DS_ES \<in> H) \<and>
      HZD_DS_ES \<notin> iret_hazards s)"
proof -
  define H where "H = Cpu_hazard s \<union> hazard (regs (cur s))"
  have sched: "ret_user_sysexit s =
           (upd_ec (current s) (\<lambda>x. x\<lparr>cont := Some Ret_user_sysexit\<rparr>)
              (if HZD_RCU \<in> H then emit Rcu_quiet s else s), Schedule False) \<and>
         ret_user_iret s =
           (upd_ec (current s) (\<lambda>x. x\<lparr>cont := Some Ret_user_iret\<rparr>)
              (if HZD_RCU \<in> H then emit Rcu_quiet s else s), Schedule False)"
    if "HZD_SCHED \<in> H"
    using ret_user_sched_eq[of s] that unfolding H_def by blast
  have none: "ret_user_sysexit s = (if HZD_RCU \<in> H then emit Rcu_quiet s else s, Sysret) \<and>
              ret_user_iret s = (if HZD_RCU \<in> H then emit Rcu_quiet s else s, Iret)"
    if "HZD_SCHED \<notin> H" "HZD_RECALL \<notin> H" "HZD_STEP \<notin> H"
    using ret_user_none_eq[of s] that unfolding H_def by blast
  note rc = ret_user_recall_eq[of s, folded H_def]
  note st = ret_user_step_eq[of s, folded H_def]
  have rcd: "\<forall>res\<in>{ret_user_sysexit s, ret_user_iret s}.
           snd res = Return_to_user (pt_ec (pts s p)) \<and>
           cont (ecs (fst res) (current s)) = Some Ret_user_iret \<and>
           hazard (regs (ecs (fst res) (current s))) = hazard (regs (cur s)) - {HZD_RECALL} \<and>
           dst_portal (regs (ecs (fst res) (current s))) = EXC_RECALL (kc s) \<and>
           cont (ecs (fst res) (pt_ec (pts s p))) = Some Recv_kern \<and>
           rcap (ecs (fst res) (pt_ec (pts s p))) = Some (current s) \<and>
           arg_pt (regs (ecs (fst res) (pt_ec (pts s p)))) = pt_id (pts s p) \<and>
           arg_ip (regs (ecs (fst res) (pt_ec (pts s p)))) = pt_ip (pts s p)"
    if "HZD_SCHED \<notin> H" "HZD_RECALL \<in> H"
      "capability_cast_pt (Space_obj_lookup s (evt (cur s) + EXC_RECALL (kc s))) {} = Some p"
      "\<not> glb (ecs s (pt_ec (pts s p)))" "cpu (ecs s (pt_ec (pts s p))) = cpu (cur s)"
      "cont (ecs s (pt_ec (pts s p))) = None" "pt_ec (pts s p) \<noteq> current s" for p
    by (rule hazard_delivers[OF rc(1)[OF that(1,2)] rc(2)[OF that(1,2)] that(3-7)])
  have std: "\<forall>res\<in>{ret_user_sysexit s, ret_user_iret s}.
           snd res = Return_to_user (pt_ec (pts s p)) \<and>
           cont (ecs (fst res) (current s)) = Some Ret_user_iret \<and>
           hazard (regs (ecs (fst res) (current s))) = hazard (regs (cur s)) - {HZD_STEP} \<and>
           dst_portal (regs (ecs (fst res) (current s))) = EXC_DB \<and>
           cont (ecs (fst res) (pt_ec (pts s p))) = Some Recv_kern \<and>
           rcap (ecs (fst res) (pt_ec (pts s p))) = Some (current s) \<and>
           arg_pt (regs (ecs (fst res) (pt_ec (pts s p)))) = pt_id (pts s p) \<and>
           arg_ip (regs (ecs (fst res) (pt_ec (pts s p)))) = pt_ip (pts s p)"
    if "HZD_SCHED \<notin> H" "HZD_RECALL \<notin> H" "HZD_STEP \<in> H"
      "capability_cast_pt (Space_obj_lookup s (evt (cur s) + EXC_DB)) {} = Some p"
      "\<not> glb (ecs s (pt_ec (pts s p)))" "cpu (ecs s (pt_ec (pts s p))) = cpu (cur s)"
      "cont (ecs s (pt_ec (pts s p))) = None" "pt_ec (pts s p) \<noteq> current s" for p
    by (rule hazard_delivers[OF st(1)[OF that(1,2,3)] st(2)[OF that(1,2,3)] that(4-8)])
  have masks: "sysexit_hazards s = H \<inter> {HZD_RECALL, HZD_STEP, HZD_RCU, HZD_DS_ES, HZD_SCHED}"
    "iret_hazards s = H \<inter> {HZD_RECALL, HZD_STEP, HZD_RCU, HZD_SCHED}"
    by (simp_all add: sysexit_hazards_def iret_hazards_def H_def)
  have ds: "HZD_DS_ES \<in> sysexit_hazards s \<longleftrightarrow> HZD_DS_ES \<in> H" "HZD_DS_ES \<notin> iret_hazards s"
    unfolding masks by simp_all
  show ?thesis
    unfolding Let_def H_def[symmetric]
    apply (intro conjI impI allI)
    using sched none rc st rcd std masks ds ret_user_sampling[of s]
    by (blast | (elim conjE, blast))+
qed

theorem ret_user_hazard_precedence_witness:
  "HZD_SCHED \<in> Cpu_hazard (demo_hazard {HZD_RCU, HZD_SCHED} {HZD_RECALL, HZD_STEP})
      \<union> hazard (regs (cur (demo_hazard {HZD_RCU, HZD_SCHED} {HZD_RECALL, HZD_STEP}))) \<and>
   snd (ret_user_sysexit (demo_hazard {HZD_RCU, HZD_SCHED} {HZD_RECALL, HZD_STEP}))
     = Schedule False \<and>
   effects (fst (ret_user_sysexit (demo_hazard {HZD_RCU, HZD_SCHED} {HZD_RECALL, HZD_STEP})))
     = [Rcu_quiet] \<and>
   cont (ecs (fst (ret_user_iret (demo_hazard {HZD_RCU, HZD_SCHED} {HZD_RECALL, HZD_STEP}))) 1)
     = Some Ret_user_iret \<and>
   hazard (regs (ecs (fst (ret_user_iret
      (demo_hazard {HZD_RCU, HZD_SCHED} {HZD_RECALL, HZD_STEP}))) 1)) = {HZD_RECALL, HZD_STEP} \<and>
   capability_cast_pt (Space_obj_lookup (demo_hazard {HZD_RCU} {HZD_RECALL, HZD_STEP})
      (evt (cur (demo_hazard {HZD_RCU} {HZD_RECALL, HZD_STEP})) + 31)) {} = Some 0 \<and>
   snd (ret_user_sysexit (demo_hazard {HZD_RCU} {HZD_RECALL, HZD_STEP})) = Return_to_user 2 \<and>
   effects (fst (ret_user_sysexit (demo_hazard {HZD_RCU} {HZD_RECALL, HZD_STEP}))) = [Rcu_quiet] \<and>
   dst_portal (regs (ecs (fst (ret_user_sysexit
      (demo_hazard {HZD_RCU} {HZD_RECALL, HZD_STEP}))) 1)) = 31 \<and>
   hazard (regs (ecs (fst (ret_user_sysexit
      (demo_hazard {HZD_RCU} {HZD_RECALL, HZD_STEP}))) 1)) = {HZD_STEP} \<and>
   cont (ecs (fst (ret_user_sysexit (demo_hazard {HZD_RCU} {HZD_RECALL, HZD_STEP}))) 2)
     = Some Recv_kern \<and>
   arg_pt (regs (ecs (fst (ret_user_sysexit (demo_hazard {HZD_RCU} {HZD_RECALL, HZD_STEP}))) 2))
     = 7 \<and>
   snd (ret_user_iret (demo_hazard {} {HZD_STEP})) = Return_to_user 2 \<and>
   dst_portal (regs (ecs (fst (ret_user_iret (demo_hazard {} {HZD_STEP}))) 1)) = 1 \<and>
   hazard (regs (ecs (fst (ret_user_iret (demo_hazard {} {HZD_STEP}))) 1)) = {} \<and>
   ret_user_sysexit (demo_hazard {HZD_DS_ES} {}) = (demo_hazard {HZD_DS_ES} {}, Sysret) \<and>
   ret_user_iret (demo_hazard {HZD_DS_ES} {}) = (demo_hazard {HZD_DS_ES} {}, Iret) \<and>
   HZD_DS_ES \<in> sysexit_hazards (demo_hazard {HZD_DS_ES} {}) \<and>
   iret_hazards (demo_hazard {HZD_DS_ES} {}) = {}"
proof -
  let ?A = "demo_hazard {HZD_RCU, HZD_SCHED} {HZD_RECALL, HZD_STEP}"
  let ?B = "demo_hazard {HZD_RCU} {HZD_RECALL, HZD_STEP}"
  let ?C = "demo_hazard {} {HZD_STEP}"
  let ?D = "demo_hazard {HZD_DS_ES} {}"
  note E = demo_hazard_eval
  have ha: "HZD_SCHED \<in> Cpu_hazard ?A \<union> hazard (regs (cur ?A))" by (simp add: E)
  note a = ret_user_hazard_precedence[of ?A, unfolded Let_def, THEN conjunct1, THEN mp, OF ha]
  have a1: "snd (ret_user_sysexit ?A) = Schedule False"
    "effects (fst (ret_user_sysexit ?A)) = [Rcu_quiet]"
    by (simp_all add: a[THEN conjunct1] E)
  have a2: "cont (ecs (fst (ret_user_iret ?A)) 1) = Some Ret_user_iret"
    "hazard (regs (ecs (fst (ret_user_iret ?A)) 1)) = {HZD_RECALL, HZD_STEP}"
    using E(4)[of "{HZD_RCU, HZD_SCHED}" "{HZD_RECALL, HZD_STEP}"]
    by (simp_all add: a[THEN conjunct2] E(1,3) cur_def)
  have hb: "HZD_SCHED \<notin> Cpu_hazard ?B \<union> hazard (regs (cur ?B)) \<and>
            HZD_RECALL \<in> Cpu_hazard ?B \<union> hazard (regs (cur ?B))"
    by (simp add: E)
  have pb: "capability_cast_pt (Space_obj_lookup ?B (evt (cur ?B) + EXC_RECALL (kc ?B))) {} = Some 0 \<and>
           \<not> glb (ecs ?B (pt_ec (pts ?B 0))) \<and> cpu (ecs ?B (pt_ec (pts ?B 0))) = cpu (cur ?B) \<and>
           cont (ecs ?B (pt_ec (pts ?B 0))) = None \<and> pt_ec (pts ?B 0) \<noteq> current ?B"
    by (simp add: E demo_kc_def)
  have pb': "capability_cast_pt (Space_obj_lookup ?B (evt (cur ?B) + 31)) {} = Some 0"
    by (simp add: E)
  note b = ret_user_hazard_precedence[of ?B, unfolded Let_def, THEN conjunct2, THEN conjunct1,
             THEN mp, OF hb]
  note bd = b[THEN conjunct2, THEN conjunct2, THEN spec, of 0, THEN mp, OF pb, THEN bspec,
             of "ret_user_sysexit ?B", OF insertI1]
  have b1: "snd (ret_user_sysexit ?B) = Return_to_user 2"
    "dst_portal (regs (ecs (fst (ret_user_sysexit ?B)) 1)) = 31"
    "hazard (regs (ecs (fst (ret_user_sysexit ?B)) 1)) = {HZD_STEP}"
    "cont (ecs (fst (ret_user_sysexit ?B)) 2) = Some Recv_kern"
    "arg_pt (regs (ecs (fst (ret_user_sysexit ?B)) 2)) = 7"
    using bd by (auto simp add: E demo_kc_def)
  have b2: "effects (fst (ret_user_sysexit ?B)) = [Rcu_quiet]"
    by (simp add: b[THEN conjunct1] E)
  have hc: "HZD_SCHED \<notin> Cpu_hazard ?C \<union> hazard (regs (cur ?C)) \<and>
            HZD_RECALL \<notin> Cpu_hazard ?C \<union> hazard (regs (cur ?C)) \<and>
            HZD_STEP \<in> Cpu_hazard ?C \<union> hazard (regs (cur ?C))"
    by (simp add: E)
  have pc: "capability_cast_pt (Space_obj_lookup ?C (evt (cur ?C) + EXC_DB)) {} = Some 0 \<and>
           \<not> glb (ecs ?C (pt_ec (pts ?C 0))) \<and> cpu (ecs ?C (pt_ec (pts ?C 0))) = cpu (cur ?C) \<and>
           cont (ecs ?C (pt_ec (pts ?C 0))) = None \<and> pt_ec (pts ?C 0) \<noteq> current ?C"
    by (simp add: E EXC_DB_def)
  note c = ret_user_hazard_precedence[of ?C, unfolded Let_def, THEN conjunct2, THEN conjunct2,
             THEN conjunct1, THEN mp, OF hc]
  note cd = c[THEN conjunct2, THEN conjunct2, THEN spec, of 0, THEN mp, OF pc, THEN bspec,
             of "ret_user_iret ?C"]
  have c1: "snd (ret_user_iret ?C) = Return_to_user 2"
    "dst_portal (regs (ecs (fst (ret_user_iret ?C)) 1)) = 1"
    "hazard (regs (ecs (fst (ret_user_iret ?C)) 1)) = {}"
    using cd by (auto simp add: E EXC_DB_def)
  have hd: "HZD_SCHED \<notin> Cpu_hazard ?D \<union> hazard (regs (cur ?D)) \<and>
            HZD_RECALL \<notin> Cpu_hazard ?D \<union> hazard (regs (cur ?D)) \<and>
            HZD_STEP \<notin> Cpu_hazard ?D \<union> hazard (regs (cur ?D))"
    by (simp add: E)
  note d = ret_user_hazard_precedence[of ?D, unfolded Let_def, THEN conjunct2, THEN conjunct2,
             THEN conjunct2]
  have d1: "ret_user_sysexit ?D = (?D, Sysret)" "ret_user_iret ?D = (?D, Iret)"
    using d[THEN conjunct1, THEN mp, OF hd] by (simp_all add: E)
  have d2: "HZD_DS_ES \<in> sysexit_hazards ?D" "iret_hazards ?D = {}"
    using d[THEN conjunct2] by (auto simp add: E)
  show ?thesis using ha a1 a2 pb' b1 b2 c1 d1 d2 by simp
qed

subsection \<open>Claim C8\<close>

text \<open>
  C8, as the spec states it: a recall of an EC on another CPU sends a reschedule IPI to
  that CPU. The code sends it only when the hazard was not set before and the target is
  the EC that is running on that CPU. Counterexample: EC 3 is on CPU 1, the call is
  made on CPU 0, and EC 3 is not the EC running on CPU 1: the hazard is set, the status
  is \<open>SUCCESS\<close>, and no IPI is sent.
\<close>

theorem sys_ec_ctrl_recall_counterexample:
  "capability_cast_ec (Space_obj_lookup demo 12) {PERM_EC_CTRL} = Some 3 \<and>
   unat (cpu (ecs demo 3)) = 1 \<and> Cpu_id demo = 0 \<and> Ec_remote demo 1 \<noteq> 3 \<and>
   status (regs (ecs (fst (sys_ec_ctrl RECALL 12 demo)) 1)) = SUCCESS \<and>
   HZD_RECALL \<in> hazard (regs (ecs (fst (sys_ec_ctrl RECALL 12 demo)) 3)) \<and>
   effects (fst (sys_ec_ctrl RECALL 12 demo)) = [] \<and>
   Lapic_send_ipi 1 VEC_IPI_RKE \<notin> set (effects (fst (sys_ec_ctrl RECALL 12 demo)))"
  by (simp add: sys_ec_ctrl_def path_eval demo_eval)

text \<open>
  C8, amended: \<^verbatim>\<open>sys_ec_ctrl\<close> RECALL on an EC capability with the permission
  \<^verbatim>\<open>PERM_EC_CTRL\<close> finishes with \<open>SUCCESS\<close> in a state where the target's
  \<open>HZD_RECALL\<close> hazard is set; a reschedule IPI is sent to the target's CPU exactly when
  the hazard was not set before, the target's CPU is not the calling CPU and the target
  is the EC running there. When the target next is the current EC in a return to user
  mode (sysexit or iret path) with the hazard set: if no SCHED hazard is pending, the
  hazard is cleared and \<open>EXC_RECALL\<close> is delivered through
  \<^verbatim>\<open>send_msg<ret_user_iret>\<close>; if SCHED is pending, the path ends in the scheduler
  with the return function as continuation and the recall hazard still set.
\<close>

theorem sys_ec_ctrl_recall:
  assumes cap: "capability_cast_ec (Space_obj_lookup s sel) {PERM_EC_CTRL} = Some ec"
  shows "(\<exists>s1. sys_ec_ctrl RECALL sel s = sys_finish SUCCESS False s1 \<and>
               HZD_RECALL \<in> hazard (regs (ecs s1 ec)) \<and>
               effects s1 = effects s @
                 (if HZD_RECALL \<notin> hazard (regs (ecs s ec)) \<and>
                     Cpu_id s \<noteq> unat (cpu (ecs s ec)) \<and>
                     Ec_remote s (unat (cpu (ecs s ec))) = ec
                  then [Lapic_send_ipi (unat (cpu (ecs s ec))) VEC_IPI_RKE] else [])) \<and>
         (\<forall>t. current t = ec \<and> HZD_RECALL \<in> hazard (regs (cur t)) \<longrightarrow>
            (HZD_SCHED \<notin> Cpu_hazard t \<union> hazard (regs (cur t)) \<longrightarrow>
               (\<exists>t'. ret_user_sysexit t = send_msg Ret_user_iret t' \<and> current t' = ec \<and>
                     dst_portal (regs (cur t')) = EXC_RECALL (kc t) \<and>
                     HZD_RECALL \<notin> hazard (regs (cur t'))) \<and>
               (\<exists>t'. ret_user_iret t = send_msg Ret_user_iret t' \<and> current t' = ec \<and>
                     dst_portal (regs (cur t')) = EXC_RECALL (kc t) \<and>
                     HZD_RECALL \<notin> hazard (regs (cur t')))) \<and>
            (HZD_SCHED \<in> Cpu_hazard t \<union> hazard (regs (cur t)) \<longrightarrow>
               snd (ret_user_sysexit t) = Schedule False \<and>
               cont (cur (fst (ret_user_sysexit t))) = Some Ret_user_sysexit \<and>
               HZD_RECALL \<in> hazard (regs (cur (fst (ret_user_sysexit t)))) \<and>
               snd (ret_user_iret t) = Schedule False \<and>
               cont (cur (fst (ret_user_iret t))) = Some Ret_user_iret \<and>
               HZD_RECALL \<in> hazard (regs (cur (fst (ret_user_iret t))))))"
proof -
  define s1 where "s1 =
     (if HZD_RECALL \<notin> hazard (regs (ecs s ec)) then
        let s2 = upd_regs ec (\<lambda>r. r\<lparr>hazard := hazard r \<union> {HZD_RECALL}\<rparr>) s in
        if Cpu_id s2 \<noteq> unat (cpu (ecs s2 ec)) \<and> Ec_remote s2 (unat (cpu (ecs s2 ec))) = ec
        then emit (Lapic_send_ipi (unat (cpu (ecs s2 ec))) VEC_IPI_RKE) s2
        else s2
      else s)"
  have a: "sys_ec_ctrl RECALL sel s = sys_finish SUCCESS False s1"
    using cap by (simp add: sys_ec_ctrl_def s1_def)
  have b: "HZD_RECALL \<in> hazard (regs (ecs s1 ec))"
    by (simp add: s1_def Let_def)
  have c: "effects s1 = effects s @
                 (if HZD_RECALL \<notin> hazard (regs (ecs s ec)) \<and>
                     Cpu_id s \<noteq> unat (cpu (ecs s ec)) \<and>
                     Ec_remote s (unat (cpu (ecs s ec))) = ec
                  then [Lapic_send_ipi (unat (cpu (ecs s ec))) VEC_IPI_RKE] else [])"
    by (simp add: s1_def Let_def)
  have first: "\<exists>s1. sys_ec_ctrl RECALL sel s = sys_finish SUCCESS False s1 \<and>
               HZD_RECALL \<in> hazard (regs (ecs s1 ec)) \<and>
               effects s1 = effects s @
                 (if HZD_RECALL \<notin> hazard (regs (ecs s ec)) \<and>
                     Cpu_id s \<noteq> unat (cpu (ecs s ec)) \<and>
                     Ec_remote s (unat (cpu (ecs s ec))) = ec
                  then [Lapic_send_ipi (unat (cpu (ecs s ec))) VEC_IPI_RKE] else [])"
    using a b c by blast
  have second: "(HZD_SCHED \<notin> Cpu_hazard t \<union> hazard (regs (cur t)) \<longrightarrow>
               (\<exists>t'. ret_user_sysexit t = send_msg Ret_user_iret t' \<and> current t' = ec \<and>
                     dst_portal (regs (cur t')) = EXC_RECALL (kc t) \<and>
                     HZD_RECALL \<notin> hazard (regs (cur t'))) \<and>
               (\<exists>t'. ret_user_iret t = send_msg Ret_user_iret t' \<and> current t' = ec \<and>
                     dst_portal (regs (cur t')) = EXC_RECALL (kc t) \<and>
                     HZD_RECALL \<notin> hazard (regs (cur t')))) \<and>
            (HZD_SCHED \<in> Cpu_hazard t \<union> hazard (regs (cur t)) \<longrightarrow>
               snd (ret_user_sysexit t) = Schedule False \<and>
               cont (cur (fst (ret_user_sysexit t))) = Some Ret_user_sysexit \<and>
               HZD_RECALL \<in> hazard (regs (cur (fst (ret_user_sysexit t)))) \<and>
               snd (ret_user_iret t) = Schedule False \<and>
               cont (cur (fst (ret_user_iret t))) = Some Ret_user_iret \<and>
               HZD_RECALL \<in> hazard (regs (cur (fst (ret_user_iret t)))))"
    if t: "current t = ec" "HZD_RECALL \<in> hazard (regs (cur t))" for t
  proof (intro conjI impI)
    assume n: "HZD_SCHED \<notin> Cpu_hazard t \<union> hazard (regs (cur t))"
    from ret_user_sysexit_recall[OF t(2) n] t(1)
    show "\<exists>t'. ret_user_sysexit t = send_msg Ret_user_iret t' \<and> current t' = ec \<and>
                dst_portal (regs (cur t')) = EXC_RECALL (kc t) \<and>
                HZD_RECALL \<notin> hazard (regs (cur t'))" by auto
    from ret_user_iret_recall[OF t(2) n] t(1)
    show "\<exists>t'. ret_user_iret t = send_msg Ret_user_iret t' \<and> current t' = ec \<and>
                dst_portal (regs (cur t')) = EXC_RECALL (kc t) \<and>
                HZD_RECALL \<notin> hazard (regs (cur t'))" by auto
  next
    assume y: "HZD_SCHED \<in> Cpu_hazard t \<union> hazard (regs (cur t))"
    from ret_user_sched[OF y] t(2)
    show "snd (ret_user_sysexit t) = Schedule False"
      "cont (cur (fst (ret_user_sysexit t))) = Some Ret_user_sysexit"
      "HZD_RECALL \<in> hazard (regs (cur (fst (ret_user_sysexit t))))"
      "snd (ret_user_iret t) = Schedule False"
      "cont (cur (fst (ret_user_iret t))) = Some Ret_user_iret"
      "HZD_RECALL \<in> hazard (regs (cur (fst (ret_user_iret t))))"
      by simp_all
  qed
  from first second show ?thesis by blast
qed

theorem sys_ec_ctrl_recall_witness:
  "capability_cast_ec (Space_obj_lookup (demo\<lparr>Ec_remote := (\<lambda>c. 3)\<rparr>) 12) {PERM_EC_CTRL} = Some 3 \<and>
   (\<exists>s1. sys_ec_ctrl RECALL 12 (demo\<lparr>Ec_remote := (\<lambda>c. 3)\<rparr>) = sys_finish SUCCESS False s1 \<and>
         HZD_RECALL \<in> hazard (regs (ecs s1 3)) \<and>
         effects s1 = [Lapic_send_ipi 1 VEC_IPI_RKE]) \<and>
   effects (fst (sys_ec_ctrl RECALL 12 (demo\<lparr>Ec_remote := (\<lambda>c. 3)\<rparr>)))
     = [Lapic_send_ipi 1 VEC_IPI_RKE] \<and>
   (\<exists>t'. ret_user_sysexit ((fst (sys_ec_ctrl RECALL 12 demo))\<lparr>current := 3\<rparr>)
            = send_msg Ret_user_iret t' \<and> current t' = 3 \<and>
          dst_portal (regs (cur t')) = 31 \<and> HZD_RECALL \<notin> hazard (regs (cur t')))"
proof -
  let ?d = "demo\<lparr>Ec_remote := (\<lambda>c. 3)\<rparr>"
  let ?t = "(fst (sys_ec_ctrl RECALL 12 demo))\<lparr>current := 3\<rparr>"
  have cap: "capability_cast_ec (Space_obj_lookup ?d 12) {PERM_EC_CTRL} = Some 3"
    by (simp add: demo_eval)
  have f: "HZD_RECALL \<notin> hazard (regs (ecs ?d 3))" "Cpu_id ?d \<noteq> unat (cpu (ecs ?d 3))"
    "Ec_remote ?d (unat (cpu (ecs ?d 3))) = 3" "unat (cpu (ecs ?d 3)) = 1" "effects ?d = []"
    by (simp_all add: demo_eval)
  note w = sys_ec_ctrl_recall[OF cap]
  from w f have one: "\<exists>s1. sys_ec_ctrl RECALL 12 ?d = sys_finish SUCCESS False s1 \<and>
         HZD_RECALL \<in> hazard (regs (ecs s1 3)) \<and>
         effects s1 = [Lapic_send_ipi 1 VEC_IPI_RKE]"
    by simp
  have t: "current ?t = 3" "HZD_RECALL \<in> hazard (regs (cur ?t))"
    "HZD_SCHED \<notin> Cpu_hazard ?t \<union> hazard (regs (cur ?t))" "EXC_RECALL (kc ?t) = 31"
    by (simp_all add: sys_ec_ctrl_def path_eval demo_eval)
  from w t have two: "\<exists>t'. ret_user_sysexit ?t = send_msg Ret_user_iret t' \<and> current t' = 3 \<and>
          dst_portal (regs (cur t')) = 31 \<and> HZD_RECALL \<notin> hazard (regs (cur t'))"
    by metis
  have ev: "effects (fst (sys_ec_ctrl RECALL 12 ?d)) = [Lapic_send_ipi 1 VEC_IPI_RKE]"
    by (simp add: sys_ec_ctrl_def path_eval demo_eval)
  show ?thesis using cap one two ev by blast
qed

subsection \<open>Claim C9\<close>

text \<open>
  C9: \<^verbatim>\<open>Acpi_table_dmar::parse\<close> returns at once: for every table and every state
  it returns, and the state in which it returns is the state in which it was called. In
  particular no remapping structure is parsed and \<^verbatim>\<open>Dmar::enable\<close> is not called
  (the log is unchanged), and the feature bit \<open>FEAT_IOMMU\<close> is not set.
\<close>

theorem Acpi_table_dmar_parse_returns_immediately:
  "Acpi_table_dmar_parse t s = Some s \<and>
   map_option effects (Acpi_table_dmar_parse t s) = Some (effects s) \<and>
   map_option Hip_feature (Acpi_table_dmar_parse t s) = Some (Hip_feature s)"
  by (simp add: Acpi_table_dmar_parse_def)

subsection \<open>Claim C10\<close>

text \<open>
  C10: the PD that \<^verbatim>\<open>sys_create_pd\<close> creates has the passthrough flag exactly when
  the caller asked for it and the PD named as parent has it. Hence, in every run of
  hypercalls, every PD created directly or through others from PDs without passthrough
  is without passthrough, and for an EC of such a PD \<^verbatim>\<open>sys_pd_ctrl_msr_access\<close>,
  \<^verbatim>\<open>sys_machine_ctrl\<close> and \<^verbatim>\<open>sys_irq_ctrl\<close> do nothing but finish with
  \<open>BAD_CAP\<close>.
\<close>

theorem passthrough_not_escalated:
  "(\<forall>new parent. created_pd (HC_CREATE_PD r) s = Some (new, parent) \<longrightarrow>
      is_passthrough (pds (fst (sys_create_pd r s)) new)
        = (cp_is_passthrough r \<and> is_passthrough (pds s parent))) \<and>
   ((\<forall>p\<in>D. p < n_pds s \<and> \<not> is_passthrough (pds s p)) \<longrightarrow>
      (case run D s calls of (D', s') \<Rightarrow>
         D \<subseteq> D' \<and>
         (\<forall>p\<in>D'. p < n_pds s' \<and> \<not> is_passthrough (pds s' p)) \<and>
         (\<forall>e. pd (ecs s' e) \<in> D' \<longrightarrow>
            (\<forall>w i v. sys_pd_ctrl_msr_access w i v (s'\<lparr>current := e\<rparr>)
                       = sys_finish BAD_CAP False (s'\<lparr>current := e\<rparr>)) \<and>
            (\<forall>op. sys_machine_ctrl op (s'\<lparr>current := e\<rparr>)
                       = sys_finish BAD_CAP False (s'\<lparr>current := e\<rparr>)) \<and>
            (\<forall>op. sys_irq_ctrl op (s'\<lparr>current := e\<rparr>)
                       = sys_finish BAD_CAP False (s'\<lparr>current := e\<rparr>)))))"
proof -
  have one: "is_passthrough (pds (fst (sys_create_pd r s)) new)
        = (cp_is_passthrough r \<and> is_passthrough (pds s parent))"
    if "created_pd (HC_CREATE_PD r) s = Some (new, parent)" for new parent
    using that by (rule created_pd_flag(1))
  have two: "(case run D s calls of (D', s') \<Rightarrow>
         D \<subseteq> D' \<and>
         (\<forall>p\<in>D'. p < n_pds s' \<and> \<not> is_passthrough (pds s' p)) \<and>
         (\<forall>e. pd (ecs s' e) \<in> D' \<longrightarrow>
            (\<forall>w i v. sys_pd_ctrl_msr_access w i v (s'\<lparr>current := e\<rparr>)
                       = sys_finish BAD_CAP False (s'\<lparr>current := e\<rparr>)) \<and>
            (\<forall>op. sys_machine_ctrl op (s'\<lparr>current := e\<rparr>)
                       = sys_finish BAD_CAP False (s'\<lparr>current := e\<rparr>)) \<and>
            (\<forall>op. sys_irq_ctrl op (s'\<lparr>current := e\<rparr>)
                       = sys_finish BAD_CAP False (s'\<lparr>current := e\<rparr>))))"
    if inv: "\<forall>p\<in>D. p < n_pds s \<and> \<not> is_passthrough (pds s p)"
  proof -
    obtain D' s' where rn: "run D s calls = (D', s')" by (cases "run D s calls")
    from run_invariant[OF inv, of calls] rn
    have sub: "D \<subseteq> D'" and all: "\<forall>p\<in>D'. p < n_pds s' \<and> \<not> is_passthrough (pds s' p)"
      by auto
    have gate: "sys_pd_ctrl_msr_access w i v (s'\<lparr>current := e\<rparr>)
                  = sys_finish BAD_CAP False (s'\<lparr>current := e\<rparr>)"
        "sys_machine_ctrl mop (s'\<lparr>current := e\<rparr>) = sys_finish BAD_CAP False (s'\<lparr>current := e\<rparr>)"
        "sys_irq_ctrl iop (s'\<lparr>current := e\<rparr>) = sys_finish BAD_CAP False (s'\<lparr>current := e\<rparr>)"
      if "pd (ecs s' e) \<in> D'" for e w i v mop iop
      using all that
      by (auto simp: sys_pd_ctrl_msr_access_def sys_machine_ctrl_def sys_irq_ctrl_def
            Pd_current_def cur_def)
    show ?thesis unfolding rn using sub all gate by auto
  qed
  from one two show ?thesis by blast
qed

theorem passthrough_not_escalated_witness:
  "(1::nat) < n_pds demo \<and> \<not> is_passthrough (pds demo 1) \<and> is_passthrough (pds demo 0) \<and>
   created_pd (HC_CREATE_PD demo_pd_args) demo = Some (2, 1) \<and>
   \<not> is_passthrough (pds (fst (sys_create_pd demo_pd_args demo)) 2) \<and>
   created_pd (HC_CREATE_PD (demo_pd_args\<lparr>cp_pd := 13\<rparr>)) demo = Some (2, 0) \<and>
   is_passthrough (pds (fst (sys_create_pd (demo_pd_args\<lparr>cp_pd := 13\<rparr>) demo)) 2) \<and>
   fst (run {1} demo [(1, HC_CREATE_PD demo_pd_args)]) = {1, 2} \<and>
   \<not> is_passthrough (pds (snd (run {1} demo [(1, HC_CREATE_PD demo_pd_args)])) 2) \<and>
   pd (ecs (snd (run {1} demo [(1, HC_CREATE_PD demo_pd_args)])) 5) = 1 \<and>
   sys_machine_ctrl SUSPEND ((snd (run {1} demo [(1, HC_CREATE_PD demo_pd_args)]))\<lparr>current := 5\<rparr>)
     = sys_finish BAD_CAP False
         ((snd (run {1} demo [(1, HC_CREATE_PD demo_pd_args)]))\<lparr>current := 5\<rparr>) \<and>
   sys_irq_ctrl ASSIGN_MSI ((snd (run {1} demo [(1, HC_CREATE_PD demo_pd_args)]))\<lparr>current := 5\<rparr>)
     = sys_finish BAD_CAP False
         ((snd (run {1} demo [(1, HC_CREATE_PD demo_pd_args)]))\<lparr>current := 5\<rparr>) \<and>
   sys_pd_ctrl_msr_access True 16 0
       ((snd (run {1} demo [(1, HC_CREATE_PD demo_pd_args)]))\<lparr>current := 5\<rparr>)
     = sys_finish BAD_CAP False
         ((snd (run {1} demo [(1, HC_CREATE_PD demo_pd_args)]))\<lparr>current := 5\<rparr>)"
proof -
  let ?calls = "[(1::nat, HC_CREATE_PD demo_pd_args)]"
  have d: "(1::nat) < n_pds demo" "\<not> is_passthrough (pds demo 1)" "is_passthrough (pds demo 0)"
    "current demo = 1" "demo\<lparr>current := Suc 0\<rparr> = demo"
    by (simp_all add: demo_eval)
  have inv: "\<forall>p\<in>{1::nat}. p < n_pds demo \<and> \<not> is_passthrough (pds demo p)"
    using d by simp
  have cr: "created_pd (HC_CREATE_PD demo_pd_args) demo = Some (2, 1)"
    by (rule sys_create_pd_demo(5))
  have D: "fst (run {1} demo ?calls) = {1, 2}"
    by (auto simp: Let_def d cr)
  have s': "snd (run {1} demo ?calls) = fst (sys_create_pd demo_pd_args demo)"
    by (simp add: Let_def d)
  note w = passthrough_not_escalated[of demo_pd_args demo "{1}" ?calls]
  from w cr d have new: "\<not> is_passthrough (pds (fst (sys_create_pd demo_pd_args demo)) 2)"
    by simp
  obtain D' t where rn: "run {1} demo ?calls = (D', t)" by (cases "run {1} demo ?calls")
  with D s' have D': "D' = {1, 2}" and t: "t = fst (sys_create_pd demo_pd_args demo)"
    by simp_all
  note w2 = w[THEN conjunct2, THEN mp, OF inv, unfolded rn prod.case]
  note g = w2[THEN conjunct2, THEN conjunct2]
  note n2 = w2[THEN conjunct2, THEN conjunct1]
  have p5: "pd (ecs t 5) \<in> D'" by (simp add: D' t sys_create_pd_demo(2))
  have gates:
    "sys_machine_ctrl SUSPEND (t\<lparr>current := 5\<rparr>) = sys_finish BAD_CAP False (t\<lparr>current := 5\<rparr>)"
    "sys_irq_ctrl ASSIGN_MSI (t\<lparr>current := 5\<rparr>) = sys_finish BAD_CAP False (t\<lparr>current := 5\<rparr>)"
    "sys_pd_ctrl_msr_access True 16 0 (t\<lparr>current := 5\<rparr>)
       = sys_finish BAD_CAP False (t\<lparr>current := 5\<rparr>)"
    using g[rule_format, OF p5] by simp_all
  from n2 D' have np: "\<not> is_passthrough (pds t 2)" by simp
  show ?thesis
    using d(1-3) cr new sys_create_pd_demo(3,4) D gates np
    unfolding s' t[symmetric] by (simp add: sys_create_pd_demo(2)[folded t])
qed

end
